theory Spec2Isabelle
  imports Main "HOL-Library.Word"
begin

section \<open>Job portal server: request handlers over a relational store\<close>

text \<open>
  The server is one Express application. Every route handler reads the request, runs one or
  two SQL statements against the tables \<open>admins\<close> and \<open>jobs\<close>, and answers with a status
  code and a JSON body. The embedding below follows the handlers statement by statement:

  \<^item> a handler is a function from its inputs and the datastore to a response (and, for a
    mutation, the new datastore);
  \<^item> an SQL statement is the list operation it denotes on the table, or a failure when the
    datastore rejects a bound parameter or the row; a failure makes the query throw, and
    the handler's \<open>catch\<close> answers 500;
  \<^item> \<open>CURRENT_TIMESTAMP\<close> is an explicit argument \<open>now\<close>, the reading of the datastore
    clock for that statement, and the value the \<open>jobs.id\<close> sequence yields for an insert
    is an argument \<open>nextval\<close>;
  \<^item> the library functions the handlers call (the runtime's \<open>parseInt\<close>, the
    datastore's \<open>ILIKE\<close> and its reading of an \<open>INTEGER\<close> from text, the password hash
    comparison, the token library) are arguments of the handlers that use them.

  What the datastore rejects, from the schema of \<open>initDatabase\<close>: a text parameter with
  a NUL character; a string longer than its \<open>VARCHAR(n)\<close> column, unless the excess is
  spaces, which are cut off; a number outside 32 bits for an \<open>INTEGER\<close> column; an
  \<open>id\<close> that does not read as a 32-bit integer; an \<open>OFFSET\<close> outside 64 bits; \<open>NULL\<close>
  for a \<open>NOT NULL\<close> column; an exhausted sequence or an \<open>id\<close> already in the table. A
  rejected parameter fails the statement whether or not a row matches. A datastore that
  cannot be reached is not represented.

  Conventions. A request is taken as Express hands it to the route, after the JSON body
  parser and the query-string parser. A string is the list of the UTF-8 bytes of a
  JavaScript string; the Vietnamese messages of the source are written so. A body field
  carries a value of the JSON type its column has (string, integer number, boolean), or
  is \<open>null\<close>, or is absent; a query-string parameter is a string or absent; the route
  parameter \<open>:id\<close> is a string. Numbers are the integers among the IEEE doubles, the two
  infinities and \<open>NaN\<close>; arithmetic rounds to the nearest double, ties to even.
\<close>

subsection \<open>JavaScript values\<close>

text \<open>A body field: absent (\<open>undefined\<close>), \<open>null\<close>, or a value.\<close>

datatype 'a js = Undefined | Null | Val 'a

text \<open>Truthiness (\<open>!x\<close>, \<open>x || d\<close>): the empty string and the number 0 are falsy.\<close>

definition truthy_str :: "string js \<Rightarrow> bool" where
  "truthy_str v = (case v of Val s \<Rightarrow> s \<noteq> [] | _ \<Rightarrow> False)"

text \<open>\<open>x || null\<close> as the query parameter it becomes: \<open>NULL\<close> for every falsy \<open>x\<close>.\<close>

definition str_or_null :: "string js \<Rightarrow> string option" where
  "str_or_null v = (case v of Val s \<Rightarrow> (if s = [] then None else Some s) | _ \<Rightarrow> None)"

definition num_or_null :: "int js \<Rightarrow> int option" where
  "num_or_null v = (case v of Val n \<Rightarrow> (if n = 0 then None else Some n) | _ \<Rightarrow> None)"

text \<open>\<open>x || 'default'\<close>.\<close>

definition str_or_default :: "string js \<Rightarrow> string \<Rightarrow> string" where
  "str_or_default v d = (case v of Val s \<Rightarrow> (if s = [] then d else s) | _ \<Rightarrow> d)"

text \<open>
  A value bound to a query parameter as it is: \<open>null\<close> and \<open>undefined\<close> are both sent
  as \<open>NULL\<close>.
\<close>

definition sql_param :: "'a js \<Rightarrow> 'a option" where
  "sql_param v = (case v of Val x \<Rightarrow> Some x | _ \<Rightarrow> None)"

text \<open>\<open>Number(x)\<close>; \<open>None\<close> is \<open>NaN\<close>.\<close>

definition Number :: "int js \<Rightarrow> int option" where
  "Number v = (case v of Val n \<Rightarrow> Some n | Null \<Rightarrow> Some 0 | Undefined \<Rightarrow> None)"

subsection \<open>Numbers\<close>

text \<open>
  The numbers of the pagination arithmetic: an integer-valued double or an infinity.
  \<open>NaN\<close> is \<open>None\<close> of \<open>number option\<close>.
\<close>

datatype number = Num int | PosInf | NegInf

text \<open>\<open>x < y\<close> on numbers.\<close>

fun num_less :: "number \<Rightarrow> number \<Rightarrow> bool" where
  "num_less (Num a) (Num b) = (a < b)"
| "num_less NegInf NegInf = False"
| "num_less NegInf _ = True"
| "num_less (Num a) PosInf = True"
| "num_less _ _ = False"

text \<open>
  Rounding a non-negative integer to a double. A double has 53 significant bits:
  \<open>double_shift n\<close> is the number of low bits of \<open>n\<close> that do not fit, and
  \<open>round_double\<close> rounds them away to the nearest, a tie to the even neighbour.
\<close>

function double_shift :: "int \<Rightarrow> nat" where
  "double_shift n = (if n < 2 ^ 53 then 0 else Suc (double_shift (n div 2)))"
  by pat_completeness auto
termination
  by (relation "measure nat") auto

declare double_shift.simps [simp del]

definition round_double :: "int \<Rightarrow> int" where
  "round_double n =
     (let k = double_shift n; q = n div 2 ^ k; r = n mod 2 ^ k
      in (if 2 ^ k < 2 * r \<or> (2 * r = 2 ^ k \<and> odd q) then q + 1 else q) * 2 ^ k)"

text \<open>The double nearest to an integer; from \<open>2^1024\<close> on, an infinity.\<close>

definition to_double :: "int \<Rightarrow> number" where
  "to_double x =
     (let v = round_double \<bar>x\<bar>
      in if 2 ^ 1024 \<le> v then (if x < 0 then NegInf else PosInf)
         else Num (if x < 0 then - v else v))"

subsection \<open>Pagination parameters\<close>

text \<open>
  \<open>q || d\<close> on a query-string parameter. \<open>parseInt\<close> is the runtime's: it gives \<open>NaN\<close>
  or a number. \<open>n || d\<close> on its result: \<open>NaN\<close> and 0 are falsy.
\<close>

definition query_or :: "string option \<Rightarrow> string \<Rightarrow> string" where
  "query_or q d = (case q of Some s \<Rightarrow> (if s = [] then d else s) | None \<Rightarrow> d)"

definition number_or :: "number option \<Rightarrow> int \<Rightarrow> number" where
  "number_or x d =
     (case x of
        None \<Rightarrow> Num d
      | Some (Num n) \<Rightarrow> (if n = 0 then Num d else Num n)
      | Some PosInf \<Rightarrow> PosInf
      | Some NegInf \<Rightarrow> NegInf)"

text \<open>\<open>Math.max(1, parseInt(req.query.page || '1', 10) || 1)\<close>\<close>

definition pageInt :: "(string \<Rightarrow> number option) \<Rightarrow> string option \<Rightarrow> number" where
  "pageInt parseInt page =
     (case number_or (parseInt (query_or page ''1'')) 1 of
        Num n \<Rightarrow> Num (max 1 n)
      | PosInf \<Rightarrow> PosInf
      | NegInf \<Rightarrow> Num 1)"

text \<open>\<open>Math.min(100, Math.max(1, parseInt(req.query.limit || '10', 10) || 10))\<close>\<close>

definition limitInt :: "(string \<Rightarrow> number option) \<Rightarrow> string option \<Rightarrow> int" where
  "limitInt parseInt limit =
     (case number_or (parseInt (query_or limit ''10'')) 10 of
        Num n \<Rightarrow> min 100 (max 1 n)
      | PosInf \<Rightarrow> 100
      | NegInf \<Rightarrow> 1)"

text \<open>
  \<open>(pageInt - 1) * limitInt\<close>, each operation rounded. \<open>limitInt\<close> is positive, so an
  infinity keeps its sign.
\<close>

definition offset :: "number \<Rightarrow> int \<Rightarrow> number" where
  "offset page lim =
     (case page of
        Num p \<Rightarrow> (case to_double (p - 1) of
                    Num m \<Rightarrow> to_double (m * lim)
                  | PosInf \<Rightarrow> PosInf
                  | NegInf \<Rightarrow> NegInf)
      | PosInf \<Rightarrow> PosInf
      | NegInf \<Rightarrow> NegInf)"

subsection \<open>What the datastore accepts\<close>

text \<open>An \<open>INTEGER\<close> is a signed 32-bit word; a number outside its range is rejected.\<close>

type_synonym int4 = "32 word"

definition to_int4 :: "int \<Rightarrow> int4 option" where
  "to_int4 i = (if - (2 ^ 31) \<le> i \<and> i < 2 ^ 31 then Some (word_of_int i) else None)"

text \<open>
  The parameter of \<open>OFFSET\<close> is a 64-bit integer and must not be negative. The driver
  sends a number as its decimal text, the shortest that reads back as the same double: a
  double below \<open>2^63\<close> is in range, \<open>2^63\<close> and the infinities are not. Beyond \<open>2^53\<close>
  that text may name a neighbouring integer; it is taken to name the double itself, both
  lying beyond the end of any table.
\<close>

definition offset_param :: "number \<Rightarrow> nat option" where
  "offset_param off =
     (case off of
        Num v \<Rightarrow> (if 0 \<le> v \<and> v < 2 ^ 63 then Some (nat v) else None)
      | PosInf \<Rightarrow> None
      | NegInf \<Rightarrow> None)"

text \<open>A text value must not contain the NUL character.\<close>

definition pg_text :: "string \<Rightarrow> bool" where
  "pg_text s = (CHR 0x00 \<notin> set s)"

text \<open>
  The length of a text in characters: the bytes that are not UTF-8 continuation bytes.
\<close>

definition utf8_length :: "string \<Rightarrow> nat" where
  "utf8_length s =
     length (filter (\<lambda>c. \<not> (128 \<le> (of_char c :: nat) \<and> (of_char c :: nat) < 192)) s)"

text \<open>
  Storing into a \<open>VARCHAR(n)\<close> column: a value of at most \<open>n\<close> characters is stored as
  it is; a longer one is rejected unless the characters beyond the \<open>n\<close>-th are all spaces,
  which are then cut off. \<open>TEXT\<close> has no limit.
\<close>

definition varchar :: "nat \<Rightarrow> string \<Rightarrow> string option" where
  "varchar n s =
     (if \<not> pg_text s then None
      else if utf8_length s \<le> n then Some s
      else if list_all (\<lambda>c. c = CHR '' '') (drop (length s - (utf8_length s - n)) s)
      then Some (take (length s - (utf8_length s - n)) s)
      else None)"

definition text_column :: "string \<Rightarrow> string option" where
  "text_column s = (if pg_text s then Some s else None)"

text \<open>
  A nullable parameter bound to a column that converts with \<open>f\<close>: \<open>NULL\<close> is always
  accepted and stored as \<open>NULL\<close>.
\<close>

definition accepted :: "('a \<Rightarrow> 'b option) \<Rightarrow> 'a option \<Rightarrow> bool" where
  "accepted f v = (case v of None \<Rightarrow> True | Some x \<Rightarrow> f x \<noteq> None)"

definition stored :: "('a \<Rightarrow> 'b option) \<Rightarrow> 'a option \<Rightarrow> 'b option" where
  "stored f v = (case v of None \<Rightarrow> None | Some x \<Rightarrow> f x)"

subsection \<open>Tables\<close>

text \<open>
  The \<open>jobs\<close> table of \<open>initDatabase\<close>. The columns the public listing selects form the
  parent record; \<open>is_active\<close>, which that listing leaves out, extends it. Columns without
  \<open>NOT NULL\<close> are options. Timestamps are clock readings.
\<close>

record job_public =
  job_id :: int4
  title :: string
  company :: string
  location :: string
  salary_min :: "int4 option"
  salary_max :: "int4 option"
  salary_currency :: "string option"
  job_type :: "string option"
  description :: string
  requirements :: "string option"
  benefits :: "string option"
  contact_email :: string
  contact_phone :: "string option"
  created_at :: int
  updated_at :: int

record job = job_public +
  is_active :: "bool option"

record admin =
  admin_id :: int4
  username :: string
  password :: string
  email :: string

text \<open>The datastore: both tables.\<close>

record db =
  jobs :: "job list"
  admins :: "admin list"

subsection \<open>Responses\<close>

record pagination =
  currentPage :: number
  totalPages :: int
  totalJobs :: int

record pagination_nav = pagination +
  hasNext :: bool
  hasPrev :: bool

record admin_info =
  info_id :: int
  info_username :: string
  info_email :: string

datatype body =
    Message string
  | JobRow job
  | MessageJob string job
  | PublicPage "job_public list" pagination_nav
  | AdminPage "job list" pagination
  | LoginOk string string admin_info

record response =
  status :: nat
  body :: body

definition json :: "nat \<Rightarrow> body \<Rightarrow> response" where
  "json code b = \<lparr>status = code, body = b\<rparr>"

text \<open>Reading a response body: the \<open>jobs\<close> array of a listing, the \<open>job\<close> of a mutation.\<close>

fun public_rows :: "body \<Rightarrow> job_public list" where
  "public_rows (PublicPage rows _) = rows"
| "public_rows _ = []"

fun admin_rows :: "body \<Rightarrow> job list" where
  "admin_rows (AdminPage rows _) = rows"
| "admin_rows _ = []"

fun body_job :: "body \<Rightarrow> job option" where
  "body_job (JobRow j) = Some j"
| "body_job (MessageJob _ j) = Some j"
| "body_job _ = None"

subsection \<open>Messages\<close>

text \<open>The message strings of the source, as UTF-8 bytes.\<close>

definition msg_token_required :: string where
  "msg_token_required = ''Access token required''"

definition msg_invalid_token :: string where
  "msg_invalid_token = ''Invalid token''"

definition msg_login_required :: string where
  "msg_login_required = ''Username v'' @ [CHR 0xC3, CHR 0xA0] @ '' password l'' @ [CHR 0xC3, CHR 0xA0] @ '' b'' @ [CHR 0xE1, CHR 0xBA, CHR 0xAF] @ ''t bu'' @ [CHR 0xE1, CHR 0xBB, CHR 0x99] @ ''c''"

definition msg_account_not_found :: string where
  "msg_account_not_found = ''T'' @ [CHR 0xC3, CHR 0xA0] @ ''i kho'' @ [CHR 0xE1, CHR 0xBA, CHR 0xA3] @ ''n kh'' @ [CHR 0xC3, CHR 0xB4] @ ''ng t'' @ [CHR 0xE1, CHR 0xBB, CHR 0x93] @ ''n t'' @ [CHR 0xE1, CHR 0xBA, CHR 0xA1] @ ''i''"

definition msg_wrong_password :: string where
  "msg_wrong_password = ''M'' @ [CHR 0xE1, CHR 0xBA, CHR 0xAD] @ ''t kh'' @ [CHR 0xE1, CHR 0xBA, CHR 0xA9] @ ''u kh'' @ [CHR 0xC3, CHR 0xB4] @ ''ng '' @ [CHR 0xC4, CHR 0x91, CHR 0xC3, CHR 0xBA] @ ''ng''"

definition msg_login_ok :: string where
  "msg_login_ok = [CHR 0xC4, CHR 0x90, CHR 0xC4, CHR 0x83] @ ''ng nh'' @ [CHR 0xE1, CHR 0xBA, CHR 0xAD] @ ''p th'' @ [CHR 0xC3, CHR 0xA0] @ ''nh c'' @ [CHR 0xC3, CHR 0xB4] @ ''ng''"

definition msg_server_error :: string where
  "msg_server_error = ''L'' @ [CHR 0xE1, CHR 0xBB, CHR 0x97] @ ''i server''"

definition msg_job_not_found :: string where
  "msg_job_not_found = ''Kh'' @ [CHR 0xC3, CHR 0xB4] @ ''ng t'' @ [CHR 0xC3, CHR 0xAC] @ ''m th'' @ [CHR 0xE1, CHR 0xBA, CHR 0xA5] @ ''y c'' @ [CHR 0xC3, CHR 0xB4] @ ''ng vi'' @ [CHR 0xE1, CHR 0xBB, CHR 0x87] @ ''c''"

definition msg_required_fields :: string where
  "msg_required_fields = ''Ti'' @ [CHR 0xC3, CHR 0xAA] @ ''u '' @ [CHR 0xC4, CHR 0x91, CHR 0xE1, CHR 0xBB, CHR 0x81] @ '', c'' @ [CHR 0xC3, CHR 0xB4] @ ''ng ty, '' @ [CHR 0xC4, CHR 0x91, CHR 0xE1, CHR 0xBB, CHR 0x8B] @ ''a '' @ [CHR 0xC4, CHR 0x91] @ ''i'' @ [CHR 0xE1, CHR 0xBB, CHR 0x83] @ ''m, m'' @ [CHR 0xC3, CHR 0xB4] @ '' t'' @ [CHR 0xE1, CHR 0xBA, CHR 0xA3] @ '' v'' @ [CHR 0xC3, CHR 0xA0] @ '' email li'' @ [CHR 0xC3, CHR 0xAA] @ ''n h'' @ [CHR 0xE1, CHR 0xBB, CHR 0x87] @ '' l'' @ [CHR 0xC3, CHR 0xA0] @ '' b'' @ [CHR 0xE1, CHR 0xBA, CHR 0xAF] @ ''t bu'' @ [CHR 0xE1, CHR 0xBB, CHR 0x99] @ ''c''"

definition msg_salary_range :: string where
  "msg_salary_range = ''L'' @ [CHR 0xC6, CHR 0xB0, CHR 0xC6, CHR 0xA1] @ ''ng t'' @ [CHR 0xE1, CHR 0xBB, CHR 0x91] @ ''i thi'' @ [CHR 0xE1, CHR 0xBB, CHR 0x83] @ ''u kh'' @ [CHR 0xC3, CHR 0xB4] @ ''ng '' @ [CHR 0xC4, CHR 0x91, CHR 0xC6, CHR 0xB0, CHR 0xE1, CHR 0xBB, CHR 0xA3] @ ''c l'' @ [CHR 0xE1, CHR 0xBB, CHR 0x9B] @ ''n h'' @ [CHR 0xC6, CHR 0xA1] @ ''n l'' @ [CHR 0xC6, CHR 0xB0, CHR 0xC6, CHR 0xA1] @ ''ng t'' @ [CHR 0xE1, CHR 0xBB, CHR 0x91] @ ''i '' @ [CHR 0xC4, CHR 0x91] @ ''a''"

definition msg_created :: string where
  "msg_created = ''T'' @ [CHR 0xE1, CHR 0xBA, CHR 0xA1] @ ''o c'' @ [CHR 0xC3, CHR 0xB4] @ ''ng vi'' @ [CHR 0xE1, CHR 0xBB, CHR 0x87] @ ''c th'' @ [CHR 0xC3, CHR 0xA0] @ ''nh c'' @ [CHR 0xC3, CHR 0xB4] @ ''ng''"

definition msg_updated :: string where
  "msg_updated = ''C'' @ [CHR 0xE1, CHR 0xBA, CHR 0xAD] @ ''p nh'' @ [CHR 0xE1, CHR 0xBA, CHR 0xAD] @ ''t c'' @ [CHR 0xC3, CHR 0xB4] @ ''ng vi'' @ [CHR 0xE1, CHR 0xBB, CHR 0x87] @ ''c th'' @ [CHR 0xC3, CHR 0xA0] @ ''nh c'' @ [CHR 0xC3, CHR 0xB4] @ ''ng''"

definition msg_activate :: string where
  "msg_activate = ''K'' @ [CHR 0xC3, CHR 0xAD] @ ''ch ho'' @ [CHR 0xE1, CHR 0xBA, CHR 0xA1] @ ''t''"

definition msg_deactivate :: string where
  "msg_deactivate = ''V'' @ [CHR 0xC3, CHR 0xB4] @ '' hi'' @ [CHR 0xE1, CHR 0xBB, CHR 0x87] @ ''u h'' @ [CHR 0xC3, CHR 0xB3] @ ''a''"

definition msg_toggle_suffix :: string where
  "msg_toggle_suffix = '' c'' @ [CHR 0xC3, CHR 0xB4] @ ''ng vi'' @ [CHR 0xE1, CHR 0xBB, CHR 0x87] @ ''c th'' @ [CHR 0xC3, CHR 0xA0] @ ''nh c'' @ [CHR 0xC3, CHR 0xB4] @ ''ng''"

subsection \<open>Job query service\<close>

text \<open>
  The query string of a listing request. The admin listing reads \<open>search\<close>, \<open>page\<close> and
  \<open>limit\<close> only.
\<close>

record listing_query =
  q_search :: "string option"
  q_location :: "string option"
  q_job_type :: "string option"
  q_page :: "string option"
  q_limit :: "string option"

text \<open>
  The \<open>WHERE\<close> clauses. Each optional clause is appended only when its parameter is
  truthy. \<open>ilike\<close> is the datastore's case-insensitive pattern match (value, then
  pattern); the pattern is the parameter between two \<open>%\<close>. A \<open>NULL\<close> \<open>job_type\<close>
  equals no parameter.
\<close>

definition search_clause :: "(string \<Rightarrow> string \<Rightarrow> bool) \<Rightarrow> string option \<Rightarrow> job \<Rightarrow> bool" where
  "search_clause ilike search j =
     (case search of
        None \<Rightarrow> True
      | Some s \<Rightarrow> (if s = [] then True
                  else ilike (title j) (''%'' @ s @ ''%'') \<or> ilike (company j) (''%'' @ s @ ''%'')))"

definition location_clause :: "(string \<Rightarrow> string \<Rightarrow> bool) \<Rightarrow> string option \<Rightarrow> job \<Rightarrow> bool" where
  "location_clause ilike loc j =
     (case loc of
        None \<Rightarrow> True
      | Some s \<Rightarrow> (if s = [] then True else ilike (location j) (''%'' @ s @ ''%'')))"

definition job_type_clause :: "string option \<Rightarrow> job \<Rightarrow> bool" where
  "job_type_clause jt j =
     (case jt of
        None \<Rightarrow> True
      | Some s \<Rightarrow> (if s = [] then True else job_type j = Some s))"

definition public_where :: "(string \<Rightarrow> string \<Rightarrow> bool) \<Rightarrow> listing_query \<Rightarrow> job \<Rightarrow> bool" where
  "public_where ilike q j =
     (is_active j = Some True \<and> search_clause ilike (q_search q) j
      \<and> location_clause ilike (q_location q) j \<and> job_type_clause (q_job_type q) j)"

text \<open>
  The text parameters a listing binds: the truthy ones, each of which the datastore
  rejects if it contains NUL.
\<close>

definition query_text :: "string option \<Rightarrow> bool" where
  "query_text p = (case p of None \<Rightarrow> True | Some s \<Rightarrow> s = [] \<or> pg_text s)"

text \<open>
  \<open>ORDER BY created_at DESC\<close>. Rows with equal \<open>created_at\<close> stay in table order; the
  datastore leaves their order open.
\<close>

definition order_by_created_desc :: "job list \<Rightarrow> job list" where
  "order_by_created_desc rows = sort_key (\<lambda>j. - created_at j) rows"

text \<open>\<open>LIMIT l OFFSET o\<close>.\<close>

definition limit_offset :: "int \<Rightarrow> nat \<Rightarrow> 'a list \<Rightarrow> 'a list" where
  "limit_offset l off rows = take (nat l) (drop off rows)"

text \<open>
  The first statement of a listing, \<open>SELECT ... WHERE ... ORDER BY created_at DESC LIMIT
  $n OFFSET $m\<close>, with its text parameters: the page of rows, or a failure.
\<close>

definition select_page ::
  "string option list \<Rightarrow> (job \<Rightarrow> bool) \<Rightarrow> int \<Rightarrow> number \<Rightarrow> job list \<Rightarrow> job list option" where
  "select_page params cond lim off rows =
     (if \<not> list_all query_text params then None
      else (case offset_param off of
              None \<Rightarrow> None
            | Some n \<Rightarrow> Some (limit_offset lim n (order_by_created_desc (filter cond rows)))))"

text \<open>
  \<open>Math.ceil(totalJobs / limitInt)\<close> for a positive \<open>limitInt\<close>, the count being far
  below \<open>2^53\<close>.
\<close>

definition ceil_div :: "int \<Rightarrow> int \<Rightarrow> int" where
  "ceil_div a b = - ((- a) div b)"

text \<open>
  The handler of \<open>GET /api/jobs\<close>. The count statement binds the same text parameters
  as the first, so it does not fail after it.
\<close>

definition get_jobs ::
  "(string \<Rightarrow> number option) \<Rightarrow> (string \<Rightarrow> string \<Rightarrow> bool) \<Rightarrow> listing_query \<Rightarrow> db \<Rightarrow> response" where
  "get_jobs parseInt ilike q d =
     (let page = pageInt parseInt (q_page q);
          lim = limitInt parseInt (q_limit q);
          off = offset page lim
      in (case select_page [q_search q, q_location q, q_job_type q] (public_where ilike q)
                 lim off (jobs d) of
            None \<Rightarrow> json 500 (Message msg_server_error)
          | Some result \<Rightarrow>
              (let total = int (length (filter (public_where ilike q) (jobs d)));
                   pages = ceil_div total lim
               in json 200 (PublicPage (map job_public.truncate result)
                    \<lparr>currentPage = page, totalPages = pages, totalJobs = total,
                     hasNext = num_less page (Num pages), hasPrev = num_less (Num 1) page\<rparr>))))"

text \<open>
  The handler of \<open>GET /api/jobs/:id\<close>. \<open>int4in\<close> is the datastore's reading of an
  \<open>INTEGER\<close> from the text of a parameter; a text it does not read fails the statement.
\<close>

definition get_job :: "(string \<Rightarrow> int4 option) \<Rightarrow> string \<Rightarrow> db \<Rightarrow> response" where
  "get_job int4in i d =
     (case int4in i of
        None \<Rightarrow> json 500 (Message msg_server_error)
      | Some k \<Rightarrow>
          (case filter (\<lambda>j. job_id j = k \<and> is_active j = Some True) (jobs d) of
             [] \<Rightarrow> json 404 (Message msg_job_not_found)
           | row # _ \<Rightarrow> json 200 (JobRow row)))"

text \<open>The handler of \<open>GET /api/admin/jobs\<close>.\<close>

definition admin_get_jobs ::
  "(string \<Rightarrow> number option) \<Rightarrow> (string \<Rightarrow> string \<Rightarrow> bool) \<Rightarrow> listing_query \<Rightarrow> db \<Rightarrow> response" where
  "admin_get_jobs parseInt ilike q d =
     (let page = pageInt parseInt (q_page q);
          lim = limitInt parseInt (q_limit q);
          off = offset page lim
      in (case select_page [q_search q] (search_clause ilike (q_search q)) lim off (jobs d) of
            None \<Rightarrow> json 500 (Message msg_server_error)
          | Some result \<Rightarrow>
              (let total = int (length (filter (search_clause ilike (q_search q)) (jobs d)));
                   pages = ceil_div total lim
               in json 200 (AdminPage result
                    \<lparr>currentPage = page, totalPages = pages, totalJobs = total\<rparr>))))"

text \<open>The handler of \<open>GET /api/admin/jobs/:id\<close>.\<close>

definition admin_get_job :: "(string \<Rightarrow> int4 option) \<Rightarrow> string \<Rightarrow> db \<Rightarrow> response" where
  "admin_get_job int4in i d =
     (case int4in i of
        None \<Rightarrow> json 500 (Message msg_server_error)
      | Some k \<Rightarrow>
          (case filter (\<lambda>j. job_id j = k) (jobs d) of
             [] \<Rightarrow> json 404 (Message msg_job_not_found)
           | row # _ \<Rightarrow> json 200 (JobRow row)))"

subsection \<open>Job mutation service\<close>

text \<open>The JSON body of a create or update request (create does not read \<open>is_active\<close>).\<close>

record job_body =
  b_title :: "string js"
  b_company :: "string js"
  b_location :: "string js"
  b_salary_min :: "int js"
  b_salary_max :: "int js"
  b_salary_currency :: "string js"
  b_job_type :: "string js"
  b_description :: "string js"
  b_requirements :: "string js"
  b_benefits :: "string js"
  b_contact_email :: "string js"
  b_contact_phone :: "string js"
  b_is_active :: "bool js"

text \<open>\<open>!title || !company || !location || !description || !contact_email\<close>\<close>

definition required_missing :: "job_body \<Rightarrow> bool" where
  "required_missing b =
     (\<not> truthy_str (b_title b) \<or> \<not> truthy_str (b_company b) \<or> \<not> truthy_str (b_location b)
      \<or> \<not> truthy_str (b_description b) \<or> \<not> truthy_str (b_contact_email b))"

text \<open>The salary range check: both present, both numbers, and the minimum larger.\<close>

definition salary_range_invalid :: "job_body \<Rightarrow> bool" where
  "salary_range_invalid b =
     (if b_salary_min b \<noteq> Null \<and> b_salary_min b \<noteq> Undefined
         \<and> b_salary_max b \<noteq> Null \<and> b_salary_max b \<noteq> Undefined
      then (case (Number (b_salary_min b), Number (b_salary_max b)) of
              (Some minNum, Some maxNum) \<Rightarrow> minNum > maxNum
            | _ \<Rightarrow> False)
      else False)"

text \<open>The parameter array of the \<open>INSERT\<close>, and of the \<open>UPDATE\<close> with \<open>is_active\<close> added.\<close>

record job_values =
  v_title :: "string option"
  v_company :: "string option"
  v_location :: "string option"
  v_salary_min :: "int option"
  v_salary_max :: "int option"
  v_salary_currency :: "string option"
  v_job_type :: "string option"
  v_description :: "string option"
  v_requirements :: "string option"
  v_benefits :: "string option"
  v_contact_email :: "string option"
  v_contact_phone :: "string option"

record job_values_active = job_values +
  v_is_active :: "bool option"

definition create_params :: "job_body \<Rightarrow> job_values" where
  "create_params b =
     \<lparr>v_title = sql_param (b_title b), v_company = sql_param (b_company b),
      v_location = sql_param (b_location b),
      v_salary_min = num_or_null (b_salary_min b), v_salary_max = num_or_null (b_salary_max b),
      v_salary_currency = Some (str_or_default (b_salary_currency b) ''VND''),
      v_job_type = Some (str_or_default (b_job_type b) ''Full-time''),
      v_description = sql_param (b_description b),
      v_requirements = str_or_null (b_requirements b), v_benefits = str_or_null (b_benefits b),
      v_contact_email = sql_param (b_contact_email b),
      v_contact_phone = str_or_null (b_contact_phone b)\<rparr>"

text \<open>\<open>is_active !== undefined ? is_active : true\<close>\<close>

definition active_param :: "bool js \<Rightarrow> bool option" where
  "active_param v = (case v of Undefined \<Rightarrow> Some True | Null \<Rightarrow> None | Val x \<Rightarrow> Some x)"

definition update_params :: "job_body \<Rightarrow> job_values_active" where
  "update_params b =
     \<lparr>v_title = sql_param (b_title b), v_company = sql_param (b_company b),
      v_location = sql_param (b_location b),
      v_salary_min = num_or_null (b_salary_min b), v_salary_max = num_or_null (b_salary_max b),
      v_salary_currency = Some (str_or_default (b_salary_currency b) ''VND''),
      v_job_type = Some (str_or_default (b_job_type b) ''Full-time''),
      v_description = sql_param (b_description b),
      v_requirements = str_or_null (b_requirements b), v_benefits = str_or_null (b_benefits b),
      v_contact_email = sql_param (b_contact_email b),
      v_contact_phone = str_or_null (b_contact_phone b),
      v_is_active = active_param (b_is_active b)\<rparr>"

text \<open>
  The twelve parameters as the columns of \<open>jobs\<close> take them, each converted to the type
  of its column: \<open>VARCHAR(200)\<close>, \<open>VARCHAR(150)\<close>, \<open>VARCHAR(100)\<close>, \<open>INTEGER\<close>,
  \<open>INTEGER\<close>, \<open>VARCHAR(10)\<close>, \<open>VARCHAR(50)\<close>, \<open>TEXT\<close>, \<open>TEXT\<close>, \<open>TEXT\<close>,
  \<open>VARCHAR(100)\<close>, \<open>VARCHAR(20)\<close>. One rejected parameter rejects the statement.
\<close>

record job_cells =
  c_title :: "string option"
  c_company :: "string option"
  c_location :: "string option"
  c_salary_min :: "int4 option"
  c_salary_max :: "int4 option"
  c_salary_currency :: "string option"
  c_job_type :: "string option"
  c_description :: "string option"
  c_requirements :: "string option"
  c_benefits :: "string option"
  c_contact_email :: "string option"
  c_contact_phone :: "string option"

definition column_values :: "'a job_values_scheme \<Rightarrow> job_cells option" where
  "column_values v =
     (if accepted (varchar 200) (v_title v) \<and> accepted (varchar 150) (v_company v)
         \<and> accepted (varchar 100) (v_location v)
         \<and> accepted to_int4 (v_salary_min v) \<and> accepted to_int4 (v_salary_max v)
         \<and> accepted (varchar 10) (v_salary_currency v) \<and> accepted (varchar 50) (v_job_type v)
         \<and> accepted text_column (v_description v) \<and> accepted text_column (v_requirements v)
         \<and> accepted text_column (v_benefits v)
         \<and> accepted (varchar 100) (v_contact_email v) \<and> accepted (varchar 20) (v_contact_phone v)
      then Some \<lparr>c_title = stored (varchar 200) (v_title v),
                 c_company = stored (varchar 150) (v_company v),
                 c_location = stored (varchar 100) (v_location v),
                 c_salary_min = stored to_int4 (v_salary_min v),
                 c_salary_max = stored to_int4 (v_salary_max v),
                 c_salary_currency = stored (varchar 10) (v_salary_currency v),
                 c_job_type = stored (varchar 50) (v_job_type v),
                 c_description = stored text_column (v_description v),
                 c_requirements = stored text_column (v_requirements v),
                 c_benefits = stored text_column (v_benefits v),
                 c_contact_email = stored (varchar 100) (v_contact_email v),
                 c_contact_phone = stored (varchar 20) (v_contact_phone v)\<rparr>
      else None)"

text \<open>
  The five \<open>NOT NULL\<close> columns a statement writes (title, company, location, description,
  contact email), when each is given a value; \<open>None\<close> when the datastore refuses the row.
\<close>

definition not_null_columns ::
  "job_cells \<Rightarrow> (string \<times> string \<times> string \<times> string \<times> string) option" where
  "not_null_columns c =
     (case c_title c of None \<Rightarrow> None | Some t \<Rightarrow>
      case c_company c of None \<Rightarrow> None | Some co \<Rightarrow>
      case c_location c of None \<Rightarrow> None | Some l \<Rightarrow>
      case c_description c of None \<Rightarrow> None | Some de \<Rightarrow>
      case c_contact_email c of None \<Rightarrow> None | Some e \<Rightarrow> Some (t, co, l, de, e))"

text \<open>
  \<open>INSERT INTO jobs (...) VALUES ($1, ..., $12) RETURNING *\<close>. The columns the statement
  does not name take their defaults: \<open>id\<close> the value \<open>nextval\<close> the sequence yields
  (\<open>None\<close> when the sequence is exhausted), \<open>is_active\<close> true, both timestamps the
  clock reading. \<open>id\<close> is the primary key: a value already in the table is refused.
\<close>

definition insert_job :: "int \<Rightarrow> int4 option \<Rightarrow> job_values \<Rightarrow> db \<Rightarrow> (job \<times> db) option" where
  "insert_job now nextval v d =
     (case column_values v of
        None \<Rightarrow> None
      | Some c \<Rightarrow>
          (case not_null_columns c of
             None \<Rightarrow> None
           | Some (t, co, l, de, e) \<Rightarrow>
               (case nextval of
                  None \<Rightarrow> None
                | Some k \<Rightarrow>
                    (if k \<in> set (map job_id (jobs d)) then None
                     else (let row = \<lparr>job_id = k, title = t, company = co, location = l,
                                       salary_min = c_salary_min c, salary_max = c_salary_max c,
                                       salary_currency = c_salary_currency c,
                                       job_type = c_job_type c,
                                       description = de, requirements = c_requirements c,
                                       benefits = c_benefits c, contact_email = e,
                                       contact_phone = c_contact_phone c,
                                       created_at = now, updated_at = now,
                                       is_active = Some True\<rparr>
                           in Some (row, d\<lparr>jobs := jobs d @ [row]\<rparr>))))))"

text \<open>The handler of \<open>POST /api/admin/jobs\<close>.\<close>

definition create_job :: "int \<Rightarrow> int4 option \<Rightarrow> job_body \<Rightarrow> db \<Rightarrow> response \<times> db" where
  "create_job now nextval b d =
     (if required_missing b then (json 400 (Message msg_required_fields), d)
      else if salary_range_invalid b then (json 400 (Message msg_salary_range), d)
      else (case insert_job now nextval (create_params b) d of
              None \<Rightarrow> (json 500 (Message msg_server_error), d)
            | Some (row, d') \<Rightarrow> (json 201 (MessageJob msg_created row), d')))"

text \<open>
  \<open>UPDATE jobs SET ... WHERE id = $14 RETURNING *\<close>: the assignment to one row, and the
  statement on the table. Besides a rejected parameter, the statement fails if it would
  write \<open>NULL\<close> into a \<open>NOT NULL\<close> column of a row it matches.
\<close>

definition assign_job ::
  "int \<Rightarrow> (string \<times> string \<times> string \<times> string \<times> string) \<Rightarrow> job_cells \<Rightarrow> bool option \<Rightarrow> job \<Rightarrow> job" where
  "assign_job now nn c active j =
     (case nn of (t, co, l, de, e) \<Rightarrow>
        j\<lparr>title := t, company := co, location := l,
          salary_min := c_salary_min c, salary_max := c_salary_max c,
          salary_currency := c_salary_currency c, job_type := c_job_type c,
          description := de, requirements := c_requirements c, benefits := c_benefits c,
          contact_email := e, contact_phone := c_contact_phone c,
          is_active := active, updated_at := now\<rparr>)"

definition update_job ::
  "(string \<Rightarrow> int4 option) \<Rightarrow> int \<Rightarrow> job_values_active \<Rightarrow> string \<Rightarrow> db \<Rightarrow> (job list \<times> db) option" where
  "update_job int4in now v i d =
     (case column_values v of
        None \<Rightarrow> None
      | Some c \<Rightarrow>
          (case int4in i of
             None \<Rightarrow> None
           | Some k \<Rightarrow>
               (case not_null_columns c of
                  None \<Rightarrow> (if filter (\<lambda>j. job_id j = k) (jobs d) = [] then Some ([], d) else None)
                | Some nn \<Rightarrow>
                    Some (map (assign_job now nn c (v_is_active v))
                            (filter (\<lambda>j. job_id j = k) (jobs d)),
                          d\<lparr>jobs := map (\<lambda>j. if job_id j = k
                                               then assign_job now nn c (v_is_active v) j else j)
                                        (jobs d)\<rparr>))))"

text \<open>The handler of \<open>PUT /api/admin/jobs/:id\<close>.\<close>

definition put_job ::
  "(string \<Rightarrow> int4 option) \<Rightarrow> int \<Rightarrow> string \<Rightarrow> job_body \<Rightarrow> db \<Rightarrow> response \<times> db" where
  "put_job int4in now i b d =
     (if required_missing b then (json 400 (Message msg_required_fields), d)
      else if salary_range_invalid b then (json 400 (Message msg_salary_range), d)
      else (case update_job int4in now (update_params b) i d of
              None \<Rightarrow> (json 500 (Message msg_server_error), d)
            | Some ([], d') \<Rightarrow> (json 404 (Message msg_job_not_found), d')
            | Some (row # _, d') \<Rightarrow> (json 200 (MessageJob msg_updated row), d')))"

text \<open>
  \<open>UPDATE jobs SET is_active = NOT is_active, updated_at = CURRENT_TIMESTAMP WHERE id = $1
  RETURNING *\<close>. \<open>NOT NULL\<close> is \<open>NULL\<close>.
\<close>

definition toggle_row :: "int \<Rightarrow> job \<Rightarrow> job" where
  "toggle_row now j = j\<lparr>is_active := map_option Not (is_active j), updated_at := now\<rparr>"

definition toggle_update ::
  "(string \<Rightarrow> int4 option) \<Rightarrow> int \<Rightarrow> string \<Rightarrow> db \<Rightarrow> (job list \<times> db) option" where
  "toggle_update int4in now i d =
     (case int4in i of
        None \<Rightarrow> None
      | Some k \<Rightarrow>
          Some (map (toggle_row now) (filter (\<lambda>j. job_id j = k) (jobs d)),
                d\<lparr>jobs := map (\<lambda>j. if job_id j = k then toggle_row now j else j) (jobs d)\<rparr>))"

text \<open>
  The handler of \<open>PATCH /api/admin/jobs/:id/toggle\<close>. The message is a template: the
  word chosen by the truthiness of the returned \<open>is_active\<close>, then a fixed suffix.
\<close>

definition toggle_job ::
  "(string \<Rightarrow> int4 option) \<Rightarrow> int \<Rightarrow> string \<Rightarrow> db \<Rightarrow> response \<times> db" where
  "toggle_job int4in now i d =
     (case toggle_update int4in now i d of
        None \<Rightarrow> (json 500 (Message msg_server_error), d)
      | Some ([], d') \<Rightarrow> (json 404 (Message msg_job_not_found), d')
      | Some (row # _, d') \<Rightarrow>
          (json 200 (MessageJob
             ((if is_active row = Some True then msg_activate else msg_deactivate)
               @ msg_toggle_suffix) row), d'))"

subsection \<open>Auth gate\<close>

text \<open>\<open>s.split(' ')\<close>: the pieces between single spaces, empty pieces kept.\<close>

fun split_on :: "char \<Rightarrow> string \<Rightarrow> string list" where
  "split_on c [] = [[]]"
| "split_on c (x # xs) =
     (if x = c then [] # split_on c xs
      else (case split_on c xs of [] \<Rightarrow> [[x]] | w # ws \<Rightarrow> (x # w) # ws))"

text \<open>\<open>xs[n]\<close>: \<open>undefined\<close> (\<open>None\<close>) beyond the end.\<close>

definition at_index :: "'a list \<Rightarrow> nat \<Rightarrow> 'a option" where
  "at_index xs n = (if n < length xs then Some (xs ! n) else None)"

text \<open>
  \<open>authHeader && authHeader.split(' ')[1]\<close>: an absent header gives \<open>undefined\<close>, an
  empty one gives itself.
\<close>

definition header_token :: "string option \<Rightarrow> string option" where
  "header_token authHeader =
     (case authHeader of
        None \<Rightarrow> None
      | Some h \<Rightarrow> (if h = [] then Some [] else at_index (split_on CHR '' '' h) 1))"

text \<open>
  The middleware either answers itself or calls \<open>next()\<close> with the decoded identity
  attached to the request. \<open>verify\<close> is the token library's check of a token against the
  secret: an error, or the decoded payload.
\<close>

datatype 'u gate = Responded response | Next 'u

definition authenticateToken ::
  "(string \<Rightarrow> string \<Rightarrow> 'e + 'u) \<Rightarrow> string \<Rightarrow> string option \<Rightarrow> 'u gate" where
  "authenticateToken verify secret authHeader =
     (case header_token authHeader of
        None \<Rightarrow> Responded (json 401 (Message msg_token_required))
      | Some token \<Rightarrow>
          (if token = [] then Responded (json 401 (Message msg_token_required))
           else (case verify token secret of
                   Inl err \<Rightarrow> Responded (json 403 (Message msg_invalid_token))
                 | Inr user \<Rightarrow> Next user)))"

text \<open>
  A protected route, \<open>app.METHOD(path, authenticateToken, handler)\<close>: the handler runs
  only when the middleware called \<open>next()\<close>.
\<close>

definition protect :: "'u gate \<Rightarrow> ('u \<Rightarrow> db \<Rightarrow> response \<times> db) \<Rightarrow> db \<Rightarrow> response \<times> db" where
  "protect g handler d = (case g of Responded r \<Rightarrow> (r, d) | Next user \<Rightarrow> handler user d)"

definition route_admin_get_jobs ::
  "(string \<Rightarrow> string \<Rightarrow> 'e + 'u) \<Rightarrow> string \<Rightarrow> string option
     \<Rightarrow> (string \<Rightarrow> number option) \<Rightarrow> (string \<Rightarrow> string \<Rightarrow> bool) \<Rightarrow> listing_query
     \<Rightarrow> db \<Rightarrow> response \<times> db" where
  "route_admin_get_jobs verify secret authHeader parseInt ilike q d =
     protect (authenticateToken verify secret authHeader)
       (\<lambda>user d'. (admin_get_jobs parseInt ilike q d', d')) d"

definition route_admin_get_job ::
  "(string \<Rightarrow> string \<Rightarrow> 'e + 'u) \<Rightarrow> string \<Rightarrow> string option
     \<Rightarrow> (string \<Rightarrow> int4 option) \<Rightarrow> string \<Rightarrow> db \<Rightarrow> response \<times> db" where
  "route_admin_get_job verify secret authHeader int4in i d =
     protect (authenticateToken verify secret authHeader)
       (\<lambda>user d'. (admin_get_job int4in i d', d')) d"

definition route_create_job ::
  "(string \<Rightarrow> string \<Rightarrow> 'e + 'u) \<Rightarrow> string \<Rightarrow> string option
     \<Rightarrow> int \<Rightarrow> int4 option \<Rightarrow> job_body \<Rightarrow> db \<Rightarrow> response \<times> db" where
  "route_create_job verify secret authHeader now nextval b d =
     protect (authenticateToken verify secret authHeader) (\<lambda>user. create_job now nextval b) d"

definition route_put_job ::
  "(string \<Rightarrow> string \<Rightarrow> 'e + 'u) \<Rightarrow> string \<Rightarrow> string option
     \<Rightarrow> (string \<Rightarrow> int4 option) \<Rightarrow> int \<Rightarrow> string \<Rightarrow> job_body \<Rightarrow> db \<Rightarrow> response \<times> db" where
  "route_put_job verify secret authHeader int4in now i b d =
     protect (authenticateToken verify secret authHeader) (\<lambda>user. put_job int4in now i b) d"

definition route_toggle_job ::
  "(string \<Rightarrow> string \<Rightarrow> 'e + 'u) \<Rightarrow> string \<Rightarrow> string option
     \<Rightarrow> (string \<Rightarrow> int4 option) \<Rightarrow> int \<Rightarrow> string \<Rightarrow> db \<Rightarrow> response \<times> db" where
  "route_toggle_job verify secret authHeader int4in now i d =
     protect (authenticateToken verify secret authHeader) (\<lambda>user. toggle_job int4in now i) d"

subsection \<open>Login\<close>

record login_body =
  l_username :: "string js"
  l_password :: "string js"

text \<open>The payload handed to \<open>jwt.sign\<close>: \<open>{ id, username }\<close>.\<close>

record identity =
  ident_id :: int
  ident_username :: string

text \<open>\<open>expiresIn: '24h'\<close>, in seconds.\<close>

definition expiresIn :: int where
  "expiresIn = 24 * 60 * 60"

text \<open>
  \<open>SELECT * FROM admins WHERE username = $1\<close>: the rows, or a failure when the
  datastore rejects the parameter.
\<close>

definition select_admins :: "string \<Rightarrow> db \<Rightarrow> admin list option" where
  "select_admins u d =
     (if pg_text u then Some (filter (\<lambda>a. username a = u) (admins d)) else None)"

text \<open>
  The handler of \<open>POST /api/auth/login\<close>. \<open>sign\<close> is the token library's issuer
  (payload, secret, lifetime) and \<open>compare\<close> the hash library's comparison (plaintext,
  stored hash), which throws (\<open>None\<close>) on a stored value it cannot read as a hash.
\<close>

definition login ::
  "(identity \<Rightarrow> string \<Rightarrow> int \<Rightarrow> string) \<Rightarrow> (string \<Rightarrow> string \<Rightarrow> bool option) \<Rightarrow> string
     \<Rightarrow> login_body \<Rightarrow> db \<Rightarrow> response" where
  "login sign compare secret b d =
     (case (l_username b, l_password b) of
        (Val u, Val pw) \<Rightarrow>
          (if u = [] \<or> pw = [] then json 400 (Message msg_login_required)
           else (case select_admins u d of
                   None \<Rightarrow> json 500 (Message msg_server_error)
                 | Some [] \<Rightarrow> json 401 (Message msg_account_not_found)
                 | Some (admin # _) \<Rightarrow>
                     (case compare pw (password admin) of
                        None \<Rightarrow> json 500 (Message msg_server_error)
                      | Some False \<Rightarrow> json 401 (Message msg_wrong_password)
                      | Some True \<Rightarrow>
                          json 200 (LoginOk msg_login_ok
                            (sign \<lparr>ident_id = sint (admin_id admin),
                                   ident_username = username admin\<rparr> secret expiresIn)
                            \<lparr>info_id = sint (admin_id admin), info_username = username admin,
                             info_email = email admin\<rparr>))))
      | _ \<Rightarrow> json 400 (Message msg_login_required))"

subsection \<open>Token issuer and validator\<close>

text \<open>
  Modelled from the spec: the token library behind \<open>jwt.sign\<close> and \<open>jwt.verify\<close> is not
  among the sources. The spec: the issuer "issues a signed token embedding
  \<open>{admin id, username}\<close> plus issued-at/expiry (fixed 24-hour lifetime) using a
  server-side secret"; validation "fails with \<open>InvalidToken\<close> if signature verification
  fails or token is absent/malformed/expired".

  A token is the claims together with the secret it was signed under; signature
  verification is the comparison of that secret with the verifier's. The compact string
  form of a token is given by a pair of functions \<open>encode\<close> and \<open>decode\<close>, arguments of the
  issuer and of the validator; a string that \<open>decode\<close> does not read is malformed. Clock
  readings are in seconds, and a token is expired from its expiry time on.
\<close>

record token_claims =
  c_id :: int
  c_username :: string
  c_iat :: int
  c_exp :: int

datatype jwt = Jwt (signing_key: string) (claims: token_claims)

datatype token_error = InvalidToken

text \<open>
  Modelled from the spec: the issuer, absent from the sources. At clock reading \<open>now\<close> it
  embeds the payload with issued-at \<open>now\<close> and expiry \<open>now + lifetime\<close>, signs under
  the secret, and returns the string form.
\<close>

definition jwt_sign :: "(jwt \<Rightarrow> string) \<Rightarrow> int \<Rightarrow> identity \<Rightarrow> string \<Rightarrow> int \<Rightarrow> string" where
  "jwt_sign encode now payload secret lifetime =
     encode (Jwt secret \<lparr>c_id = ident_id payload, c_username = ident_username payload,
                         c_iat = now, c_exp = now + lifetime\<rparr>)"

text \<open>
  Modelled from the spec: the validator, absent from the sources. It fails with
  \<open>InvalidToken\<close> on a malformed string, on a signature made under another secret, and
  on an expired token; otherwise it returns the claims.
\<close>

definition jwt_verify ::
  "(string \<Rightarrow> jwt option) \<Rightarrow> int \<Rightarrow> string \<Rightarrow> string \<Rightarrow> token_error + token_claims" where
  "jwt_verify decode now token secret =
     (case decode token of
        None \<Rightarrow> Inl InvalidToken
      | Some t \<Rightarrow>
          (if signing_key t \<noteq> secret then Inl InvalidToken
           else if c_exp (claims t) \<le> now then Inl InvalidToken
           else Inr (claims t)))"

subsection \<open>Requests the datastore accepts\<close>

text \<open>
  Sufficient conditions under which the datastore stores a value as it was sent: a string
  of at most \<open>n\<close> characters without NUL for a \<open>VARCHAR(n)\<close> column, a number within
  32 bits for an \<open>INTEGER\<close> column; and these conditions on the fields of a body that
  carry a value.
\<close>

definition fits :: "nat \<Rightarrow> string \<Rightarrow> bool" where
  "fits n s = (pg_text s \<and> utf8_length s \<le> n)"

definition in_int4 :: "int \<Rightarrow> bool" where
  "in_int4 i = (- (2 ^ 31) \<le> i \<and> i < 2 ^ 31)"

definition sent :: "('a \<Rightarrow> bool) \<Rightarrow> 'a js \<Rightarrow> bool" where
  "sent P v = (case v of Val x \<Rightarrow> P x | _ \<Rightarrow> True)"

definition body_fits :: "job_body \<Rightarrow> bool" where
  "body_fits b =
     (sent (fits 200) (b_title b) \<and> sent (fits 150) (b_company b)
      \<and> sent (fits 100) (b_location b)
      \<and> sent in_int4 (b_salary_min b) \<and> sent in_int4 (b_salary_max b)
      \<and> sent (fits 10) (b_salary_currency b) \<and> sent (fits 50) (b_job_type b)
      \<and> sent pg_text (b_description b) \<and> sent pg_text (b_requirements b)
      \<and> sent pg_text (b_benefits b)
      \<and> sent (fits 100) (b_contact_email b) \<and> sent (fits 20) (b_contact_phone b))"

subsection \<open>Example data\<close>

text \<open>
  Concrete inputs on which the handlers are run below. In the place of the library
  functions, what they compute on short ASCII text, the only text they are applied to
  here: \<open>parseInt(s, 10)\<close> (leading white space skipped, an optional sign, the longest
  run of decimal digits, read as the nearest double; \<open>NaN\<close> without a digit), the
  datastore's reading of an \<open>INTEGER\<close> (white space, an optional sign, decimal digits,
  white space, within 32 bits), a pattern match for \<open>ILIKE\<close> (\<open>%\<close> any run of
  characters, \<open>_\<close> any one character, a backslash quoting the next), and a hash
  comparison that throws on an empty stored value. Then one token with its string form,
  a datastore of three jobs and one admin, and two request bodies.
\<close>

definition is_white :: "char \<Rightarrow> bool" where
  "is_white c = (c \<in> set [CHR '' '', CHR 0x09, CHR 0x0A, CHR 0x0B, CHR 0x0C, CHR 0x0D])"

definition is_digit :: "char \<Rightarrow> bool" where
  "is_digit c = (c \<in> set ''0123456789'')"

definition digits_value :: "string \<Rightarrow> int" where
  "digits_value ds = foldl (\<lambda>acc c. 10 * acc + (of_char c - 48)) 0 ds"

definition signed_digits :: "string \<Rightarrow> (int \<times> string) option" where
  "signed_digits s =
     (let t = dropWhile is_white s;
          neg = (case t of c # _ \<Rightarrow> c = CHR ''-'' | [] \<Rightarrow> False);
          u = (case t of c # r \<Rightarrow> (if c = CHR ''-'' \<or> c = CHR ''+'' then r else t) | [] \<Rightarrow> []);
          ds = takeWhile is_digit u
      in if ds = [] then None
         else Some (if neg then - digits_value ds else digits_value ds, dropWhile is_digit u))"

definition parseInt_ascii :: "string \<Rightarrow> number option" where
  "parseInt_ascii s = map_option (\<lambda>(n, rest). to_double n) (signed_digits s)"

definition int4in_ascii :: "string \<Rightarrow> int4 option" where
  "int4in_ascii s =
     (case signed_digits s of
        None \<Rightarrow> None
      | Some (n, rest) \<Rightarrow> (if list_all is_white rest then to_int4 n else None))"

fun like :: "string \<Rightarrow> string \<Rightarrow> bool" where
  "like v [] = (v = [])"
| "like v (p # ps) =
     (if p = CHR ''%'' then (like v ps \<or> (case v of [] \<Rightarrow> False | _ # vs \<Rightarrow> like vs (p # ps)))
      else if p = CHR ''_'' then (case v of [] \<Rightarrow> False | _ # vs \<Rightarrow> like vs ps)
      else if p = CHR 0x5C then
        (case ps of [] \<Rightarrow> False
         | e # ps' \<Rightarrow> (case v of [] \<Rightarrow> False | c # vs \<Rightarrow> c = e \<and> like vs ps'))
      else (case v of [] \<Rightarrow> False | c # vs \<Rightarrow> c = p \<and> like vs ps))"

definition lower_ascii :: "char \<Rightarrow> char" where
  "lower_ascii c =
     (if c \<in> set ''ABCDEFGHIJKLMNOPQRSTUVWXYZ'' then char_of (of_char c + (32::nat)) else c)"

definition ilike_ascii :: "string \<Rightarrow> string \<Rightarrow> bool" where
  "ilike_ascii v p = like (map lower_ascii v) (map lower_ascii p)"

definition example_compare :: "string \<Rightarrow> string \<Rightarrow> bool option" where
  "example_compare pw hash = (if hash = [] then None else Some (hash = ''#'' @ pw))"

definition example_admin :: admin where
  "example_admin = \<lparr>admin_id = 1, username = ''admin'', password = ''#letmein'',
                     email = ''admin@jobportal.com''\<rparr>"

definition example_token :: jwt where
  "example_token = Jwt ''s3cret'' \<lparr>c_id = 1, c_username = ''admin'', c_iat = 1000,
                                   c_exp = 1000 + 24 * 60 * 60\<rparr>"

definition example_encode :: "jwt \<Rightarrow> string" where
  "example_encode t = (if t = example_token then ''tok.1'' else ''tok.0'')"

definition example_decode :: "string \<Rightarrow> jwt option" where
  "example_decode s = (if s = ''tok.1'' then Some example_token else None)"

definition job1 :: job where
  "job1 = \<lparr>job_id = 1, title = ''Engineer'', company = ''Acme'', location = ''Hanoi'',
           salary_min = Some 1000, salary_max = Some 2000, salary_currency = Some ''USD'',
           job_type = Some ''Contract'', description = ''Build things'',
           requirements = Some ''Git'', benefits = None, contact_email = ''hr@acme.com'',
           contact_phone = None, created_at = 100, updated_at = 100, is_active = Some True\<rparr>"

definition job2 :: job where
  "job2 = \<lparr>job_id = 2, title = ''Designer'', company = ''Bolt'', location = ''Hue'',
           salary_min = None, salary_max = None, salary_currency = Some ''VND'',
           job_type = Some ''Full-time'', description = ''Draw things'',
           requirements = None, benefits = None, contact_email = ''hr@bolt.com'',
           contact_phone = None, created_at = 200, updated_at = 250, is_active = Some False\<rparr>"

definition job3 :: job where
  "job3 = \<lparr>job_id = 3, title = ''Tester'', company = ''Acme'', location = ''Hanoi'',
           salary_min = None, salary_max = None, salary_currency = Some ''VND'',
           job_type = Some ''Full-time'', description = ''Break things'',
           requirements = None, benefits = None, contact_email = ''hr@acme.com'',
           contact_phone = None, created_at = 300, updated_at = 300, is_active = Some True\<rparr>"

definition example_db :: db where
  "example_db = \<lparr>jobs = [job1, job2, job3], admins = [example_admin]\<rparr>"

definition no_query :: listing_query where
  "no_query = \<lparr>q_search = None, q_location = None, q_job_type = None,
                q_page = None, q_limit = None\<rparr>"

text \<open>The body of the spec's scenario: the five required fields and nothing else.\<close>

definition minimal_body :: job_body where
  "minimal_body = \<lparr>b_title = Val ''Engineer'', b_company = Val ''Acme'',
                    b_location = Val ''Hanoi'', b_salary_min = Undefined,
                    b_salary_max = Undefined, b_salary_currency = Undefined,
                    b_job_type = Undefined, b_description = Val ''Build things'',
                    b_requirements = Undefined, b_benefits = Undefined,
                    b_contact_email = Val ''hr@acme.com'', b_contact_phone = Undefined,
                    b_is_active = Undefined\<rparr>"

text \<open>A body whose optional fields are all present and falsy.\<close>

definition falsy_body :: job_body where
  "falsy_body = \<lparr>b_title = Val ''Engineer'', b_company = Val ''Acme'',
                  b_location = Val ''Hanoi'', b_salary_min = Val 0,
                  b_salary_max = Val 0, b_salary_currency = Val [],
                  b_job_type = Val [], b_description = Val ''Build things'',
                  b_requirements = Val [], b_benefits = Val [],
                  b_contact_email = Val ''hr@acme.com'', b_contact_phone = Val [],
                  b_is_active = Val False\<rparr>"

section \<open>Properties\<close>

subsection \<open>Numbers and columns\<close>

lemma to_int4_in: "in_int4 n \<Longrightarrow> to_int4 n = Some (word_of_int n)"
  by (simp add: to_int4_def in_int4_def)

lemma double_shift_small: "n < 2 ^ 53 \<Longrightarrow> double_shift n = 0"
  by (subst double_shift.simps) simp

lemma to_double_small: "0 \<le> n \<Longrightarrow> n < 2 ^ 53 \<Longrightarrow> to_double n = Num n"
proof -
  assume a: "0 \<le> n" "n < 2 ^ 53"
  have "round_double n = n"
    by (simp add: round_double_def double_shift_small[OF a(2)])
  moreover have "n < 2 ^ 1024"
    using a(2) by (rule less_trans) simp
  ultimately show ?thesis using a(1) by (simp add: to_double_def)
qed

lemma offset_small:
  assumes "1 \<le> p" and "1 \<le> l" and "(p - 1) * l < 2 ^ 53"
  shows "offset (Num p) l = Num ((p - 1) * l)"
proof -
  have "p - 1 \<le> (p - 1) * l"
    using assms(1,2) by (simp add: mult_le_cancel_left1)
  then have "p - 1 < 2 ^ 53" using assms(3) by simp
  then have "to_double (p - 1) = Num (p - 1)"
    using assms(1) by (simp add: to_double_small)
  moreover have "to_double ((p - 1) * l) = Num ((p - 1) * l)"
    using assms by (intro to_double_small) simp_all
  ultimately show ?thesis by (simp add: offset_def)
qed

lemma offset_param_small:
  assumes "1 \<le> p" and "1 \<le> l" and "(p - 1) * l < 2 ^ 53"
  shows "offset_param (offset (Num p) l) = Some (nat ((p - 1) * l))"
proof -
  have "(p - 1) * l < 2 ^ 63"
    using assms(3) by (rule less_trans) simp
  moreover have "0 \<le> (p - 1) * l" using assms(1,2) by simp
  ultimately show ?thesis
    by (simp add: offset_small[OF assms] offset_param_def)
qed

lemma fits_varchar: "fits n s \<Longrightarrow> varchar n s = Some s"
  by (simp add: fits_def varchar_def)

lemma fits_text: "pg_text s \<Longrightarrow> text_column s = Some s"
  by (simp add: text_column_def)

subsection \<open>Routes behind the auth gate\<close>

lemma route_admin_get_jobs_Next:
  "authenticateToken verify secret h = Next user \<Longrightarrow>
   route_admin_get_jobs verify secret h parseInt ilike q d = (admin_get_jobs parseInt ilike q d, d)"
  by (simp add: route_admin_get_jobs_def protect_def)

lemma route_admin_get_job_Next:
  "authenticateToken verify secret h = Next user \<Longrightarrow>
   route_admin_get_job verify secret h int4in i d = (admin_get_job int4in i d, d)"
  by (simp add: route_admin_get_job_def protect_def)

lemma route_create_job_Next:
  "authenticateToken verify secret h = Next user \<Longrightarrow>
   route_create_job verify secret h now nextval b d = create_job now nextval b d"
  by (simp add: route_create_job_def protect_def)

lemma route_put_job_Next:
  "authenticateToken verify secret h = Next user \<Longrightarrow>
   route_put_job verify secret h int4in now i b d = put_job int4in now i b d"
  by (simp add: route_put_job_def protect_def)

lemma route_toggle_job_Next:
  "authenticateToken verify secret h = Next user \<Longrightarrow>
   route_toggle_job verify secret h int4in now i d = toggle_job int4in now i d"
  by (simp add: route_toggle_job_def protect_def)

text \<open>The example token, presented before its expiry, passes the auth gate.\<close>

lemma example_header_Next:
  "authenticateToken (jwt_verify example_decode 2000) ''s3cret'' (Some ''Bearer tok.1'')
     = Next (claims example_token)"
  by (simp add: authenticateToken_def header_token_def at_index_def jwt_verify_def
      example_decode_def example_token_def)

subsection \<open>Pagination\<close>

lemma limitInt_range: "1 \<le> limitInt parseInt l \<and> limitInt parseInt l \<le> 100"
  by (simp add: limitInt_def split: number.split)

lemma limitInt_cases:
  "limitInt parseInt l =
     (case parseInt (query_or l ''10'') of
        None \<Rightarrow> 10
      | Some (Num n) \<Rightarrow> if n = 0 then 10 else if n < 1 then 1 else if 100 < n then 100 else n
      | Some PosInf \<Rightarrow> 100
      | Some NegInf \<Rightarrow> 1)"
  by (simp add: limitInt_def number_or_def split: option.split number.split)

lemma pageInt_cases:
  "pageInt parseInt p =
     (case parseInt (query_or p ''1'') of
        None \<Rightarrow> Num 1
      | Some (Num n) \<Rightarrow> if n < 1 then Num 1 else Num n
      | Some PosInf \<Rightarrow> PosInf
      | Some NegInf \<Rightarrow> Num 1)"
  by (auto simp add: pageInt_def number_or_def split: option.split number.split)

lemma pageInt_ge_1:
  "case pageInt parseInt p of Num n \<Rightarrow> 1 \<le> n | PosInf \<Rightarrow> True | NegInf \<Rightarrow> False"
  by (simp add: pageInt_cases split: option.split number.split)

lemma length_limit_offset: "1 \<le> l \<Longrightarrow> int (length (limit_offset l off rows)) \<le> l"
  by (simp add: limit_offset_def)

lemma select_page_cases:
  "select_page params cond lim off rows =
     (if list_all query_text params \<and> offset_param off \<noteq> None
      then Some (limit_offset lim (the (offset_param off)) (order_by_created_desc (filter cond rows)))
      else None)"
  by (auto simp add: select_page_def split: option.split)

lemma get_jobs_status:
  "status (get_jobs parseInt ilike q d) =
     (if list_all query_text [q_search q, q_location q, q_job_type q]
         \<and> offset_param (offset (pageInt parseInt (q_page q)) (limitInt parseInt (q_limit q))) \<noteq> None
      then 200 else 500)"
  by (simp add: get_jobs_def select_page_cases json_def Let_def)

lemma admin_get_jobs_status:
  "status (admin_get_jobs parseInt ilike q d) =
     (if list_all query_text [q_search q]
         \<and> offset_param (offset (pageInt parseInt (q_page q)) (limitInt parseInt (q_limit q))) \<noteq> None
      then 200 else 500)"
  by (simp add: admin_get_jobs_def select_page_cases json_def Let_def)

lemma public_rows_get_jobs:
  "public_rows (body (get_jobs parseInt ilike q d)) =
     (case select_page [q_search q, q_location q, q_job_type q] (public_where ilike q)
             (limitInt parseInt (q_limit q))
             (offset (pageInt parseInt (q_page q)) (limitInt parseInt (q_limit q))) (jobs d) of
        None \<Rightarrow> []
      | Some result \<Rightarrow> map job_public.truncate result)"
  by (simp add: get_jobs_def json_def Let_def split: option.split)

lemma admin_rows_admin_get_jobs:
  "admin_rows (body (admin_get_jobs parseInt ilike q d)) =
     (case select_page [q_search q] (search_clause ilike (q_search q))
             (limitInt parseInt (q_limit q))
             (offset (pageInt parseInt (q_page q)) (limitInt parseInt (q_limit q))) (jobs d) of
        None \<Rightarrow> []
      | Some result \<Rightarrow> result)"
  by (simp add: admin_get_jobs_def json_def Let_def split: option.split)

lemma length_select_page:
  "1 \<le> lim \<Longrightarrow> select_page params cond lim off rows = Some result \<Longrightarrow>
   int (length result) \<le> lim"
  using length_limit_offset
  by (auto simp add: select_page_def split: if_splits option.splits)

lemma get_jobs_bounded:
  "int (length (public_rows (body (get_jobs parseInt ilike q d)))) \<le> limitInt parseInt (q_limit q)"
proof (cases "select_page [q_search q, q_location q, q_job_type q] (public_where ilike q)
             (limitInt parseInt (q_limit q))
             (offset (pageInt parseInt (q_page q)) (limitInt parseInt (q_limit q))) (jobs d)")
  case None
  then show ?thesis
    using limitInt_range[of parseInt "q_limit q"] by (simp add: public_rows_get_jobs)
next
  case (Some result)
  from length_select_page[OF conjunct1[OF limitInt_range] Some] Some
  show ?thesis by (simp add: public_rows_get_jobs)
qed

lemma admin_get_jobs_bounded:
  "int (length (admin_rows (body (admin_get_jobs parseInt ilike q d)))) \<le> limitInt parseInt (q_limit q)"
proof (cases "select_page [q_search q] (search_clause ilike (q_search q))
             (limitInt parseInt (q_limit q))
             (offset (pageInt parseInt (q_page q)) (limitInt parseInt (q_limit q))) (jobs d)")
  case None
  then show ?thesis
    using limitInt_range[of parseInt "q_limit q"] by (simp add: admin_rows_admin_get_jobs)
next
  case (Some result)
  from length_select_page[OF conjunct1[OF limitInt_range] Some] Some
  show ?thesis by (simp add: admin_rows_admin_get_jobs)
qed

text \<open>A listing depends on the \<open>limit\<close> parameter through \<open>limitInt\<close> only.\<close>

lemma public_where_limit: "public_where ilike (q\<lparr>q_limit := a\<rparr>) = public_where ilike q"
  by (rule ext) (simp add: public_where_def)

lemma get_jobs_limit_cong:
  "limitInt parseInt a = limitInt parseInt b \<Longrightarrow>
   get_jobs parseInt ilike (q\<lparr>q_limit := a\<rparr>) d = get_jobs parseInt ilike (q\<lparr>q_limit := b\<rparr>) d"
  by (simp add: get_jobs_def public_where_limit Let_def cong: option.case_cong)

lemma admin_get_jobs_limit_cong:
  "limitInt parseInt a = limitInt parseInt b \<Longrightarrow>
   admin_get_jobs parseInt ilike (q\<lparr>q_limit := a\<rparr>) d
     = admin_get_jobs parseInt ilike (q\<lparr>q_limit := b\<rparr>) d"
  by (simp add: admin_get_jobs_def Let_def cong: option.case_cong)

lemma limitInt_at:
  "parseInt s = Some (Num n) \<Longrightarrow> s \<noteq> [] \<Longrightarrow>
   limitInt parseInt (Some s) = (if n = 0 then 10 else if n < 1 then 1 else if 100 < n then 100 else n)"
  by (simp add: limitInt_cases query_or_def)

lemma accepted_page:
  assumes "pageInt parseInt (q_page q) = Num p"
    and "(p - 1) * limitInt parseInt (q_limit q) < 2 ^ 53"
  shows "offset_param (offset (pageInt parseInt (q_page q)) (limitInt parseInt (q_limit q)))
           = Some (nat ((p - 1) * limitInt parseInt (q_limit q)))"
proof -
  have "1 \<le> p" using pageInt_ge_1[of parseInt "q_page q"] by (simp add: assms(1))
  from offset_param_small[OF this conjunct1[OF limitInt_range] assms(2)]
  show ?thesis by (simp add: assms(1))
qed

text \<open>
  C1, as the code has it. For every public listing request and every admin listing request
  that passed the auth gate: the effective limit lies in \<open>[1, 100]\<close> and the effective page
  is at least 1, whatever \<open>parseInt\<close> reads. An absent or empty \<open>limit\<close> is read as
  \<open>'10'\<close> and an absent or empty \<open>page\<close> as \<open>'1'\<close>; a \<open>limit\<close> from which
  \<open>parseInt\<close> reads \<open>NaN\<close> or 0 falls back to the default 10, such a \<open>page\<close> to the
  default 1; a negative \<open>limit\<close> is clamped to 1, a \<open>limit\<close> above 100 to 100, a
  negative \<open>page\<close> to 1, and a \<open>page\<close> has no upper bound. The \<open>jobs\<close> array
  of the answer has at most \<open>limit\<close> elements. The answer is 200 unless the datastore
  rejects the statement, which it does exactly when a text parameter of the search contains
  NUL or the offset \<open>(page - 1) * limit\<close> is not below \<open>2^63\<close>; then the answer is 500.
  An offset below \<open>2^53\<close> is exact and accepted, so that a request with such an offset
  and no NUL in its search texts is answered 200. In particular, where \<open>parseInt\<close> reads
  the decimal numbers, \<open>limit=-5\<close> behaves as \<open>limit=1\<close> and \<open>limit=500\<close> as
  \<open>limit=100\<close>.
\<close>

theorem pagination_sanitized:
  assumes "authenticateToken verify secret authHeader = Next user"
  shows "1 \<le> limitInt parseInt (q_limit q) \<and> limitInt parseInt (q_limit q) \<le> 100
    \<and> (case pageInt parseInt (q_page q) of Num n \<Rightarrow> 1 \<le> n | PosInf \<Rightarrow> True | NegInf \<Rightarrow> False)
    \<and> limitInt parseInt (q_limit q) =
        (case parseInt (query_or (q_limit q) ''10'') of
           None \<Rightarrow> 10
         | Some (Num n) \<Rightarrow> if n = 0 then 10 else if n < 1 then 1 else if 100 < n then 100 else n
         | Some PosInf \<Rightarrow> 100
         | Some NegInf \<Rightarrow> 1)
    \<and> pageInt parseInt (q_page q) =
        (case parseInt (query_or (q_page q) ''1'') of
           None \<Rightarrow> Num 1
         | Some (Num n) \<Rightarrow> if n < 1 then Num 1 else Num n
         | Some PosInf \<Rightarrow> PosInf
         | Some NegInf \<Rightarrow> Num 1)
    \<and> (parseInt ''10'' = Some (Num 10) \<longrightarrow>
          limitInt parseInt None = 10 \<and> limitInt parseInt (Some []) = 10)
    \<and> (parseInt ''1'' = Some (Num 1) \<longrightarrow>
          pageInt parseInt None = Num 1 \<and> pageInt parseInt (Some []) = Num 1)
    \<and> status (get_jobs parseInt ilike q d) =
        (if list_all query_text [q_search q, q_location q, q_job_type q]
            \<and> offset_param (offset (pageInt parseInt (q_page q)) (limitInt parseInt (q_limit q)))
                 \<noteq> None
         then 200 else 500)
    \<and> int (length (public_rows (body (get_jobs parseInt ilike q d))))
         \<le> limitInt parseInt (q_limit q)
    \<and> snd (route_admin_get_jobs verify secret authHeader parseInt ilike q d) = d
    \<and> status (fst (route_admin_get_jobs verify secret authHeader parseInt ilike q d)) =
        (if list_all query_text [q_search q]
            \<and> offset_param (offset (pageInt parseInt (q_page q)) (limitInt parseInt (q_limit q)))
                 \<noteq> None
         then 200 else 500)
    \<and> int (length (admin_rows (body (fst
           (route_admin_get_jobs verify secret authHeader parseInt ilike q d)))))
         \<le> limitInt parseInt (q_limit q)
    \<and> (pageInt parseInt (q_page q) = Num p \<and> (p - 1) * limitInt parseInt (q_limit q) < 2 ^ 53
         \<longrightarrow> offset_param (offset (pageInt parseInt (q_page q)) (limitInt parseInt (q_limit q)))
               = Some (nat ((p - 1) * limitInt parseInt (q_limit q))))
    \<and> (list_all query_text [q_search q, q_location q, q_job_type q]
        \<and> pageInt parseInt (q_page q) = Num p
        \<and> (p - 1) * limitInt parseInt (q_limit q) < 2 ^ 53
         \<longrightarrow> status (get_jobs parseInt ilike q d) = 200
            \<and> status (fst (route_admin_get_jobs verify secret authHeader parseInt ilike q d))
                 = 200)
    \<and> (parseInt ''-5'' = Some (Num (- 5)) \<and> parseInt ''1'' = Some (Num 1) \<longrightarrow>
          get_jobs parseInt ilike (q\<lparr>q_limit := Some ''-5''\<rparr>) d
            = get_jobs parseInt ilike (q\<lparr>q_limit := Some ''1''\<rparr>) d
        \<and> admin_get_jobs parseInt ilike (q\<lparr>q_limit := Some ''-5''\<rparr>) d
            = admin_get_jobs parseInt ilike (q\<lparr>q_limit := Some ''1''\<rparr>) d)
    \<and> (parseInt ''500'' = Some (Num 500) \<and> parseInt ''100'' = Some (Num 100) \<longrightarrow>
          get_jobs parseInt ilike (q\<lparr>q_limit := Some ''500''\<rparr>) d
            = get_jobs parseInt ilike (q\<lparr>q_limit := Some ''100''\<rparr>) d
        \<and> admin_get_jobs parseInt ilike (q\<lparr>q_limit := Some ''500''\<rparr>) d
            = admin_get_jobs parseInt ilike (q\<lparr>q_limit := Some ''100''\<rparr>) d)"
proof -
  note r = route_admin_get_jobs_Next[OF assms]
  have a: "1 \<le> limitInt parseInt (q_limit q) \<and> limitInt parseInt (q_limit q) \<le> 100"
    by (rule limitInt_range)
  have b: "case pageInt parseInt (q_page q) of Num n \<Rightarrow> 1 \<le> n | PosInf \<Rightarrow> True | NegInf \<Rightarrow> False"
    by (rule pageInt_ge_1)
  have c1: "parseInt ''10'' = Some (Num 10) \<longrightarrow>
          limitInt parseInt None = 10 \<and> limitInt parseInt (Some []) = 10"
    by (simp add: limitInt_cases query_or_def)
  have c2: "parseInt ''1'' = Some (Num 1) \<longrightarrow>
          pageInt parseInt None = Num 1 \<and> pageInt parseInt (Some []) = Num 1"
    by (simp add: pageInt_cases query_or_def)
  have e: "pageInt parseInt (q_page q) = Num p \<and> (p - 1) * limitInt parseInt (q_limit q) < 2 ^ 53
         \<longrightarrow> offset_param (offset (pageInt parseInt (q_page q)) (limitInt parseInt (q_limit q)))
               = Some (nat ((p - 1) * limitInt parseInt (q_limit q)))"
    using accepted_page[of parseInt q p] by blast
  have e': "list_all query_text [q_search q, q_location q, q_job_type q]
        \<and> pageInt parseInt (q_page q) = Num p
        \<and> (p - 1) * limitInt parseInt (q_limit q) < 2 ^ 53
         \<longrightarrow> status (get_jobs parseInt ilike q d) = 200
            \<and> status (admin_get_jobs parseInt ilike q d) = 200"
    using accepted_page[of parseInt q p]
    by (simp add: get_jobs_status admin_get_jobs_status)
  have f: "parseInt ''-5'' = Some (Num (- 5)) \<and> parseInt ''1'' = Some (Num 1) \<longrightarrow>
          get_jobs parseInt ilike (q\<lparr>q_limit := Some ''-5''\<rparr>) d
            = get_jobs parseInt ilike (q\<lparr>q_limit := Some ''1''\<rparr>) d
        \<and> admin_get_jobs parseInt ilike (q\<lparr>q_limit := Some ''-5''\<rparr>) d
            = admin_get_jobs parseInt ilike (q\<lparr>q_limit := Some ''1''\<rparr>) d"
  proof (intro impI conjI)
    assume h: "parseInt ''-5'' = Some (Num (- 5)) \<and> parseInt ''1'' = Some (Num 1)"
    then have l: "limitInt parseInt (Some ''-5'') = limitInt parseInt (Some ''1'')"
      by (simp add: limitInt_at)
    from l show "get_jobs parseInt ilike (q\<lparr>q_limit := Some ''-5''\<rparr>) d
            = get_jobs parseInt ilike (q\<lparr>q_limit := Some ''1''\<rparr>) d"
      by (rule get_jobs_limit_cong)
    from l show "admin_get_jobs parseInt ilike (q\<lparr>q_limit := Some ''-5''\<rparr>) d
            = admin_get_jobs parseInt ilike (q\<lparr>q_limit := Some ''1''\<rparr>) d"
      by (rule admin_get_jobs_limit_cong)
  qed
  have g: "parseInt ''500'' = Some (Num 500) \<and> parseInt ''100'' = Some (Num 100) \<longrightarrow>
          get_jobs parseInt ilike (q\<lparr>q_limit := Some ''500''\<rparr>) d
            = get_jobs parseInt ilike (q\<lparr>q_limit := Some ''100''\<rparr>) d
        \<and> admin_get_jobs parseInt ilike (q\<lparr>q_limit := Some ''500''\<rparr>) d
            = admin_get_jobs parseInt ilike (q\<lparr>q_limit := Some ''100''\<rparr>) d"
  proof (intro impI conjI)
    assume h: "parseInt ''500'' = Some (Num 500) \<and> parseInt ''100'' = Some (Num 100)"
    then have l: "limitInt parseInt (Some ''500'') = limitInt parseInt (Some ''100'')"
      by (simp add: limitInt_at)
    from l show "get_jobs parseInt ilike (q\<lparr>q_limit := Some ''500''\<rparr>) d
            = get_jobs parseInt ilike (q\<lparr>q_limit := Some ''100''\<rparr>) d"
      by (rule get_jobs_limit_cong)
    from l show "admin_get_jobs parseInt ilike (q\<lparr>q_limit := Some ''500''\<rparr>) d
            = admin_get_jobs parseInt ilike (q\<lparr>q_limit := Some ''100''\<rparr>) d"
      by (rule admin_get_jobs_limit_cong)
  qed
  show ?thesis
    unfolding r fst_conv snd_conv
    by (intro conjI refl conjunct1[OF a] conjunct2[OF a] b limitInt_cases pageInt_cases
        get_jobs_status admin_get_jobs_status get_jobs_bounded admin_get_jobs_bounded e e' f g
        c1 c2)
qed

lemma parseInt_ascii_examples:
  "parseInt_ascii ''-5'' = Some (Num (- 5))" "parseInt_ascii ''1'' = Some (Num 1)"
  "parseInt_ascii ''500'' = Some (Num 500)" "parseInt_ascii ''100'' = Some (Num 100)"
  "parseInt_ascii ''10'' = Some (Num 10)" "parseInt_ascii ''abc'' = None"
  by code_simp+

text \<open>
  The theorem at \<open>limit=-5\<close> on the example datastore, with the example token: the limit
  is 1, the page is 1, the offset 0 is accepted, and both listings answer 200 with one row.
\<close>

theorem pagination_sanitized_witness:
  "authenticateToken (jwt_verify example_decode 2000) ''s3cret'' (Some ''Bearer tok.1'')
      = Next (claims example_token)
   \<and> parseInt_ascii ''-5'' = Some (Num (- 5)) \<and> parseInt_ascii ''1'' = Some (Num 1)
   \<and> parseInt_ascii ''500'' = Some (Num 500) \<and> parseInt_ascii ''100'' = Some (Num 100)
   \<and> parseInt_ascii ''10'' = Some (Num 10)
   \<and> limitInt parseInt_ascii None = 10
   \<and> limitInt parseInt_ascii (Some ''-5'') = 1
   \<and> pageInt parseInt_ascii None = Num 1
   \<and> status (get_jobs parseInt_ascii ilike_ascii (no_query\<lparr>q_limit := Some ''-5''\<rparr>) example_db) = 200
   \<and> length (public_rows (body (get_jobs parseInt_ascii ilike_ascii
        (no_query\<lparr>q_limit := Some ''-5''\<rparr>) example_db))) = 1
   \<and> status (fst (route_admin_get_jobs (jwt_verify example_decode 2000) ''s3cret''
        (Some ''Bearer tok.1'') parseInt_ascii ilike_ascii
        (no_query\<lparr>q_limit := Some ''-5''\<rparr>) example_db)) = 200
   \<and> get_jobs parseInt_ascii ilike_ascii (no_query\<lparr>q_limit := Some ''-5''\<rparr>) example_db
       = get_jobs parseInt_ascii ilike_ascii (no_query\<lparr>q_limit := Some ''1''\<rparr>) example_db
   \<and> get_jobs parseInt_ascii ilike_ascii (no_query\<lparr>q_limit := Some ''500''\<rparr>) example_db
       = get_jobs parseInt_ascii ilike_ascii (no_query\<lparr>q_limit := Some ''100''\<rparr>) example_db"
proof -
  have len: "length (public_rows (body (get_jobs parseInt_ascii ilike_ascii
        (no_query\<lparr>q_limit := Some ''-5''\<rparr>) example_db))) = 1"
    by code_simp
  have lim: "limitInt parseInt_ascii (Some ''-5'') = 1"
    by (simp add: limitInt_at parseInt_ascii_examples)
  have page: "pageInt parseInt_ascii None = Num 1"
    by (simp add: pageInt_cases query_or_def parseInt_ascii_examples)
  have q: "q_limit (no_query\<lparr>q_limit := Some ''-5''\<rparr>) = Some ''-5''"
    "q_page (no_query\<lparr>q_limit := Some ''-5''\<rparr>) = None"
    "q_search (no_query\<lparr>q_limit := Some ''-5''\<rparr>) = None"
    "q_location (no_query\<lparr>q_limit := Some ''-5''\<rparr>) = None"
    "q_job_type (no_query\<lparr>q_limit := Some ''-5''\<rparr>) = None"
    "no_query\<lparr>q_limit := Some ''-5'', q_limit := Some ''1''\<rparr> = no_query\<lparr>q_limit := Some ''1''\<rparr>"
    "no_query\<lparr>q_limit := Some ''-5'', q_limit := Some ''-5''\<rparr> = no_query\<lparr>q_limit := Some ''-5''\<rparr>"
    "no_query\<lparr>q_limit := Some ''-5'', q_limit := Some ''500''\<rparr> = no_query\<lparr>q_limit := Some ''500''\<rparr>"
    "no_query\<lparr>q_limit := Some ''-5'', q_limit := Some ''100''\<rparr> = no_query\<lparr>q_limit := Some ''100''\<rparr>"
    by (simp_all add: no_query_def)
  note t = pagination_sanitized[OF example_header_Next, of parseInt_ascii
      "no_query\<lparr>q_limit := Some ''-5''\<rparr>" ilike_ascii example_db 1, unfolded q lim page]
  have off: "offset_param (offset (Num 1) 1) = Some 0"
    by code_simp
  from t have "limitInt parseInt_ascii None = 10
      \<and> status (get_jobs parseInt_ascii ilike_ascii
          (no_query\<lparr>q_limit := Some ''-5''\<rparr>) example_db) = 200
      \<and> status (fst (route_admin_get_jobs (jwt_verify example_decode 2000) ''s3cret''
          (Some ''Bearer tok.1'') parseInt_ascii ilike_ascii
          (no_query\<lparr>q_limit := Some ''-5''\<rparr>) example_db)) = 200
      \<and> get_jobs parseInt_ascii ilike_ascii (no_query\<lparr>q_limit := Some ''-5''\<rparr>) example_db
          = get_jobs parseInt_ascii ilike_ascii (no_query\<lparr>q_limit := Some ''1''\<rparr>) example_db
      \<and> get_jobs parseInt_ascii ilike_ascii (no_query\<lparr>q_limit := Some ''500''\<rparr>) example_db
          = get_jobs parseInt_ascii ilike_ascii (no_query\<lparr>q_limit := Some ''100''\<rparr>) example_db"
    by (auto simp add: parseInt_ascii_examples query_text_def off)
  with len lim page example_header_Next parseInt_ascii_examples(1-5) show ?thesis
    by blast
qed

text \<open>
  C1 as the spec states it fails in three ways. With \<open>parseInt\<close> reading ASCII decimal
  text: \<open>limit=-5\<close> does not behave as \<open>limit=10\<close>, the limits are 1 and 10 and on the
  example datastore the first request returns one job, the second two; the non-numeric
  \<open>limit=5abc\<close> does not fall back to the default, the limit is 5; and the out-of-range
  \<open>page=9223372036854775807\<close> is not replaced by a default but produces an error, the
  page is the double \<open>2^63\<close>, the offset is rejected by the datastore and the answer is
  500.
\<close>

theorem limit_minus_five_counterexample:
  "limitInt parseInt_ascii (Some ''-5'') = 1 \<and> limitInt parseInt_ascii (Some ''10'') = 10
   \<and> length (public_rows (body (get_jobs parseInt_ascii ilike_ascii
        (no_query\<lparr>q_limit := Some ''-5''\<rparr>) example_db))) = 1
   \<and> length (public_rows (body (get_jobs parseInt_ascii ilike_ascii
        (no_query\<lparr>q_limit := Some ''10''\<rparr>) example_db))) = 2
   \<and> limitInt parseInt_ascii (Some ''5abc'') = 5
   \<and> pageInt parseInt_ascii (Some ''9223372036854775807'') = Num 9223372036854775808
   \<and> get_jobs parseInt_ascii ilike_ascii
        (no_query\<lparr>q_page := Some ''9223372036854775807''\<rparr>) example_db
       = json 500 (Message msg_server_error)
   \<and> admin_get_jobs parseInt_ascii ilike_ascii
        (no_query\<lparr>q_page := Some ''9223372036854775807''\<rparr>) example_db
       = json 500 (Message msg_server_error)"
  by code_simp

subsection \<open>Visibility\<close>

text \<open>With \<open>id\<close> a key of the table, a selection by \<open>id\<close> finds the one row that has it.\<close>

lemma filter_by_key:
  "distinct (map job_id rows) \<Longrightarrow> j \<in> set rows \<Longrightarrow>
   filter (\<lambda>r. job_id r = job_id j) rows = [j]"
proof (induction rows)
  case Nil
  then show ?case by simp
next
  case (Cons r rows)
  show ?case
  proof (cases "r = j")
    case True
    have "job_id j \<notin> job_id ` set rows"
      using Cons.prems(1) True by simp
    then have "\<forall>x \<in> set rows. job_id x \<noteq> job_id j"
      by (metis imageI)
    then have "filter (\<lambda>r. job_id r = job_id j) rows = []"
      by (simp add: filter_empty_conv)
    with True show ?thesis by simp
  next
    case False
    with Cons.prems have in_rows: "j \<in> set rows" by simp
    with Cons.prems(1) have "job_id r \<noteq> job_id j" by auto
    with Cons.IH Cons.prems(1) in_rows show ?thesis by simp
  qed
qed

lemma filter_by_key_and:
  "distinct (map job_id rows) \<Longrightarrow> j \<in> set rows \<Longrightarrow>
   filter (\<lambda>r. job_id r = job_id j \<and> P r) rows = (if P j then [j] else [])"
proof -
  assume a: "distinct (map job_id rows)" "j \<in> set rows"
  have "filter (\<lambda>r. job_id r = job_id j \<and> P r) rows
        = filter P (filter (\<lambda>r. job_id r = job_id j) rows)"
    by (simp add: conj_commute)
  then show ?thesis using filter_by_key[OF a] by simp
qed

lemma set_limit_offset: "set (limit_offset l off rows) \<subseteq> set rows"
  unfolding limit_offset_def
  by (rule order_trans[OF set_take_subset set_drop_subset])

lemma set_order_by_created_desc: "set (order_by_created_desc rows) = set rows"
  by (simp add: order_by_created_desc_def)

lemma length_order_by_created_desc: "length (order_by_created_desc rows) = length rows"
  by (simp add: order_by_created_desc_def)

lemma limit_offset_all: "int (length rows) \<le> l \<Longrightarrow> limit_offset l 0 rows = rows"
  by (simp add: limit_offset_def)

lemma set_select_page:
  "select_page params cond lim off rows = Some result \<Longrightarrow> set result \<subseteq> {j \<in> set rows. cond j}"
proof -
  assume "select_page params cond lim off rows = Some result"
  then obtain n where "result = limit_offset lim n (order_by_created_desc (filter cond rows))"
    by (auto simp add: select_page_def split: if_splits option.splits)
  then have "set result \<subseteq> set (order_by_created_desc (filter cond rows))"
    by (simp add: set_limit_offset)
  then show ?thesis by (simp add: set_order_by_created_desc)
qed

lemma public_rows_active:
  "v \<in> set (public_rows (body (get_jobs parseInt ilike q d))) \<Longrightarrow>
   \<exists>j \<in> set (jobs d). is_active j = Some True \<and> v = job_public.truncate j"
proof -
  assume v: "v \<in> set (public_rows (body (get_jobs parseInt ilike q d)))"
  then obtain result where s: "select_page [q_search q, q_location q, q_job_type q]
             (public_where ilike q) (limitInt parseInt (q_limit q))
             (offset (pageInt parseInt (q_page q)) (limitInt parseInt (q_limit q))) (jobs d)
           = Some result"
    by (cases "select_page [q_search q, q_location q, q_job_type q]
             (public_where ilike q) (limitInt parseInt (q_limit q))
             (offset (pageInt parseInt (q_page q)) (limitInt parseInt (q_limit q))) (jobs d)")
       (simp_all add: public_rows_get_jobs)
  with v obtain j where j: "v = job_public.truncate j" "j \<in> set result"
    by (auto simp add: public_rows_get_jobs)
  from subsetD[OF set_select_page[OF s] j(2)]
  have "j \<in> set (jobs d)" "is_active j = Some True"
    by (simp_all add: public_where_def)
  with j(1) show ?thesis by blast
qed

lemma admin_rows_subset:
  "set (admin_rows (body (admin_get_jobs parseInt ilike q d)))
     \<subseteq> {j \<in> set (jobs d). search_clause ilike (q_search q) j}"
proof (cases "select_page [q_search q] (search_clause ilike (q_search q))
             (limitInt parseInt (q_limit q))
             (offset (pageInt parseInt (q_page q)) (limitInt parseInt (q_limit q))) (jobs d)")
  case None
  then show ?thesis by (simp add: admin_rows_admin_get_jobs)
next
  case (Some result)
  from set_select_page[OF Some] Some show ?thesis
    by (simp add: admin_rows_admin_get_jobs)
qed

lemma offset_first_page: "1 \<le> l \<Longrightarrow> offset_param (offset (Num 1) l) = Some 0"
  using offset_param_small[of 1 l] by simp

lemma admin_rows_first_page:
  assumes "query_text (q_search q)" and "pageInt parseInt (q_page q) = Num 1"
    and "int (length (filter (search_clause ilike (q_search q)) (jobs d)))
           \<le> limitInt parseInt (q_limit q)"
  shows "set (admin_rows (body (admin_get_jobs parseInt ilike q d)))
           = {j \<in> set (jobs d). search_clause ilike (q_search q) j}"
proof -
  have off: "offset_param (offset (pageInt parseInt (q_page q)) (limitInt parseInt (q_limit q)))
               = Some 0"
    unfolding assms(2) by (rule offset_first_page[OF conjunct1[OF limitInt_range]])
  have "limit_offset (limitInt parseInt (q_limit q)) 0
          (order_by_created_desc (filter (search_clause ilike (q_search q)) (jobs d)))
        = order_by_created_desc (filter (search_clause ilike (q_search q)) (jobs d))"
    by (rule limit_offset_all) (simp add: assms(3) length_order_by_created_desc)
  then show ?thesis
    by (simp add: admin_rows_admin_get_jobs select_page_def assms(1) off
        set_order_by_created_desc)
qed

lemma get_job_hidden:
  "int4in i = Some (job_id j) \<Longrightarrow> distinct (map job_id (jobs d)) \<Longrightarrow> j \<in> set (jobs d) \<Longrightarrow>
   is_active j \<noteq> Some True \<Longrightarrow>
   get_job int4in i d = json 404 (Message msg_job_not_found)"
  by (simp add: get_job_def filter_by_key_and)

lemma admin_get_job_found:
  "int4in i = Some (job_id j) \<Longrightarrow> distinct (map job_id (jobs d)) \<Longrightarrow> j \<in> set (jobs d) \<Longrightarrow>
   admin_get_job int4in i d = json 200 (JobRow j)"
  by (simp add: admin_get_job_def filter_by_key)

text \<open>
  C2. In every datastore state, every job the public listing returns is (the public columns
  of) a stored job whose \<open>is_active\<close> is true. The admin listing, for a request that
  passed the auth gate, selects by the search clause alone: its rows are stored rows matching
  the search, and when they fit on the requested first page (and the datastore accepts the
  search text) they are all of them, active or not. For a job whose \<open>is_active\<close> is false
  (with \<open>id\<close> a key) and every text that the datastore reads as its id, the public detail
  lookup answers 404 and the admin detail lookup answers 200 with that job.
\<close>

theorem public_sees_active_only:
  assumes "authenticateToken verify secret authHeader = Next user"
  shows "(\<forall>v \<in> set (public_rows (body (get_jobs parseInt ilike q d))).
            \<exists>j \<in> set (jobs d). is_active j = Some True \<and> v = job_public.truncate j)
    \<and> set (admin_rows (body (fst
            (route_admin_get_jobs verify secret authHeader parseInt ilike q d))))
         \<subseteq> {j \<in> set (jobs d). search_clause ilike (q_search q) j}
    \<and> (query_text (q_search q) \<and> pageInt parseInt (q_page q) = Num 1
         \<and> int (length (filter (search_clause ilike (q_search q)) (jobs d)))
              \<le> limitInt parseInt (q_limit q)
       \<longrightarrow> set (admin_rows (body (fst
                (route_admin_get_jobs verify secret authHeader parseInt ilike q d))))
             = {j \<in> set (jobs d). search_clause ilike (q_search q) j})
    \<and> (\<forall>j \<in> set (jobs d).
          distinct (map job_id (jobs d)) \<and> is_active j = Some False
          \<and> int4in i = Some (job_id j) \<longrightarrow>
          get_job int4in i d = json 404 (Message msg_job_not_found)
          \<and> route_admin_get_job verify secret authHeader int4in i d = (json 200 (JobRow j), d))"
proof (intro conjI ballI impI)
  fix v assume "v \<in> set (public_rows (body (get_jobs parseInt ilike q d)))"
  then show "\<exists>j \<in> set (jobs d). is_active j = Some True \<and> v = job_public.truncate j"
    by (rule public_rows_active)
next
  show "set (admin_rows (body (fst
            (route_admin_get_jobs verify secret authHeader parseInt ilike q d))))
         \<subseteq> {j \<in> set (jobs d). search_clause ilike (q_search q) j}"
    unfolding route_admin_get_jobs_Next[OF assms] fst_conv by (rule admin_rows_subset)
next
  assume a: "query_text (q_search q) \<and> pageInt parseInt (q_page q) = Num 1
         \<and> int (length (filter (search_clause ilike (q_search q)) (jobs d)))
              \<le> limitInt parseInt (q_limit q)"
  show "set (admin_rows (body (fst
                (route_admin_get_jobs verify secret authHeader parseInt ilike q d))))
             = {j \<in> set (jobs d). search_clause ilike (q_search q) j}"
    unfolding route_admin_get_jobs_Next[OF assms] fst_conv
    by (rule admin_rows_first_page[OF conjunct1[OF a] conjunct1[OF conjunct2[OF a]]
          conjunct2[OF conjunct2[OF a]]])
next
  fix j assume j: "j \<in> set (jobs d)"
    and h: "distinct (map job_id (jobs d)) \<and> is_active j = Some False
          \<and> int4in i = Some (job_id j)"
  from j h show "get_job int4in i d = json 404 (Message msg_job_not_found)"
    by (simp add: get_job_hidden)
  from j h show "route_admin_get_job verify secret authHeader int4in i d
                   = (json 200 (JobRow j), d)"
    by (simp add: route_admin_get_job_Next[OF assms] admin_get_job_found)
qed

lemma example_db_keys: "distinct (map job_id (jobs example_db))"
  by (simp add: example_db_def job1_def job2_def job3_def)

lemma int4in_ascii_examples:
  "int4in_ascii ''1'' = Some 1" "int4in_ascii ''2'' = Some 2" "int4in_ascii ''9'' = Some 9"
  "int4in_ascii ''2147483648'' = None" "int4in_ascii ''abc'' = None"
  by code_simp+

text \<open>
  The theorem on the example datastore: the public listing returns the two active jobs,
  the admin listing all three, and the inactive job 2 is 404 in public and 200 for the admin.
\<close>

theorem public_sees_active_only_witness:
  "authenticateToken (jwt_verify example_decode 2000) ''s3cret'' (Some ''Bearer tok.1'')
      = Next (claims example_token)
   \<and> job2 \<in> set (jobs example_db) \<and> distinct (map job_id (jobs example_db))
   \<and> is_active job2 = Some False \<and> int4in_ascii ''2'' = Some (job_id job2)
   \<and> query_text (q_search no_query) \<and> pageInt parseInt_ascii (q_page no_query) = Num 1
   \<and> int (length (filter (search_clause ilike_ascii (q_search no_query)) (jobs example_db)))
        \<le> limitInt parseInt_ascii (q_limit no_query)
   \<and> public_rows (body (get_jobs parseInt_ascii ilike_ascii no_query example_db))
        = [job_public.truncate job3, job_public.truncate job1]
   \<and> set (admin_rows (body (fst (route_admin_get_jobs (jwt_verify example_decode 2000) ''s3cret''
        (Some ''Bearer tok.1'') parseInt_ascii ilike_ascii no_query example_db))))
        = {job1, job2, job3}
   \<and> get_job int4in_ascii ''2'' example_db = json 404 (Message msg_job_not_found)
   \<and> route_admin_get_job (jwt_verify example_decode 2000) ''s3cret'' (Some ''Bearer tok.1'')
        int4in_ascii ''2'' example_db
        = (json 200 (JobRow job2), example_db)"
proof -
  have pub: "public_rows (body (get_jobs parseInt_ascii ilike_ascii no_query example_db))
        = [job_public.truncate job3, job_public.truncate job1]"
    by code_simp
  have j2: "job2 \<in> set (jobs example_db)" "is_active job2 = Some False"
    "int4in_ascii ''2'' = Some (job_id job2)"
    by (simp_all add: example_db_def job2_def int4in_ascii_examples)
  have q: "query_text (q_search no_query)" "pageInt parseInt_ascii (q_page no_query) = Num 1"
    "int (length (filter (search_clause ilike_ascii (q_search no_query)) (jobs example_db)))
        \<le> limitInt parseInt_ascii (q_limit no_query)"
    "{j \<in> set (jobs example_db). search_clause ilike_ascii (q_search no_query) j}
        = {job1, job2, job3}"
    by (auto simp add: no_query_def query_text_def pageInt_cases limitInt_cases query_or_def
        parseInt_ascii_examples search_clause_def example_db_def)
  note t = public_sees_active_only[OF example_header_Next, of parseInt_ascii ilike_ascii
      no_query example_db int4in_ascii "''2''"]
  from t q(1-3) have adm: "set (admin_rows (body (fst (route_admin_get_jobs
        (jwt_verify example_decode 2000) ''s3cret''
        (Some ''Bearer tok.1'') parseInt_ascii ilike_ascii no_query example_db))))
        = {j \<in> set (jobs example_db). search_clause ilike_ascii (q_search no_query) j}"
    by blast
  from t have "\<forall>j \<in> set (jobs example_db).
          distinct (map job_id (jobs example_db)) \<and> is_active j = Some False
          \<and> int4in_ascii ''2'' = Some (job_id j) \<longrightarrow>
          get_job int4in_ascii ''2'' example_db = json 404 (Message msg_job_not_found)
          \<and> route_admin_get_job (jwt_verify example_decode 2000) ''s3cret''
                (Some ''Bearer tok.1'') int4in_ascii ''2'' example_db
              = (json 200 (JobRow j), example_db)"
    by blast
  from bspec[OF this j2(1)] j2 example_db_keys
  have det: "get_job int4in_ascii ''2'' example_db = json 404 (Message msg_job_not_found)
          \<and> route_admin_get_job (jwt_verify example_decode 2000) ''s3cret''
                (Some ''Bearer tok.1'') int4in_ascii ''2'' example_db
              = (json 200 (JobRow job2), example_db)"
    by blast
  from det adm pub j2 q example_db_keys example_header_Next show ?thesis
    by (simp only: simp_thms)
qed

subsection \<open>Validation\<close>

lemma required_present:
  "\<not> required_missing b \<Longrightarrow>
   \<exists>t c l de e. b_title b = Val t \<and> t \<noteq> [] \<and> b_company b = Val c \<and> c \<noteq> []
      \<and> b_location b = Val l \<and> l \<noteq> [] \<and> b_description b = Val de \<and> de \<noteq> []
      \<and> b_contact_email b = Val e \<and> e \<noteq> []"
  by (auto simp add: required_missing_def truthy_str_def split: js.splits)

lemma required_given:
  "b_title b = Val t \<Longrightarrow> t \<noteq> [] \<Longrightarrow> b_company b = Val c \<Longrightarrow> c \<noteq> [] \<Longrightarrow>
   b_location b = Val l \<Longrightarrow> l \<noteq> [] \<Longrightarrow> b_description b = Val de \<Longrightarrow> de \<noteq> [] \<Longrightarrow>
   b_contact_email b = Val e \<Longrightarrow> e \<noteq> [] \<Longrightarrow> \<not> required_missing b"
  by (simp add: required_missing_def truthy_str_def)

lemma salary_range_invalid_iff:
  "b_salary_min b \<noteq> Null \<Longrightarrow> b_salary_min b \<noteq> Undefined \<Longrightarrow>
   b_salary_max b \<noteq> Null \<Longrightarrow> b_salary_max b \<noteq> Undefined \<Longrightarrow>
   Number (b_salary_min b) = Some lo \<Longrightarrow> Number (b_salary_max b) = Some hi \<Longrightarrow>
   salary_range_invalid b = (hi < lo)"
  by (simp add: salary_range_invalid_def)

lemma salary_absent_valid:
  "b_salary_min b = Undefined \<Longrightarrow> \<not> salary_range_invalid b"
  by (simp add: salary_range_invalid_def)

lemma create_job_rejected:
  "required_missing b \<or> salary_range_invalid b \<Longrightarrow>
   create_job now nextval b d =
     (json 400 (Message (if required_missing b then msg_required_fields else msg_salary_range)), d)"
  by (auto simp add: create_job_def)

lemma put_job_rejected:
  "required_missing b \<or> salary_range_invalid b \<Longrightarrow>
   put_job int4in now i b d =
     (json 400 (Message (if required_missing b then msg_required_fields else msg_salary_range)), d)"
  by (auto simp add: put_job_def)

text \<open>
  C3. For every create request that passed the auth gate, in which \<open>salary_min\<close> and
  \<open>salary_max\<close> are both present (neither \<open>null\<close> nor absent) and numeric and
  \<open>salary_min > salary_max\<close>: the answer is 400 and the datastore is unchanged, no row
  inserted. The message is the salary-range message whenever the five required fields are
  supplied; a request that also lacks a required field gets the required-fields message,
  that check coming first. The update route answers the same, whatever the \<open>id\<close>, and
  leaves every row as it was.
\<close>

theorem salary_range_rejected:
  assumes "authenticateToken verify secret authHeader = Next user"
    and "b_salary_min b \<noteq> Null" and "b_salary_min b \<noteq> Undefined"
    and "b_salary_max b \<noteq> Null" and "b_salary_max b \<noteq> Undefined"
    and "Number (b_salary_min b) = Some lo" and "Number (b_salary_max b) = Some hi"
    and "hi < lo"
  shows "route_create_job verify secret authHeader now nextval b d =
           (json 400 (Message (if required_missing b then msg_required_fields
                               else msg_salary_range)), d)
    \<and> route_put_job verify secret authHeader int4in now i b d =
           (json 400 (Message (if required_missing b then msg_required_fields
                               else msg_salary_range)), d)
    \<and> msg_salary_range \<noteq> msg_required_fields"
proof -
  have "salary_range_invalid b"
    using salary_range_invalid_iff[OF assms(2-7)] assms(8) by simp
  then have "required_missing b \<or> salary_range_invalid b" by simp
  then show ?thesis
    unfolding route_create_job_Next[OF assms(1)] route_put_job_Next[OF assms(1)]
    by (simp add: create_job_rejected put_job_rejected msg_salary_range_def msg_required_fields_def)
qed

text \<open>
  The theorem for \<open>salary_min = 2000\<close>, \<open>salary_max = 1000\<close> added to the scenario body.
\<close>

theorem salary_range_rejected_witness:
  "authenticateToken (jwt_verify example_decode 2000) ''s3cret'' (Some ''Bearer tok.1'')
      = Next (claims example_token)
   \<and> Number (b_salary_min (minimal_body\<lparr>b_salary_min := Val 2000, b_salary_max := Val 1000\<rparr>)) = Some 2000
   \<and> Number (b_salary_max (minimal_body\<lparr>b_salary_min := Val 2000, b_salary_max := Val 1000\<rparr>)) = Some 1000
   \<and> (1000 :: int) < 2000
   \<and> route_create_job (jwt_verify example_decode 2000) ''s3cret'' (Some ''Bearer tok.1'') 500 (Some 4)
         (minimal_body\<lparr>b_salary_min := Val 2000, b_salary_max := Val 1000\<rparr>) example_db
       = (json 400 (Message msg_salary_range), example_db)
   \<and> route_put_job (jwt_verify example_decode 2000) ''s3cret'' (Some ''Bearer tok.1'')
         int4in_ascii 500 ''1''
         (minimal_body\<lparr>b_salary_min := Val 2000, b_salary_max := Val 1000\<rparr>) example_db
       = (json 400 (Message msg_salary_range), example_db)"
  using salary_range_rejected[OF example_header_Next,
      of "minimal_body\<lparr>b_salary_min := Val 2000, b_salary_max := Val 1000\<rparr>" 2000 1000
         500 "Some 4" example_db int4in_ascii "''1''"]
    example_header_Next
  by (simp add: Number_def required_missing_def truthy_str_def minimal_body_def)

subsection \<open>The auth gate\<close>

lemma split_on_no_sep: "c \<notin> set s \<Longrightarrow> split_on c s = [s]"
  by (induction s) auto

lemma split_on_first: "c \<notin> set w \<Longrightarrow> split_on c (w @ c # rest) = w # split_on c rest"
  by (induction w) auto

lemma header_token_bearer:
  assumes "CHR '' '' \<notin> set t"
  shows "header_token (Some (''Bearer '' @ t)) = Some t"
proof -
  have "split_on CHR '' '' (''Bearer'' @ CHR '' '' # t) = ''Bearer'' # split_on CHR '' '' t"
    by (rule split_on_first) simp
  then have "split_on CHR '' '' (''Bearer '' @ t) = [''Bearer'', t]"
    by (simp add: split_on_no_sep[OF assms])
  then show ?thesis
    by (simp add: header_token_def at_index_def)
qed

lemma gate_no_token:
  "header_token h = None \<or> header_token h = Some [] \<Longrightarrow>
   authenticateToken verify secret h = Responded (json 401 (Message ''Access token required''))"
  by (auto simp add: authenticateToken_def msg_token_required_def)

lemma gate_bad_token:
  "header_token h = Some tok \<Longrightarrow> tok \<noteq> [] \<Longrightarrow> verify tok secret = Inl e \<Longrightarrow>
   authenticateToken verify secret h = Responded (json 403 (Message ''Invalid token''))"
  by (simp add: authenticateToken_def msg_invalid_token_def)

lemma gate_good_token:
  "header_token h = Some tok \<Longrightarrow> tok \<noteq> [] \<Longrightarrow> verify tok secret = Inr u \<Longrightarrow>
   authenticateToken verify secret h = Next u"
  by (simp add: authenticateToken_def)

text \<open>
  C6. The auth gate reads the token from the \<open>Authorization\<close> header as the second of
  its space-separated pieces: for a header \<open>Bearer <token>\<close> (a token has no space) that
  is the token.
  With no token (no header, no second piece, or an empty one) it answers 401 "Access token
  required"; with a token that the library's verification rejects (invalid, malformed or
  expired) it answers 403 "Invalid token"; in both cases the protected route's answer is
  that response whatever the handler is, and the datastore is untouched. When verification
  succeeds the auth gate passes the decoded identity on and the route's answer is the
  handler's.
\<close>

theorem auth_gate:
  "header_token None = None
   \<and> (CHR '' '' \<notin> set t \<longrightarrow> header_token (Some (''Bearer '' @ t)) = Some t)
   \<and> (header_token h = None \<or> header_token h = Some [] \<longrightarrow>
        authenticateToken verify secret h
          = Responded (json 401 (Message ''Access token required''))
        \<and> protect (authenticateToken verify secret h) handler d
          = (json 401 (Message ''Access token required''), d))
   \<and> (header_token h = Some tok \<and> tok \<noteq> [] \<and> verify tok secret = Inl e \<longrightarrow>
        authenticateToken verify secret h = Responded (json 403 (Message ''Invalid token''))
        \<and> protect (authenticateToken verify secret h) handler d
          = (json 403 (Message ''Invalid token''), d))
   \<and> (header_token h = Some tok \<and> tok \<noteq> [] \<and> verify tok secret = Inr u \<longrightarrow>
        authenticateToken verify secret h = Next u
        \<and> protect (authenticateToken verify secret h) handler d = handler u d)"
proof (intro conjI impI)
  show "header_token None = None" by (simp add: header_token_def)
next
  assume "CHR '' '' \<notin> set t"
  then show "header_token (Some (''Bearer '' @ t)) = Some t" by (rule header_token_bearer)
next
  assume a: "header_token h = None \<or> header_token h = Some []"
  have g: "authenticateToken verify secret h
          = Responded (json 401 (Message ''Access token required''))"
    by (rule gate_no_token[OF a])
  then show "authenticateToken verify secret h
          = Responded (json 401 (Message ''Access token required''))" .
  from g show "protect (authenticateToken verify secret h) handler d
          = (json 401 (Message ''Access token required''), d)"
    by (simp add: protect_def)
next
  assume a: "header_token h = Some tok \<and> tok \<noteq> [] \<and> verify tok secret = Inl e"
  then have "header_token h = Some tok" "tok \<noteq> []" "verify tok secret = Inl e"
    by simp_all
  then have g: "authenticateToken verify secret h
                  = Responded (json 403 (Message ''Invalid token''))"
    by (rule gate_bad_token)
  then show "authenticateToken verify secret h
                  = Responded (json 403 (Message ''Invalid token''))" .
  from g show "protect (authenticateToken verify secret h) handler d
          = (json 403 (Message ''Invalid token''), d)"
    by (simp add: protect_def)
next
  assume a: "header_token h = Some tok \<and> tok \<noteq> [] \<and> verify tok secret = Inr u"
  then have "header_token h = Some tok" "tok \<noteq> []" "verify tok secret = Inr u"
    by simp_all
  then have g: "authenticateToken verify secret h = Next u"
    by (rule gate_good_token)
  then show "authenticateToken verify secret h = Next u" .
  from g show "protect (authenticateToken verify secret h) handler d = handler u d"
    by (simp add: protect_def)
qed

text \<open>
  The three outcomes on the toggle route: a header without token, a token that does not
  decode, and the example token.
\<close>

theorem auth_gate_witness:
  "CHR '' '' \<notin> set ''tok.1'' \<and> header_token (Some ''Bearer tok.1'') = Some ''tok.1''
   \<and> header_token (Some ''Bearer'') = None
   \<and> route_toggle_job (jwt_verify example_decode 2000) ''s3cret'' (Some ''Bearer'')
        int4in_ascii 300 ''2'' example_db
       = (json 401 (Message ''Access token required''), example_db)
   \<and> header_token (Some ''Bearer tok.0'') = Some ''tok.0''
   \<and> jwt_verify example_decode 2000 ''tok.0'' ''s3cret'' = Inl InvalidToken
   \<and> route_toggle_job (jwt_verify example_decode 2000) ''s3cret'' (Some ''Bearer tok.0'')
        int4in_ascii 300 ''2'' example_db
       = (json 403 (Message ''Invalid token''), example_db)
   \<and> jwt_verify example_decode 2000 ''tok.1'' ''s3cret'' = Inr (claims example_token)
   \<and> route_toggle_job (jwt_verify example_decode 2000) ''s3cret'' (Some ''Bearer tok.1'')
        int4in_ascii 300 ''2'' example_db
       = toggle_job int4in_ascii 300 ''2'' example_db"
proof -
  have h0: "header_token (Some ''Bearer'') = None"
    by (simp add: header_token_def at_index_def)
  have v0: "jwt_verify example_decode 2000 ''tok.0'' ''s3cret'' = Inl InvalidToken"
    by (simp add: jwt_verify_def example_decode_def)
  have v1: "jwt_verify example_decode 2000 ''tok.1'' ''s3cret'' = Inr (claims example_token)"
    by (simp add: jwt_verify_def example_decode_def example_token_def)
  have s: "CHR '' '' \<notin> set ''tok.1''" "CHR '' '' \<notin> set ''tok.0''" by simp_all
  note g = auth_gate[where verify = "jwt_verify example_decode 2000" and secret = "''s3cret''"
      and handler = "\<lambda>user. toggle_job int4in_ascii 300 ''2''" and d = example_db]
  have a: "header_token (Some ''Bearer tok.1'') = Some ''tok.1''"
    using g[of "''tok.1''" "Some ''Bearer''" "''tok.0''" InvalidToken "claims example_token"]
    by simp
  have b: "route_toggle_job (jwt_verify example_decode 2000) ''s3cret'' (Some ''Bearer'')
        int4in_ascii 300 ''2'' example_db
             = (json 401 (Message ''Access token required''), example_db)"
    unfolding route_toggle_job_def
    by (rule g[of "''tok.1''" "Some ''Bearer''" "''tok.0''" InvalidToken "claims example_token",
          THEN conjunct2, THEN conjunct2, THEN conjunct1, THEN mp, OF disjI1[OF h0], THEN conjunct2])
  have c: "header_token (Some ''Bearer tok.0'') = Some ''tok.0''"
    using g[of "''tok.0''" "Some ''Bearer tok.0''" "''tok.0''" InvalidToken "claims example_token"]
    by simp
  have e: "route_toggle_job (jwt_verify example_decode 2000) ''s3cret'' (Some ''Bearer tok.0'')
        int4in_ascii 300 ''2'' example_db
             = (json 403 (Message ''Invalid token''), example_db)"
    unfolding route_toggle_job_def
    by (rule g[of "''tok.0''" "Some ''Bearer tok.0''" "''tok.0''" InvalidToken "claims example_token",
          THEN conjunct2, THEN conjunct2, THEN conjunct2, THEN conjunct1, THEN mp, THEN conjunct2])
       (simp add: c v0)
  have f: "route_toggle_job (jwt_verify example_decode 2000) ''s3cret'' (Some ''Bearer tok.1'')
        int4in_ascii 300 ''2'' example_db
             = toggle_job int4in_ascii 300 ''2'' example_db"
    unfolding route_toggle_job_def
    by (rule g[of "''tok.1''" "Some ''Bearer tok.1''" "''tok.1''" InvalidToken "claims example_token",
          THEN conjunct2, THEN conjunct2, THEN conjunct2, THEN conjunct2, THEN mp, THEN conjunct2])
       (simp add: a v1)
  from a b c e f h0 v0 v1 s show ?thesis by (intro conjI)
qed

subsection \<open>Columns\<close>

lemma accepted_sql: "sent (fits n) v \<Longrightarrow> accepted (varchar n) (sql_param v)"
  by (cases v) (simp_all add: sent_def accepted_def sql_param_def fits_varchar)

lemma stored_sql: "sent (fits n) v \<Longrightarrow> stored (varchar n) (sql_param v) = sql_param v"
  by (cases v) (simp_all add: sent_def stored_def sql_param_def fits_varchar)

lemma accepted_null: "sent (fits n) v \<Longrightarrow> accepted (varchar n) (str_or_null v)"
  by (cases v) (simp_all add: sent_def accepted_def str_or_null_def fits_varchar)

lemma stored_null: "sent (fits n) v \<Longrightarrow> stored (varchar n) (str_or_null v) = str_or_null v"
  by (cases v) (simp_all add: sent_def stored_def str_or_null_def fits_varchar)

lemma fits_default: "sent (fits n) v \<Longrightarrow> fits n dflt \<Longrightarrow> fits n (str_or_default v dflt)"
  by (cases v) (simp_all add: sent_def str_or_default_def)

lemma accepted_default:
  "sent (fits n) v \<Longrightarrow> fits n dflt \<Longrightarrow> accepted (varchar n) (Some (str_or_default v dflt))"
  by (simp add: accepted_def fits_varchar[OF fits_default])

lemma stored_default:
  "sent (fits n) v \<Longrightarrow> fits n dflt \<Longrightarrow>
   stored (varchar n) (Some (str_or_default v dflt)) = Some (str_or_default v dflt)"
  by (simp add: stored_def fits_varchar[OF fits_default])

lemma accepted_text_sql: "sent pg_text v \<Longrightarrow> accepted text_column (sql_param v)"
  by (cases v) (simp_all add: sent_def accepted_def sql_param_def fits_text)

lemma stored_text_sql: "sent pg_text v \<Longrightarrow> stored text_column (sql_param v) = sql_param v"
  by (cases v) (simp_all add: sent_def stored_def sql_param_def fits_text)

lemma accepted_text_null: "sent pg_text v \<Longrightarrow> accepted text_column (str_or_null v)"
  by (cases v) (simp_all add: sent_def accepted_def str_or_null_def fits_text)

lemma stored_text_null: "sent pg_text v \<Longrightarrow> stored text_column (str_or_null v) = str_or_null v"
  by (cases v) (simp_all add: sent_def stored_def str_or_null_def fits_text)

lemma accepted_num: "sent in_int4 v \<Longrightarrow> accepted to_int4 (num_or_null v)"
  by (cases v) (simp_all add: sent_def accepted_def num_or_null_def to_int4_in)

lemma stored_num:
  "sent in_int4 v \<Longrightarrow> stored to_int4 (num_or_null v) = map_option word_of_int (num_or_null v)"
  by (cases v) (simp_all add: sent_def stored_def num_or_null_def to_int4_in)

lemma fits_VND: "fits 10 ''VND''"
  by (simp add: fits_def pg_text_def utf8_length_def)

lemma fits_Full_time: "fits 50 ''Full-time''"
  by (simp add: fits_def pg_text_def utf8_length_def)

lemma varchar_VND: "varchar 10 ''VND'' = Some ''VND''"
  by (rule fits_varchar[OF fits_VND])

lemma varchar_Full_time: "varchar 50 ''Full-time'' = Some ''Full-time''"
  by (rule fits_varchar[OF fits_Full_time])

lemma column_values_params: "column_values (update_params b) = column_values (create_params b)"
  by (simp add: column_values_def update_params_def create_params_def)

lemma column_values_fits:
  assumes "body_fits b"
  shows "column_values (create_params b) =
     Some \<lparr>c_title = sql_param (b_title b), c_company = sql_param (b_company b),
           c_location = sql_param (b_location b),
           c_salary_min = map_option word_of_int (num_or_null (b_salary_min b)),
           c_salary_max = map_option word_of_int (num_or_null (b_salary_max b)),
           c_salary_currency = Some (str_or_default (b_salary_currency b) ''VND''),
           c_job_type = Some (str_or_default (b_job_type b) ''Full-time''),
           c_description = sql_param (b_description b),
           c_requirements = str_or_null (b_requirements b),
           c_benefits = str_or_null (b_benefits b),
           c_contact_email = sql_param (b_contact_email b),
           c_contact_phone = str_or_null (b_contact_phone b)\<rparr>"
proof -
  from assms have f: "sent (fits 200) (b_title b)" "sent (fits 150) (b_company b)"
    "sent (fits 100) (b_location b)" "sent in_int4 (b_salary_min b)"
    "sent in_int4 (b_salary_max b)" "sent (fits 10) (b_salary_currency b)"
    "sent (fits 50) (b_job_type b)" "sent pg_text (b_description b)"
    "sent pg_text (b_requirements b)" "sent pg_text (b_benefits b)"
    "sent (fits 100) (b_contact_email b)" "sent (fits 20) (b_contact_phone b)"
    by (simp_all add: body_fits_def)
  have acc: "accepted (varchar 200) (sql_param (b_title b))"
    "accepted (varchar 150) (sql_param (b_company b))"
    "accepted (varchar 100) (sql_param (b_location b))"
    "accepted to_int4 (num_or_null (b_salary_min b))"
    "accepted to_int4 (num_or_null (b_salary_max b))"
    "accepted (varchar 10) (Some (str_or_default (b_salary_currency b) ''VND''))"
    "accepted (varchar 50) (Some (str_or_default (b_job_type b) ''Full-time''))"
    "accepted text_column (sql_param (b_description b))"
    "accepted text_column (str_or_null (b_requirements b))"
    "accepted text_column (str_or_null (b_benefits b))"
    "accepted (varchar 100) (sql_param (b_contact_email b))"
    "accepted (varchar 20) (str_or_null (b_contact_phone b))"
    using f
    by (simp_all add: accepted_sql accepted_null accepted_default accepted_text_sql
        accepted_text_null accepted_num fits_VND fits_Full_time)
  have sto: "stored (varchar 200) (sql_param (b_title b)) = sql_param (b_title b)"
    "stored (varchar 150) (sql_param (b_company b)) = sql_param (b_company b)"
    "stored (varchar 100) (sql_param (b_location b)) = sql_param (b_location b)"
    "stored to_int4 (num_or_null (b_salary_min b))
       = map_option word_of_int (num_or_null (b_salary_min b))"
    "stored to_int4 (num_or_null (b_salary_max b))
       = map_option word_of_int (num_or_null (b_salary_max b))"
    "stored (varchar 10) (Some (str_or_default (b_salary_currency b) ''VND''))
       = Some (str_or_default (b_salary_currency b) ''VND'')"
    "stored (varchar 50) (Some (str_or_default (b_job_type b) ''Full-time''))
       = Some (str_or_default (b_job_type b) ''Full-time'')"
    "stored text_column (sql_param (b_description b)) = sql_param (b_description b)"
    "stored text_column (str_or_null (b_requirements b)) = str_or_null (b_requirements b)"
    "stored text_column (str_or_null (b_benefits b)) = str_or_null (b_benefits b)"
    "stored (varchar 100) (sql_param (b_contact_email b)) = sql_param (b_contact_email b)"
    "stored (varchar 20) (str_or_null (b_contact_phone b)) = str_or_null (b_contact_phone b)"
    using f
    by (simp_all add: stored_sql stored_null stored_default stored_text_sql
        stored_text_null stored_num fits_VND fits_Full_time)
  show ?thesis
    unfolding column_values_def create_params_def
    by (simp add: acc sto)
qed

text \<open>What a successful statement has stored, whether or not the values were cut.\<close>

lemma column_values_Some:
  "column_values v = Some c \<Longrightarrow>
   c_salary_min c = stored to_int4 (v_salary_min v)
   \<and> c_salary_max c = stored to_int4 (v_salary_max v)
   \<and> c_salary_currency c = stored (varchar 10) (v_salary_currency v)
   \<and> c_job_type c = stored (varchar 50) (v_job_type v)
   \<and> c_requirements c = stored text_column (v_requirements v)
   \<and> c_benefits c = stored text_column (v_benefits v)
   \<and> c_contact_phone c = stored (varchar 20) (v_contact_phone v)"
  by (auto simp add: column_values_def split: if_splits)

subsection \<open>Create\<close>

lemma create_job_inserts:
  assumes "b_title b = Val t" "t \<noteq> []" "b_company b = Val c" "c \<noteq> []"
    "b_location b = Val l" "l \<noteq> []" "b_description b = Val de" "de \<noteq> []"
    "b_contact_email b = Val e" "e \<noteq> []"
    and "\<not> salary_range_invalid b" and "body_fits b"
    and "k \<notin> set (map job_id (jobs d))"
    and "row = \<lparr>job_id = k, title = t, company = c, location = l,
               salary_min = map_option word_of_int (num_or_null (b_salary_min b)),
               salary_max = map_option word_of_int (num_or_null (b_salary_max b)),
               salary_currency = Some (str_or_default (b_salary_currency b) ''VND''),
               job_type = Some (str_or_default (b_job_type b) ''Full-time''),
               description = de, requirements = str_or_null (b_requirements b),
               benefits = str_or_null (b_benefits b), contact_email = e,
               contact_phone = str_or_null (b_contact_phone b),
               created_at = now, updated_at = now, is_active = Some True\<rparr>"
  shows "create_job now (Some k) b d =
           (json 201 (MessageJob msg_created row), d\<lparr>jobs := jobs d @ [row]\<rparr>)"
proof -
  have req: "\<not> required_missing b" using assms(1-10) by (rule required_given)
  note cv = column_values_fits[OF assms(12)]
  have nn: "not_null_columns
     \<lparr>c_title = sql_param (b_title b), c_company = sql_param (b_company b),
           c_location = sql_param (b_location b),
           c_salary_min = map_option word_of_int (num_or_null (b_salary_min b)),
           c_salary_max = map_option word_of_int (num_or_null (b_salary_max b)),
           c_salary_currency = Some (str_or_default (b_salary_currency b) ''VND''),
           c_job_type = Some (str_or_default (b_job_type b) ''Full-time''),
           c_description = sql_param (b_description b),
           c_requirements = str_or_null (b_requirements b),
           c_benefits = str_or_null (b_benefits b),
           c_contact_email = sql_param (b_contact_email b),
           c_contact_phone = str_or_null (b_contact_phone b)\<rparr> = Some (t, c, l, de, e)"
    by (simp add: not_null_columns_def sql_param_def assms(1,3,5,7,9))
  have ins: "insert_job now (Some k) (create_params b) d =
               Some (row, d\<lparr>jobs := jobs d @ [row]\<rparr>)"
    unfolding insert_job_def cv option.case nn prod.case
    using assms(13) by (simp add: assms(14) Let_def)
  show ?thesis
    by (simp add: create_job_def req assms(11) ins)
qed

text \<open>
  C9, as the code has it. For every create request that passed the auth gate and supplies
  the five required fields, each non-empty and fitting its column (\<open>title\<close> at most 200
  characters, \<open>company\<close> 150, \<open>location\<close> 100, \<open>contact_email\<close> 100, none with a NUL
  character), and nothing else, when the \<open>id\<close> sequence yields a value not yet in the
  table: the answer is 201, and the created row, returned and appended to the table, has
  the five values sent, \<open>salary_currency = "VND"\<close>, \<open>job_type = "Full-time"\<close> and
  \<open>is_active = true\<close>; its other optional columns are \<open>NULL\<close>.
\<close>

theorem create_defaults:
  assumes "authenticateToken verify secret authHeader = Next user"
    and "b_title b = Val t" "t \<noteq> []" "b_company b = Val c" "c \<noteq> []"
    "b_location b = Val l" "l \<noteq> []" "b_description b = Val de" "de \<noteq> []"
    "b_contact_email b = Val e" "e \<noteq> []"
    and "b_salary_min b = Undefined" "b_salary_max b = Undefined"
    "b_salary_currency b = Undefined" "b_job_type b = Undefined"
    "b_requirements b = Undefined" "b_benefits b = Undefined" "b_contact_phone b = Undefined"
    and "fits 200 t" "fits 150 c" "fits 100 l" "pg_text de" "fits 100 e"
    and "k \<notin> set (map job_id (jobs d))"
  shows "\<exists>row. route_create_job verify secret authHeader now (Some k) b d =
           (json 201 (MessageJob msg_created row), d\<lparr>jobs := jobs d @ [row]\<rparr>)
     \<and> row = \<lparr>job_id = k, title = t, company = c, location = l,
               salary_min = None, salary_max = None,
               salary_currency = Some ''VND'', job_type = Some ''Full-time'',
               description = de, requirements = None, benefits = None, contact_email = e,
               contact_phone = None, created_at = now, updated_at = now,
               is_active = Some True\<rparr>"
proof -
  have v: "\<not> salary_range_invalid b" using assms(12) by (rule salary_absent_valid)
  have f: "body_fits b"
    by (simp add: body_fits_def sent_def assms(2,4,6,8,10,12-23))
  show ?thesis
    unfolding route_create_job_Next[OF assms(1)]
    using create_job_inserts[OF assms(2-11) v f assms(24) refl, of now]
    by (simp add: assms(12-18) num_or_null_def str_or_null_def str_or_default_def)
qed

lemma minimal_body_fits: "body_fits minimal_body"
  by (simp add: body_fits_def sent_def minimal_body_def fits_def pg_text_def utf8_length_def)

text \<open>
  The spec's scenario (Engineer at Acme, Hanoi) on the example datastore, the sequence
  yielding 4.
\<close>

theorem create_defaults_witness:
  "authenticateToken (jwt_verify example_decode 2000) ''s3cret'' (Some ''Bearer tok.1'')
      = Next (claims example_token)
   \<and> b_title minimal_body = Val ''Engineer'' \<and> b_salary_currency minimal_body = Undefined
   \<and> fits 200 ''Engineer'' \<and> fits 150 ''Acme'' \<and> fits 100 ''Hanoi'' \<and> pg_text ''Build things''
   \<and> fits 100 ''hr@acme.com'' \<and> (4 :: int4) \<notin> set (map job_id (jobs example_db))
   \<and> (\<exists>row. route_create_job (jwt_verify example_decode 2000) ''s3cret'' (Some ''Bearer tok.1'')
               500 (Some 4) minimal_body example_db =
           (json 201 (MessageJob msg_created row),
            example_db\<lparr>jobs := jobs example_db @ [row]\<rparr>)
     \<and> row = \<lparr>job_id = 4, title = ''Engineer'', company = ''Acme'', location = ''Hanoi'',
               salary_min = None, salary_max = None,
               salary_currency = Some ''VND'', job_type = Some ''Full-time'',
               description = ''Build things'', requirements = None, benefits = None,
               contact_email = ''hr@acme.com'',
               contact_phone = None, created_at = 500, updated_at = 500,
               is_active = Some True\<rparr>)"
proof -
  have f: "fits 200 ''Engineer''" "fits 150 ''Acme''" "fits 100 ''Hanoi''" "pg_text ''Build things''"
    "fits 100 ''hr@acme.com''"
    by (simp_all add: fits_def pg_text_def utf8_length_def)
  have k: "(4 :: int4) \<notin> set (map job_id (jobs example_db))"
    by (simp add: example_db_def job1_def job2_def job3_def)
  have m: "b_title minimal_body = Val ''Engineer''" "b_company minimal_body = Val ''Acme''"
    "b_location minimal_body = Val ''Hanoi''" "b_description minimal_body = Val ''Build things''"
    "b_contact_email minimal_body = Val ''hr@acme.com''"
    "b_salary_min minimal_body = Undefined" "b_salary_max minimal_body = Undefined"
    "b_salary_currency minimal_body = Undefined" "b_job_type minimal_body = Undefined"
    "b_requirements minimal_body = Undefined" "b_benefits minimal_body = Undefined"
    "b_contact_phone minimal_body = Undefined"
    by (simp_all add: minimal_body_def)
  have ne: "''Engineer'' \<noteq> []" "''Acme'' \<noteq> []" "''Hanoi'' \<noteq> []" "''Build things'' \<noteq> []"
    "''hr@acme.com'' \<noteq> []"
    by simp_all
  from create_defaults[OF example_header_Next m(1) ne(1) m(2) ne(2) m(3) ne(3) m(4) ne(4)
      m(5) ne(5) m(6-12) f k, of 500]
    example_header_Next m(1,8) f k
  show ?thesis by (intro conjI)
qed

text \<open>
  C9 as the spec states it fails: a create request supplying only the five required
  fields, the title being 201 characters long, is answered 500, the datastore refusing the
  value for \<open>VARCHAR(200)\<close>, and nothing is stored.
\<close>

theorem long_title_counterexample:
  "route_create_job (jwt_verify example_decode 2000) ''s3cret'' (Some ''Bearer tok.1'')
       500 (Some 4) (minimal_body\<lparr>b_title := Val (replicate 201 CHR ''a'')\<rparr>) example_db
     = (json 500 (Message msg_server_error), example_db)
   \<and> length (replicate 201 CHR ''a'') = 201
   \<and> \<not> required_missing (minimal_body\<lparr>b_title := Val (replicate 201 CHR ''a'')\<rparr>)
   \<and> b_salary_min (minimal_body\<lparr>b_title := Val (replicate 201 CHR ''a'')\<rparr>) = Undefined
   \<and> b_salary_currency (minimal_body\<lparr>b_title := Val (replicate 201 CHR ''a'')\<rparr>) = Undefined"
  by code_simp

subsection \<open>Update\<close>

lemma key_unique:
  "distinct (map job_id rows) \<Longrightarrow> j \<in> set rows \<Longrightarrow> r \<in> set rows \<Longrightarrow>
   job_id r = job_id j \<Longrightarrow> r = j"
  by (meson distinct_map inj_onD)

lemma update_job_rejected:
  "column_values v = None \<or> int4in i = None \<Longrightarrow> update_job int4in now v i d = None"
  by (auto simp add: update_job_def split: option.split)

lemma update_job_found:
  assumes "column_values v = Some c" and "not_null_columns c = Some nn"
    and "int4in i = Some (job_id j)"
    and "distinct (map job_id (jobs d))" and "j \<in> set (jobs d)"
  shows "update_job int4in now v i d =
           Some ([assign_job now nn c (v_is_active v) j],
                 d\<lparr>jobs := map (\<lambda>r. if job_id r = job_id j
                                      then assign_job now nn c (v_is_active v) j else r)
                               (jobs d)\<rparr>)"
proof -
  have "map (\<lambda>r. if job_id r = job_id j then assign_job now nn c (v_is_active v) r else r) (jobs d)
        = map (\<lambda>r. if job_id r = job_id j then assign_job now nn c (v_is_active v) j else r) (jobs d)"
    using key_unique[OF assms(4,5)] by (intro map_cong refl) auto
  then show ?thesis
    by (simp add: update_job_def assms(1,2,3) filter_by_key[OF assms(4,5)])
qed

lemma update_job_missing:
  assumes "column_values v = Some c" and "int4in i = Some k"
    and "\<forall>j \<in> set (jobs d). job_id j \<noteq> k"
  shows "update_job int4in now v i d = Some ([], d)"
proof -
  have "filter (\<lambda>j. job_id j = k) (jobs d) = []"
    using assms(3) by (simp add: filter_empty_conv)
  moreover have "map (\<lambda>j. if job_id j = k then f j else j) (jobs d) = jobs d" for f
    using assms(3) by (intro map_idI) simp
  ultimately show ?thesis
    by (simp add: update_job_def assms(1,2) split: option.split)
qed

lemma put_job_failed:
  assumes "\<not> required_missing b" and "\<not> salary_range_invalid b"
    and "column_values (update_params b) = None \<or> int4in i = None"
  shows "put_job int4in now i b d = (json 500 (Message msg_server_error), d)"
  by (simp add: put_job_def assms(1,2) update_job_rejected[where int4in = int4in and i = i, OF assms(3)])

lemma put_job_missing:
  assumes "\<not> required_missing b" and "\<not> salary_range_invalid b"
    and "column_values (update_params b) = Some c" and "int4in i = Some k"
    and "\<forall>j \<in> set (jobs d). job_id j \<noteq> k"
  shows "put_job int4in now i b d = (json 404 (Message msg_job_not_found), d)"
  by (simp add: put_job_def assms(1,2) update_job_missing[where int4in = int4in and i = i, OF assms(3,4,5)])

lemma put_job_found:
  assumes "b_title b = Val t" "b_company b = Val c" "b_location b = Val l"
    "b_description b = Val de" "b_contact_email b = Val e"
    and "\<not> required_missing b" and "\<not> salary_range_invalid b" and "body_fits b"
    and "int4in i = Some (job_id j)"
    and "distinct (map job_id (jobs d))" and "j \<in> set (jobs d)"
    and "row = \<lparr>job_id = job_id j, title = t, company = c, location = l,
              salary_min = map_option word_of_int (num_or_null (b_salary_min b)),
              salary_max = map_option word_of_int (num_or_null (b_salary_max b)),
              salary_currency = Some (str_or_default (b_salary_currency b) ''VND''),
              job_type = Some (str_or_default (b_job_type b) ''Full-time''),
              description = de, requirements = str_or_null (b_requirements b),
              benefits = str_or_null (b_benefits b), contact_email = e,
              contact_phone = str_or_null (b_contact_phone b),
              created_at = created_at j, updated_at = now,
              is_active = active_param (b_is_active b)\<rparr>"
  shows "put_job int4in now i b d =
             (json 200 (MessageJob msg_updated row),
              d\<lparr>jobs := map (\<lambda>r. if job_id r = job_id j then row else r) (jobs d)\<rparr>)"
proof -
  define cells where "cells =
     \<lparr>c_title = sql_param (b_title b), c_company = sql_param (b_company b),
           c_location = sql_param (b_location b),
           c_salary_min = map_option word_of_int (num_or_null (b_salary_min b)),
           c_salary_max = map_option word_of_int (num_or_null (b_salary_max b)),
           c_salary_currency = Some (str_or_default (b_salary_currency b) ''VND''),
           c_job_type = Some (str_or_default (b_job_type b) ''Full-time''),
           c_description = sql_param (b_description b),
           c_requirements = str_or_null (b_requirements b),
           c_benefits = str_or_null (b_benefits b),
           c_contact_email = sql_param (b_contact_email b),
           c_contact_phone = str_or_null (b_contact_phone b)\<rparr>"
  have cv: "column_values (update_params b) = Some cells"
    unfolding column_values_params cells_def by (rule column_values_fits[OF assms(8)])
  have nn: "not_null_columns cells = Some (t, c, l, de, e)"
    by (simp add: cells_def not_null_columns_def sql_param_def assms(1-5))
  have act: "v_is_active (update_params b) = active_param (b_is_active b)"
    by (simp add: update_params_def)
  have asg: "assign_job now (t, c, l, de, e) cells (active_param (b_is_active b)) j = row"
    by (cases j) (simp add: assign_job_def cells_def assms(12))
  from update_job_found[where int4in = int4in and i = i, OF cv nn assms(9,10,11), of now]
  show ?thesis
    by (simp add: put_job_def assms(6,7) act asg)
qed

text \<open>
  C4, as the code has it. For every update request that passed the auth gate and passes
  validation: if the datastore rejects one of the values, or does not read the \<open>id\<close> as
  a 32-bit integer, the answer is 500 and nothing changes. Otherwise, if no job has the
  given id, the answer is 404 and nothing changes. Values that fit their columns are not
  rejected, and then, for an existing job (with \<open>id\<close> a key), the answer is 200 with the
  updated row, which replaces the old one in the table: every mutable column of it is
  computed from the body alone, a value sent being stored as it is; \<open>id\<close> and
  \<open>created_at\<close> are kept, and \<open>updated_at\<close> is bumped to the clock reading. Of the
  fields not sent, the salaries, requirements, benefits and contact phone become \<open>NULL\<close>,
  while \<open>salary_currency\<close> becomes \<open>"VND"\<close>, \<open>job_type\<close> becomes \<open>"Full-time"\<close> and
  \<open>is_active\<close> becomes true.
\<close>

theorem full_update:
  assumes "authenticateToken verify secret authHeader = Next user"
    and "\<not> required_missing b" and "\<not> salary_range_invalid b"
  shows "(column_values (update_params b) = None \<or> int4in i = None \<longrightarrow>
            route_put_job verify secret authHeader int4in now i b d
              = (json 500 (Message msg_server_error), d))
    \<and> (column_values (update_params b) \<noteq> None \<and> int4in i = Some k
        \<and> (\<forall>j \<in> set (jobs d). job_id j \<noteq> k) \<longrightarrow>
            route_put_job verify secret authHeader int4in now i b d
              = (json 404 (Message msg_job_not_found), d))
    \<and> (body_fits b \<longrightarrow> column_values (update_params b) \<noteq> None)
    \<and> (\<forall>j \<in> set (jobs d).
          body_fits b \<and> int4in i = Some k \<and> distinct (map job_id (jobs d)) \<and> job_id j = k \<longrightarrow>
         (\<exists>row t c l de e.
            route_put_job verify secret authHeader int4in now i b d =
              (json 200 (MessageJob msg_updated row),
               d\<lparr>jobs := map (\<lambda>r. if job_id r = k then row else r) (jobs d)\<rparr>)
          \<and> b_title b = Val t \<and> b_company b = Val c \<and> b_location b = Val l
          \<and> b_description b = Val de \<and> b_contact_email b = Val e
          \<and> row = \<lparr>job_id = job_id j, title = t, company = c, location = l,
               salary_min = (case b_salary_min b of
                               Val n \<Rightarrow> if n = 0 then None else Some (word_of_int n)
                             | _ \<Rightarrow> None),
               salary_max = (case b_salary_max b of
                               Val n \<Rightarrow> if n = 0 then None else Some (word_of_int n)
                             | _ \<Rightarrow> None),
               salary_currency = (case b_salary_currency b of
                                    Val s \<Rightarrow> if s = [] then Some ''VND'' else Some s
                                  | _ \<Rightarrow> Some ''VND''),
               job_type = (case b_job_type b of
                             Val s \<Rightarrow> if s = [] then Some ''Full-time'' else Some s
                           | _ \<Rightarrow> Some ''Full-time''),
               description = de,
               requirements = (case b_requirements b of
                                 Val s \<Rightarrow> if s = [] then None else Some s | _ \<Rightarrow> None),
               benefits = (case b_benefits b of
                             Val s \<Rightarrow> if s = [] then None else Some s | _ \<Rightarrow> None),
               contact_email = e,
               contact_phone = (case b_contact_phone b of
                                  Val s \<Rightarrow> if s = [] then None else Some s | _ \<Rightarrow> None),
               created_at = created_at j, updated_at = now,
               is_active = (case b_is_active b of
                              Undefined \<Rightarrow> Some True | Null \<Rightarrow> None | Val a \<Rightarrow> Some a)\<rparr>))"
proof (intro conjI ballI impI)
  assume "column_values (update_params b) = None \<or> int4in i = None"
  then show "route_put_job verify secret authHeader int4in now i b d
              = (json 500 (Message msg_server_error), d)"
    unfolding route_put_job_Next[OF assms(1)] by (rule put_job_failed[where int4in = int4in and i = i, OF assms(2,3)])
next
  assume a: "column_values (update_params b) \<noteq> None \<and> int4in i = Some k
        \<and> (\<forall>j \<in> set (jobs d). job_id j \<noteq> k)"
  then obtain c where c: "column_values (update_params b) = Some c" by auto
  from a have i: "int4in i = Some k" and m: "\<forall>j \<in> set (jobs d). job_id j \<noteq> k" by simp_all
  show "route_put_job verify secret authHeader int4in now i b d
              = (json 404 (Message msg_job_not_found), d)"
    unfolding route_put_job_Next[OF assms(1)] by (rule put_job_missing[where int4in = int4in and i = i, OF assms(2,3) c i m])
next
  assume "body_fits b"
  then show "column_values (update_params b) \<noteq> None"
    by (simp add: column_values_params column_values_fits)
next
  fix j assume j: "j \<in> set (jobs d)"
    and h: "body_fits b \<and> int4in i = Some k \<and> distinct (map job_id (jobs d)) \<and> job_id j = k"
  then have f: "body_fits b" and i: "int4in i = Some (job_id j)"
    and ks: "distinct (map job_id (jobs d))" and k: "job_id j = k" by simp_all
  from required_present[OF assms(2)] obtain t c l de e where
    r: "b_title b = Val t" "b_company b = Val c" "b_location b = Val l"
    "b_description b = Val de" "b_contact_email b = Val e" by blast
  define row where "row = \<lparr>job_id = job_id j, title = t, company = c, location = l,
              salary_min = map_option word_of_int (num_or_null (b_salary_min b)),
              salary_max = map_option word_of_int (num_or_null (b_salary_max b)),
              salary_currency = Some (str_or_default (b_salary_currency b) ''VND''),
              job_type = Some (str_or_default (b_job_type b) ''Full-time''),
              description = de, requirements = str_or_null (b_requirements b),
              benefits = str_or_null (b_benefits b), contact_email = e,
              contact_phone = str_or_null (b_contact_phone b),
              created_at = created_at j, updated_at = now,
              is_active = active_param (b_is_active b)\<rparr>"
  have p: "route_put_job verify secret authHeader int4in now i b d =
              (json 200 (MessageJob msg_updated row),
               d\<lparr>jobs := map (\<lambda>r. if job_id r = k then row else r) (jobs d)\<rparr>)"
    unfolding route_put_job_Next[OF assms(1)] k[symmetric]
    by (rule put_job_found[where int4in = int4in and i = i, OF r assms(2,3) f i ks j row_def])
  have e: "row = \<lparr>job_id = job_id j, title = t, company = c, location = l,
               salary_min = (case b_salary_min b of
                               Val n \<Rightarrow> if n = 0 then None else Some (word_of_int n)
                             | _ \<Rightarrow> None),
               salary_max = (case b_salary_max b of
                               Val n \<Rightarrow> if n = 0 then None else Some (word_of_int n)
                             | _ \<Rightarrow> None),
               salary_currency = (case b_salary_currency b of
                                    Val s \<Rightarrow> if s = [] then Some ''VND'' else Some s
                                  | _ \<Rightarrow> Some ''VND''),
               job_type = (case b_job_type b of
                             Val s \<Rightarrow> if s = [] then Some ''Full-time'' else Some s
                           | _ \<Rightarrow> Some ''Full-time''),
               description = de,
               requirements = (case b_requirements b of
                                 Val s \<Rightarrow> if s = [] then None else Some s | _ \<Rightarrow> None),
               benefits = (case b_benefits b of
                             Val s \<Rightarrow> if s = [] then None else Some s | _ \<Rightarrow> None),
               contact_email = e,
               contact_phone = (case b_contact_phone b of
                                  Val s \<Rightarrow> if s = [] then None else Some s | _ \<Rightarrow> None),
               created_at = created_at j, updated_at = now,
               is_active = (case b_is_active b of
                              Undefined \<Rightarrow> Some True | Null \<Rightarrow> None | Val a \<Rightarrow> Some a)\<rparr>"
    unfolding row_def
    by (simp add: num_or_null_def str_or_null_def str_or_default_def active_param_def
        split: js.split)
  from p r e show "\<exists>row t c l de e.
            route_put_job verify secret authHeader int4in now i b d =
              (json 200 (MessageJob msg_updated row),
               d\<lparr>jobs := map (\<lambda>r. if job_id r = k then row else r) (jobs d)\<rparr>)
          \<and> b_title b = Val t \<and> b_company b = Val c \<and> b_location b = Val l
          \<and> b_description b = Val de \<and> b_contact_email b = Val e
          \<and> row = \<lparr>job_id = job_id j, title = t, company = c, location = l,
               salary_min = (case b_salary_min b of
                               Val n \<Rightarrow> if n = 0 then None else Some (word_of_int n)
                             | _ \<Rightarrow> None),
               salary_max = (case b_salary_max b of
                               Val n \<Rightarrow> if n = 0 then None else Some (word_of_int n)
                             | _ \<Rightarrow> None),
               salary_currency = (case b_salary_currency b of
                                    Val s \<Rightarrow> if s = [] then Some ''VND'' else Some s
                                  | _ \<Rightarrow> Some ''VND''),
               job_type = (case b_job_type b of
                             Val s \<Rightarrow> if s = [] then Some ''Full-time'' else Some s
                           | _ \<Rightarrow> Some ''Full-time''),
               description = de,
               requirements = (case b_requirements b of
                                 Val s \<Rightarrow> if s = [] then None else Some s | _ \<Rightarrow> None),
               benefits = (case b_benefits b of
                             Val s \<Rightarrow> if s = [] then None else Some s | _ \<Rightarrow> None),
               contact_email = e,
               contact_phone = (case b_contact_phone b of
                                  Val s \<Rightarrow> if s = [] then None else Some s | _ \<Rightarrow> None),
               created_at = created_at j, updated_at = now,
               is_active = (case b_is_active b of
                              Undefined \<Rightarrow> Some True | Null \<Rightarrow> None | Val a \<Rightarrow> Some a)\<rparr>"
    by blast
qed

lemma minimal_body_valid: "\<not> required_missing minimal_body" "\<not> salary_range_invalid minimal_body"
  by (simp_all add: required_missing_def salary_range_invalid_def truthy_str_def minimal_body_def)

lemma salaried_body_valid:
  "\<not> required_missing (minimal_body\<lparr>b_salary_min := Val 1500, b_requirements := Val ''SQL'',
       b_is_active := Val False\<rparr>)"
  "\<not> salary_range_invalid (minimal_body\<lparr>b_salary_min := Val 1500, b_requirements := Val ''SQL'',
       b_is_active := Val False\<rparr>)"
  "body_fits (minimal_body\<lparr>b_salary_min := Val 1500, b_requirements := Val ''SQL'',
       b_is_active := Val False\<rparr>)"
  by (simp_all add: required_missing_def salary_range_invalid_def truthy_str_def minimal_body_def
      body_fits_def sent_def fits_def pg_text_def utf8_length_def in_int4_def)

text \<open>
  The theorem on the example datastore, with the scenario body extended by a minimum
  salary, requirements and \<open>is_active = false\<close>: the id \<open>2147483648\<close> is answered 500,
  the id 9 is answered 404, and job 1 is replaced, the values sent being stored.
\<close>

theorem full_update_witness:
  "authenticateToken (jwt_verify example_decode 2000) ''s3cret'' (Some ''Bearer tok.1'')
      = Next (claims example_token)
   \<and> \<not> required_missing (minimal_body\<lparr>b_salary_min := Val 1500, b_requirements := Val ''SQL'',
           b_is_active := Val False\<rparr>)
   \<and> \<not> salary_range_invalid (minimal_body\<lparr>b_salary_min := Val 1500,
           b_requirements := Val ''SQL'', b_is_active := Val False\<rparr>)
   \<and> body_fits (minimal_body\<lparr>b_salary_min := Val 1500, b_requirements := Val ''SQL'',
           b_is_active := Val False\<rparr>)
   \<and> int4in_ascii ''2147483648'' = None \<and> int4in_ascii ''9'' = Some 9
   \<and> int4in_ascii ''1'' = Some 1
   \<and> route_put_job (jwt_verify example_decode 2000) ''s3cret'' (Some ''Bearer tok.1'')
         int4in_ascii 500 ''2147483648''
         (minimal_body\<lparr>b_salary_min := Val 1500, b_requirements := Val ''SQL'',
            b_is_active := Val False\<rparr>) example_db
       = (json 500 (Message msg_server_error), example_db)
   \<and> route_put_job (jwt_verify example_decode 2000) ''s3cret'' (Some ''Bearer tok.1'')
         int4in_ascii 500 ''9''
         (minimal_body\<lparr>b_salary_min := Val 1500, b_requirements := Val ''SQL'',
            b_is_active := Val False\<rparr>) example_db
       = (json 404 (Message msg_job_not_found), example_db)
   \<and> job1 \<in> set (jobs example_db) \<and> distinct (map job_id (jobs example_db)) \<and> job_id job1 = 1
   \<and> (\<exists>row. route_put_job (jwt_verify example_decode 2000) ''s3cret'' (Some ''Bearer tok.1'')
           int4in_ascii 500 ''1''
           (minimal_body\<lparr>b_salary_min := Val 1500, b_requirements := Val ''SQL'',
              b_is_active := Val False\<rparr>) example_db =
              (json 200 (MessageJob msg_updated row),
               example_db\<lparr>jobs := map (\<lambda>r. if job_id r = 1 then row else r) (jobs example_db)\<rparr>)
         \<and> row = \<lparr>job_id = 1, title = ''Engineer'', company = ''Acme'', location = ''Hanoi'',
               salary_min = Some 1500, salary_max = None,
               salary_currency = Some ''VND'', job_type = Some ''Full-time'',
               description = ''Build things'', requirements = Some ''SQL'', benefits = None,
               contact_email = ''hr@acme.com'', contact_phone = None,
               created_at = 100, updated_at = 500, is_active = Some False\<rparr>)"
proof -
  let ?b = "minimal_body\<lparr>b_salary_min := Val 1500, b_requirements := Val ''SQL'',
       b_is_active := Val False\<rparr>"
  note t = full_update[OF example_header_Next salaried_body_valid(1,2),
      where int4in = int4in_ascii and now = 500 and d = example_db]
  have m: "\<forall>j \<in> set (jobs example_db). job_id j \<noteq> 9"
    by (simp add: example_db_def job1_def job2_def job3_def)
  have j1: "job1 \<in> set (jobs example_db)" "job_id job1 = 1" "created_at job1 = 100"
    by (simp_all add: example_db_def job1_def)
  have cv: "column_values (update_params ?b) \<noteq> None"
    using t[of "''1''" 1] salaried_body_valid(3) by blast
  have a: "route_put_job (jwt_verify example_decode 2000) ''s3cret'' (Some ''Bearer tok.1'')
         int4in_ascii 500 ''2147483648'' ?b example_db
       = (json 500 (Message msg_server_error), example_db)"
    using t[of "''2147483648''" 1] int4in_ascii_examples(4) by blast
  have b: "route_put_job (jwt_verify example_decode 2000) ''s3cret'' (Some ''Bearer tok.1'')
         int4in_ascii 500 ''9'' ?b example_db
       = (json 404 (Message msg_job_not_found), example_db)"
    using t[of "''9''" 9] int4in_ascii_examples(3) cv m by blast
  from t[of "''1''" 1] j1 example_db_keys int4in_ascii_examples(1) salaried_body_valid(3)
  have "\<exists>row t c l de e.
            route_put_job (jwt_verify example_decode 2000) ''s3cret'' (Some ''Bearer tok.1'')
              int4in_ascii 500 ''1'' ?b example_db =
              (json 200 (MessageJob msg_updated row),
               example_db\<lparr>jobs := map (\<lambda>r. if job_id r = 1 then row else r) (jobs example_db)\<rparr>)
          \<and> b_title ?b = Val t \<and> b_company ?b = Val c \<and> b_location ?b = Val l
          \<and> b_description ?b = Val de \<and> b_contact_email ?b = Val e
          \<and> row = \<lparr>job_id = job_id job1, title = t, company = c, location = l,
               salary_min = (case b_salary_min ?b of
                               Val n \<Rightarrow> if n = 0 then None else Some (word_of_int n)
                             | _ \<Rightarrow> None),
               salary_max = (case b_salary_max ?b of
                               Val n \<Rightarrow> if n = 0 then None else Some (word_of_int n)
                             | _ \<Rightarrow> None),
               salary_currency = (case b_salary_currency ?b of
                                    Val s \<Rightarrow> if s = [] then Some ''VND'' else Some s
                                  | _ \<Rightarrow> Some ''VND''),
               job_type = (case b_job_type ?b of
                             Val s \<Rightarrow> if s = [] then Some ''Full-time'' else Some s
                           | _ \<Rightarrow> Some ''Full-time''),
               description = de,
               requirements = (case b_requirements ?b of
                                 Val s \<Rightarrow> if s = [] then None else Some s | _ \<Rightarrow> None),
               benefits = (case b_benefits ?b of
                             Val s \<Rightarrow> if s = [] then None else Some s | _ \<Rightarrow> None),
               contact_email = e,
               contact_phone = (case b_contact_phone ?b of
                                  Val s \<Rightarrow> if s = [] then None else Some s | _ \<Rightarrow> None),
               created_at = created_at job1, updated_at = 500,
               is_active = (case b_is_active ?b of
                              Undefined \<Rightarrow> Some True | Null \<Rightarrow> None | Val a \<Rightarrow> Some a)\<rparr>"
    by blast
  then have c: "\<exists>row. route_put_job (jwt_verify example_decode 2000) ''s3cret'' (Some ''Bearer tok.1'')
           int4in_ascii 500 ''1'' ?b example_db =
              (json 200 (MessageJob msg_updated row),
               example_db\<lparr>jobs := map (\<lambda>r. if job_id r = 1 then row else r) (jobs example_db)\<rparr>)
         \<and> row = \<lparr>job_id = 1, title = ''Engineer'', company = ''Acme'', location = ''Hanoi'',
               salary_min = Some 1500, salary_max = None,
               salary_currency = Some ''VND'', job_type = Some ''Full-time'',
               description = ''Build things'', requirements = Some ''SQL'', benefits = None,
               contact_email = ''hr@acme.com'', contact_phone = None,
               created_at = 100, updated_at = 500, is_active = Some False\<rparr>"
    by (auto simp add: minimal_body_def j1)
  from a b c j1(1,2) example_db_keys example_header_Next salaried_body_valid
    int4in_ascii_examples(1,3,4)
  show ?thesis by (intro conjI)
qed

text \<open>
  C4 as the spec states it fails in two ways. A field not sent does not always become
  \<open>null\<close>: the scenario body sends neither \<open>salary_currency\<close> nor \<open>job_type\<close>, and
  updating job 1, whose currency is \<open>"USD"\<close>, returns a row with \<open>"VND"\<close> and
  \<open>"Full-time"\<close>. And a request for an id that no job has is not always answered 404:
  for the id \<open>2147483648\<close>, outside \<open>INTEGER\<close>, and for the id 9 with a title of 201
  characters, the datastore rejects the statement and the answer is 500.
\<close>

theorem unsent_currency_counterexample:
  "b_salary_currency minimal_body = Undefined \<and> b_job_type minimal_body = Undefined
   \<and> salary_currency job1 = Some ''USD''
   \<and> map_option salary_currency
        (body_job (body (fst (route_put_job (jwt_verify example_decode 2000) ''s3cret''
            (Some ''Bearer tok.1'') int4in_ascii 500 ''1'' minimal_body example_db))))
       = Some (Some ''VND'')
   \<and> map_option job_type
        (body_job (body (fst (route_put_job (jwt_verify example_decode 2000) ''s3cret''
            (Some ''Bearer tok.1'') int4in_ascii 500 ''1'' minimal_body example_db))))
       = Some (Some ''Full-time'')
   \<and> route_put_job (jwt_verify example_decode 2000) ''s3cret''
            (Some ''Bearer tok.1'') int4in_ascii 500 ''2147483648'' minimal_body example_db
       = (json 500 (Message msg_server_error), example_db)
   \<and> route_put_job (jwt_verify example_decode 2000) ''s3cret''
            (Some ''Bearer tok.1'') int4in_ascii 500 ''9''
            (minimal_body\<lparr>b_title := Val (replicate 201 CHR ''a'')\<rparr>) example_db
       = (json 500 (Message msg_server_error), example_db)
   \<and> \<not> required_missing (minimal_body\<lparr>b_title := Val (replicate 201 CHR ''a'')\<rparr>)
   \<and> \<not> salary_range_invalid (minimal_body\<lparr>b_title := Val (replicate 201 CHR ''a'')\<rparr>)"
  by code_simp

subsection \<open>Coalescing\<close>

lemma coalesced_params:
  "(b_salary_min b = Val 0 \<longrightarrow> v_salary_min (create_params b) = None)
   \<and> (b_salary_max b = Val 0 \<longrightarrow> v_salary_max (create_params b) = None)
   \<and> (b_salary_currency b = Val [] \<longrightarrow> v_salary_currency (create_params b) = Some ''VND'')
   \<and> (b_job_type b = Val [] \<longrightarrow> v_job_type (create_params b) = Some ''Full-time'')
   \<and> (b_requirements b = Val [] \<longrightarrow> v_requirements (create_params b) = None)
   \<and> (b_benefits b = Val [] \<longrightarrow> v_benefits (create_params b) = None)
   \<and> (b_contact_phone b = Val [] \<longrightarrow> v_contact_phone (create_params b) = None)
   \<and> (b_salary_min b = Val 0 \<longrightarrow> v_salary_min (update_params b) = None)
   \<and> (b_salary_max b = Val 0 \<longrightarrow> v_salary_max (update_params b) = None)
   \<and> (b_salary_currency b = Val [] \<longrightarrow> v_salary_currency (update_params b) = Some ''VND'')
   \<and> (b_job_type b = Val [] \<longrightarrow> v_job_type (update_params b) = Some ''Full-time'')
   \<and> (b_requirements b = Val [] \<longrightarrow> v_requirements (update_params b) = None)
   \<and> (b_benefits b = Val [] \<longrightarrow> v_benefits (update_params b) = None)
   \<and> (b_contact_phone b = Val [] \<longrightarrow> v_contact_phone (update_params b) = None)"
  by (simp add: create_params_def update_params_def num_or_null_def str_or_null_def
      str_or_default_def)

lemma coalesced_cells:
  assumes "column_values v = Some c"
    and "v_salary_min v = num_or_null (b_salary_min b)"
    and "v_salary_max v = num_or_null (b_salary_max b)"
    and "v_salary_currency v = Some (str_or_default (b_salary_currency b) ''VND'')"
    and "v_job_type v = Some (str_or_default (b_job_type b) ''Full-time'')"
    and "v_requirements v = str_or_null (b_requirements b)"
    and "v_benefits v = str_or_null (b_benefits b)"
    and "v_contact_phone v = str_or_null (b_contact_phone b)"
  shows "(b_salary_min b = Val 0 \<longrightarrow> c_salary_min c = None)
   \<and> (b_salary_max b = Val 0 \<longrightarrow> c_salary_max c = None)
   \<and> (b_salary_currency b = Val [] \<longrightarrow> c_salary_currency c = Some ''VND'')
   \<and> (b_job_type b = Val [] \<longrightarrow> c_job_type c = Some ''Full-time'')
   \<and> (b_requirements b = Val [] \<longrightarrow> c_requirements c = None)
   \<and> (b_benefits b = Val [] \<longrightarrow> c_benefits c = None)
   \<and> (b_contact_phone b = Val [] \<longrightarrow> c_contact_phone c = None)"
  using column_values_Some[OF assms(1)]
  by (simp add: assms(2-8) num_or_null_def str_or_null_def str_or_default_def stored_def
      varchar_VND varchar_Full_time)

lemma insert_job_row:
  "insert_job now nextval v d = Some (row, d') \<Longrightarrow>
   d' = d\<lparr>jobs := jobs d @ [row]\<rparr>
   \<and> (\<exists>c. column_values v = Some c
        \<and> salary_min row = c_salary_min c \<and> salary_max row = c_salary_max c
        \<and> salary_currency row = c_salary_currency c \<and> job_type row = c_job_type c
        \<and> requirements row = c_requirements c \<and> benefits row = c_benefits c
        \<and> contact_phone row = c_contact_phone c)"
  by (auto simp add: insert_job_def Let_def split: option.splits if_splits prod.splits)

lemma assign_job_cells:
  "salary_min (assign_job now nn c a j) = c_salary_min c
   \<and> salary_max (assign_job now nn c a j) = c_salary_max c
   \<and> salary_currency (assign_job now nn c a j) = c_salary_currency c
   \<and> job_type (assign_job now nn c a j) = c_job_type c
   \<and> requirements (assign_job now nn c a j) = c_requirements c
   \<and> benefits (assign_job now nn c a j) = c_benefits c
   \<and> contact_phone (assign_job now nn c a j) = c_contact_phone c"
  by (cases nn) (simp add: assign_job_def)

lemma first_of_filter:
  "map f (filter P rows) = row # rest \<Longrightarrow> \<exists>j \<in> set rows. P j \<and> row = f j"
proof -
  assume a: "map f (filter P rows) = row # rest"
  then obtain j js where "filter P rows = j # js" and r: "row = f j"
    by (cases "filter P rows") auto
  then have "j \<in> set (filter P rows)" by simp
  then have "j \<in> set rows" "P j" by simp_all
  with r show ?thesis by blast
qed

lemma update_job_row:
  assumes "update_job int4in now v i d = Some (row # rest, d')"
  shows "row \<in> set (jobs d')
   \<and> (\<exists>c. column_values v = Some c
        \<and> salary_min row = c_salary_min c \<and> salary_max row = c_salary_max c
        \<and> salary_currency row = c_salary_currency c \<and> job_type row = c_job_type c
        \<and> requirements row = c_requirements c \<and> benefits row = c_benefits c
        \<and> contact_phone row = c_contact_phone c)"
proof -
  from assms obtain c k nn where c: "column_values v = Some c" and k: "int4in i = Some k"
    and nn: "not_null_columns c = Some nn"
    by (auto simp add: update_job_def split: option.splits if_splits)
  from assms have rows: "map (assign_job now nn c (v_is_active v))
          (filter (\<lambda>j. job_id j = k) (jobs d)) = row # rest"
    and d': "d' = d\<lparr>jobs := map (\<lambda>j. if job_id j = k
                                       then assign_job now nn c (v_is_active v) j else j)
                                (jobs d)\<rparr>"
    by (simp_all add: update_job_def c k nn)
  from first_of_filter[OF rows] obtain j where j: "j \<in> set (jobs d)" "job_id j = k"
    and row: "row = assign_job now nn c (v_is_active v) j"
    by blast
  have "(\<lambda>j. if job_id j = k then assign_job now nn c (v_is_active v) j else j) j
          \<in> set (jobs d')"
    unfolding d' using j(1) by simp
  then have mem: "row \<in> set (jobs d')" by (simp add: j(2) row)
  from mem c assign_job_cells[of now nn c "v_is_active v" j] show ?thesis
    unfolding row by blast
qed

lemma update_job_hit:
  assumes "column_values v = Some c" and "not_null_columns c = Some nn"
    and "int4in i = Some (job_id j)" and "j \<in> set (jobs d)"
  shows "\<exists>row rest d'. update_job int4in now v i d = Some (row # rest, d')"
proof -
  have "j \<in> set (filter (\<lambda>r. job_id r = job_id j) (jobs d))"
    using assms(4) by simp
  then obtain r rs where "filter (\<lambda>r. job_id r = job_id j) (jobs d) = r # rs"
    by (cases "filter (\<lambda>r. job_id r = job_id j) (jobs d)") auto
  then show ?thesis
    by (simp add: update_job_def assms(1,2,3))
qed

lemma create_params_fields:
  "v_salary_min (create_params b) = num_or_null (b_salary_min b)"
  "v_salary_max (create_params b) = num_or_null (b_salary_max b)"
  "v_salary_currency (create_params b) = Some (str_or_default (b_salary_currency b) ''VND'')"
  "v_job_type (create_params b) = Some (str_or_default (b_job_type b) ''Full-time'')"
  "v_requirements (create_params b) = str_or_null (b_requirements b)"
  "v_benefits (create_params b) = str_or_null (b_benefits b)"
  "v_contact_phone (create_params b) = str_or_null (b_contact_phone b)"
  by (simp_all add: create_params_def)

lemma update_params_fields:
  "v_salary_min (update_params b) = num_or_null (b_salary_min b)"
  "v_salary_max (update_params b) = num_or_null (b_salary_max b)"
  "v_salary_currency (update_params b) = Some (str_or_default (b_salary_currency b) ''VND'')"
  "v_job_type (update_params b) = Some (str_or_default (b_job_type b) ''Full-time'')"
  "v_requirements (update_params b) = str_or_null (b_requirements b)"
  "v_benefits (update_params b) = str_or_null (b_benefits b)"
  "v_contact_phone (update_params b) = str_or_null (b_contact_phone b)"
  by (simp_all add: update_params_def)

lemma create_job_outcome:
  assumes "\<not> required_missing b" and "\<not> salary_range_invalid b"
  shows "create_job now nextval b d = (json 500 (Message msg_server_error), d)
    \<or> (\<exists>row. create_job now nextval b d =
            (json 201 (MessageJob msg_created row), d\<lparr>jobs := jobs d @ [row]\<rparr>)
         \<and> (b_salary_min b = Val 0 \<longrightarrow> salary_min row = None)
         \<and> (b_salary_max b = Val 0 \<longrightarrow> salary_max row = None)
         \<and> (b_salary_currency b = Val [] \<longrightarrow> salary_currency row = Some ''VND'')
         \<and> (b_job_type b = Val [] \<longrightarrow> job_type row = Some ''Full-time'')
         \<and> (b_requirements b = Val [] \<longrightarrow> requirements row = None)
         \<and> (b_benefits b = Val [] \<longrightarrow> benefits row = None)
         \<and> (b_contact_phone b = Val [] \<longrightarrow> contact_phone row = None))"
proof (cases "insert_job now nextval (create_params b) d")
  case None
  then show ?thesis by (simp add: create_job_def assms)
next
  case (Some p)
  obtain row d' where p: "p = (row, d')" by (cases p)
  from insert_job_row[OF Some[unfolded p]] obtain c where
    d': "d' = d\<lparr>jobs := jobs d @ [row]\<rparr>" and c: "column_values (create_params b) = Some c"
    and f: "salary_min row = c_salary_min c" "salary_max row = c_salary_max c"
      "salary_currency row = c_salary_currency c" "job_type row = c_job_type c"
      "requirements row = c_requirements c" "benefits row = c_benefits c"
      "contact_phone row = c_contact_phone c"
    by blast
  have r: "create_job now nextval b d =
            (json 201 (MessageJob msg_created row), d\<lparr>jobs := jobs d @ [row]\<rparr>)"
    by (simp add: create_job_def assms Some p d')
  have co: "(b_salary_min b = Val 0 \<longrightarrow> salary_min row = None)
         \<and> (b_salary_max b = Val 0 \<longrightarrow> salary_max row = None)
         \<and> (b_salary_currency b = Val [] \<longrightarrow> salary_currency row = Some ''VND'')
         \<and> (b_job_type b = Val [] \<longrightarrow> job_type row = Some ''Full-time'')
         \<and> (b_requirements b = Val [] \<longrightarrow> requirements row = None)
         \<and> (b_benefits b = Val [] \<longrightarrow> benefits row = None)
         \<and> (b_contact_phone b = Val [] \<longrightarrow> contact_phone row = None)"
    unfolding f by (rule coalesced_cells[OF c create_params_fields])
  show ?thesis
    by (rule disjI2, rule exI[of _ row], rule conjI[OF r co])
qed

lemma put_job_outcome:
  assumes "\<not> required_missing b" and "\<not> salary_range_invalid b"
  shows "put_job int4in now i b d = (json 500 (Message msg_server_error), d)
    \<or> put_job int4in now i b d = (json 404 (Message msg_job_not_found), d)
    \<or> (\<exists>row d'. put_job int4in now i b d = (json 200 (MessageJob msg_updated row), d')
         \<and> row \<in> set (jobs d')
         \<and> (b_salary_min b = Val 0 \<longrightarrow> salary_min row = None)
         \<and> (b_salary_max b = Val 0 \<longrightarrow> salary_max row = None)
         \<and> (b_salary_currency b = Val [] \<longrightarrow> salary_currency row = Some ''VND'')
         \<and> (b_job_type b = Val [] \<longrightarrow> job_type row = Some ''Full-time'')
         \<and> (b_requirements b = Val [] \<longrightarrow> requirements row = None)
         \<and> (b_benefits b = Val [] \<longrightarrow> benefits row = None)
         \<and> (b_contact_phone b = Val [] \<longrightarrow> contact_phone row = None))"
proof (cases "update_job int4in now (update_params b) i d")
  case None
  then show ?thesis by (simp add: put_job_def assms)
next
  case (Some p)
  obtain rows d' where p: "p = (rows, d')" by (cases p)
  show ?thesis
  proof (cases rows)
    case Nil
    from Some[unfolded p Nil] have "d' = d"
      by (auto simp add: update_job_def filter_empty_conv map_idI
          split: option.splits if_splits)
    then show ?thesis by (simp add: put_job_def assms Some p Nil)
  next
    case (Cons row rest)
    from update_job_row[where int4in = int4in and i = i, OF Some[unfolded p Cons]] obtain c where
      mem: "row \<in> set (jobs d')" and c: "column_values (update_params b) = Some c"
      and f: "salary_min row = c_salary_min c" "salary_max row = c_salary_max c"
        "salary_currency row = c_salary_currency c" "job_type row = c_job_type c"
        "requirements row = c_requirements c" "benefits row = c_benefits c"
        "contact_phone row = c_contact_phone c"
      by blast
    have r: "put_job int4in now i b d = (json 200 (MessageJob msg_updated row), d')"
      by (simp add: put_job_def assms Some p Cons)
    have co: "(b_salary_min b = Val 0 \<longrightarrow> salary_min row = None)
         \<and> (b_salary_max b = Val 0 \<longrightarrow> salary_max row = None)
         \<and> (b_salary_currency b = Val [] \<longrightarrow> salary_currency row = Some ''VND'')
         \<and> (b_job_type b = Val [] \<longrightarrow> job_type row = Some ''Full-time'')
         \<and> (b_requirements b = Val [] \<longrightarrow> requirements row = None)
         \<and> (b_benefits b = Val [] \<longrightarrow> benefits row = None)
         \<and> (b_contact_phone b = Val [] \<longrightarrow> contact_phone row = None)"
      unfolding f by (rule coalesced_cells[OF c update_params_fields])
    show ?thesis
      by (rule disjI2, rule disjI2, rule exI[of _ row], rule exI[of _ d'],
          rule conjI[OF r conjI[OF mem co]])
  qed
qed

lemma create_job_fits:
  assumes "\<not> required_missing b" and "\<not> salary_range_invalid b" and "body_fits b"
    and "k \<notin> set (map job_id (jobs d))"
  shows "status (fst (create_job now (Some k) b d)) = 201"
proof -
  from required_present[OF assms(1)] obtain t c l de e where
    r: "b_title b = Val t" "t \<noteq> []" "b_company b = Val c" "c \<noteq> []"
    "b_location b = Val l" "l \<noteq> []" "b_description b = Val de" "de \<noteq> []"
    "b_contact_email b = Val e" "e \<noteq> []" by blast
  from create_job_inserts[OF r assms(2,3,4) refl, of now] show ?thesis
    by (simp add: json_def)
qed

lemma put_job_fits:
  assumes "\<not> required_missing b" and "\<not> salary_range_invalid b" and "body_fits b"
    and "int4in i = Some (job_id j)" and "j \<in> set (jobs d)"
  shows "status (fst (put_job int4in now i b d)) = 200"
proof -
  from required_present[OF assms(1)] obtain t c l de e where
    r: "b_title b = Val t" "b_company b = Val c" "b_location b = Val l"
    "b_description b = Val de" "b_contact_email b = Val e" by blast
  note cv = column_values_fits[OF assms(3), folded column_values_params]
  have nn: "not_null_columns
     \<lparr>c_title = sql_param (b_title b), c_company = sql_param (b_company b),
           c_location = sql_param (b_location b),
           c_salary_min = map_option word_of_int (num_or_null (b_salary_min b)),
           c_salary_max = map_option word_of_int (num_or_null (b_salary_max b)),
           c_salary_currency = Some (str_or_default (b_salary_currency b) ''VND''),
           c_job_type = Some (str_or_default (b_job_type b) ''Full-time''),
           c_description = sql_param (b_description b),
           c_requirements = str_or_null (b_requirements b),
           c_benefits = str_or_null (b_benefits b),
           c_contact_email = sql_param (b_contact_email b),
           c_contact_phone = str_or_null (b_contact_phone b)\<rparr> = Some (t, c, l, de, e)"
    by (simp add: not_null_columns_def sql_param_def r)
  from update_job_hit[where int4in = int4in and i = i, OF cv nn assms(4,5), of now]
  obtain row rest d' where "update_job int4in now (update_params b) i d = Some (row # rest, d')"
    by blast
  then show ?thesis
    by (simp add: put_job_def assms(1,2) json_def)
qed

text \<open>
  C10. For every create or update request that passed the auth gate and passes validation,
  the falsy optional values are coalesced in the parameters bound to the statement: a
  \<open>salary_min\<close> or \<open>salary_max\<close> equal to the number 0 is bound as \<open>NULL\<close>, an empty
  \<open>salary_currency\<close> as \<open>"VND"\<close>, an empty \<open>job_type\<close> as \<open>"Full-time"\<close>, and empty
  \<open>requirements\<close>, \<open>benefits\<close> or \<open>contact_phone\<close> as \<open>NULL\<close>. The request either is
  refused by the datastore (500, or 404 for an update of an id no job has), and then nothing
  is stored, or it stores a row, returned with 201 or 200, whose columns have these
  coalesced values. A request whose values fit their columns does store a row: a create when
  the sequence yields an unused id, an update when the id is read as that of a job.
\<close>

theorem falsy_coalesced:
  assumes "authenticateToken verify secret authHeader = Next user"
    and "\<not> required_missing b" and "\<not> salary_range_invalid b"
  shows "((b_salary_min b = Val 0 \<longrightarrow> v_salary_min (create_params b) = None)
      \<and> (b_salary_max b = Val 0 \<longrightarrow> v_salary_max (create_params b) = None)
      \<and> (b_salary_currency b = Val [] \<longrightarrow> v_salary_currency (create_params b) = Some ''VND'')
      \<and> (b_job_type b = Val [] \<longrightarrow> v_job_type (create_params b) = Some ''Full-time'')
      \<and> (b_requirements b = Val [] \<longrightarrow> v_requirements (create_params b) = None)
      \<and> (b_benefits b = Val [] \<longrightarrow> v_benefits (create_params b) = None)
      \<and> (b_contact_phone b = Val [] \<longrightarrow> v_contact_phone (create_params b) = None)
      \<and> (b_salary_min b = Val 0 \<longrightarrow> v_salary_min (update_params b) = None)
      \<and> (b_salary_max b = Val 0 \<longrightarrow> v_salary_max (update_params b) = None)
      \<and> (b_salary_currency b = Val [] \<longrightarrow> v_salary_currency (update_params b) = Some ''VND'')
      \<and> (b_job_type b = Val [] \<longrightarrow> v_job_type (update_params b) = Some ''Full-time'')
      \<and> (b_requirements b = Val [] \<longrightarrow> v_requirements (update_params b) = None)
      \<and> (b_benefits b = Val [] \<longrightarrow> v_benefits (update_params b) = None)
      \<and> (b_contact_phone b = Val [] \<longrightarrow> v_contact_phone (update_params b) = None))
    \<and> (route_create_job verify secret authHeader now nextval b d
          = (json 500 (Message msg_server_error), d)
        \<or> (\<exists>row. route_create_job verify secret authHeader now nextval b d =
                (json 201 (MessageJob msg_created row), d\<lparr>jobs := jobs d @ [row]\<rparr>)
             \<and> (b_salary_min b = Val 0 \<longrightarrow> salary_min row = None)
             \<and> (b_salary_max b = Val 0 \<longrightarrow> salary_max row = None)
             \<and> (b_salary_currency b = Val [] \<longrightarrow> salary_currency row = Some ''VND'')
             \<and> (b_job_type b = Val [] \<longrightarrow> job_type row = Some ''Full-time'')
             \<and> (b_requirements b = Val [] \<longrightarrow> requirements row = None)
             \<and> (b_benefits b = Val [] \<longrightarrow> benefits row = None)
             \<and> (b_contact_phone b = Val [] \<longrightarrow> contact_phone row = None)))
    \<and> (route_put_job verify secret authHeader int4in now i b d
          = (json 500 (Message msg_server_error), d)
        \<or> route_put_job verify secret authHeader int4in now i b d
          = (json 404 (Message msg_job_not_found), d)
        \<or> (\<exists>row d'. route_put_job verify secret authHeader int4in now i b d =
                (json 200 (MessageJob msg_updated row), d')
             \<and> row \<in> set (jobs d')
             \<and> (b_salary_min b = Val 0 \<longrightarrow> salary_min row = None)
             \<and> (b_salary_max b = Val 0 \<longrightarrow> salary_max row = None)
             \<and> (b_salary_currency b = Val [] \<longrightarrow> salary_currency row = Some ''VND'')
             \<and> (b_job_type b = Val [] \<longrightarrow> job_type row = Some ''Full-time'')
             \<and> (b_requirements b = Val [] \<longrightarrow> requirements row = None)
             \<and> (b_benefits b = Val [] \<longrightarrow> benefits row = None)
             \<and> (b_contact_phone b = Val [] \<longrightarrow> contact_phone row = None)))
    \<and> (body_fits b \<and> k \<notin> set (map job_id (jobs d)) \<longrightarrow>
          status (fst (route_create_job verify secret authHeader now (Some k) b d)) = 201)
    \<and> (\<forall>j \<in> set (jobs d). body_fits b \<and> int4in i = Some (job_id j) \<longrightarrow>
          status (fst (route_put_job verify secret authHeader int4in now i b d)) = 200)"
proof -
  have p1: "(b_salary_min b = Val 0 \<longrightarrow> v_salary_min (create_params b) = None)
      \<and> (b_salary_max b = Val 0 \<longrightarrow> v_salary_max (create_params b) = None)
      \<and> (b_salary_currency b = Val [] \<longrightarrow> v_salary_currency (create_params b) = Some ''VND'')
      \<and> (b_job_type b = Val [] \<longrightarrow> v_job_type (create_params b) = Some ''Full-time'')
      \<and> (b_requirements b = Val [] \<longrightarrow> v_requirements (create_params b) = None)
      \<and> (b_benefits b = Val [] \<longrightarrow> v_benefits (create_params b) = None)
      \<and> (b_contact_phone b = Val [] \<longrightarrow> v_contact_phone (create_params b) = None)
      \<and> (b_salary_min b = Val 0 \<longrightarrow> v_salary_min (update_params b) = None)
      \<and> (b_salary_max b = Val 0 \<longrightarrow> v_salary_max (update_params b) = None)
      \<and> (b_salary_currency b = Val [] \<longrightarrow> v_salary_currency (update_params b) = Some ''VND'')
      \<and> (b_job_type b = Val [] \<longrightarrow> v_job_type (update_params b) = Some ''Full-time'')
      \<and> (b_requirements b = Val [] \<longrightarrow> v_requirements (update_params b) = None)
      \<and> (b_benefits b = Val [] \<longrightarrow> v_benefits (update_params b) = None)
      \<and> (b_contact_phone b = Val [] \<longrightarrow> v_contact_phone (update_params b) = None)"
    by (rule coalesced_params)
  have p2: "route_create_job verify secret authHeader now nextval b d
          = (json 500 (Message msg_server_error), d)
        \<or> (\<exists>row. route_create_job verify secret authHeader now nextval b d =
                (json 201 (MessageJob msg_created row), d\<lparr>jobs := jobs d @ [row]\<rparr>)
             \<and> (b_salary_min b = Val 0 \<longrightarrow> salary_min row = None)
             \<and> (b_salary_max b = Val 0 \<longrightarrow> salary_max row = None)
             \<and> (b_salary_currency b = Val [] \<longrightarrow> salary_currency row = Some ''VND'')
             \<and> (b_job_type b = Val [] \<longrightarrow> job_type row = Some ''Full-time'')
             \<and> (b_requirements b = Val [] \<longrightarrow> requirements row = None)
             \<and> (b_benefits b = Val [] \<longrightarrow> benefits row = None)
             \<and> (b_contact_phone b = Val [] \<longrightarrow> contact_phone row = None))"
    unfolding route_create_job_Next[OF assms(1)] by (rule create_job_outcome[OF assms(2,3)])
  have p3: "route_put_job verify secret authHeader int4in now i b d
          = (json 500 (Message msg_server_error), d)
        \<or> route_put_job verify secret authHeader int4in now i b d
          = (json 404 (Message msg_job_not_found), d)
        \<or> (\<exists>row d'. route_put_job verify secret authHeader int4in now i b d =
                (json 200 (MessageJob msg_updated row), d')
             \<and> row \<in> set (jobs d')
             \<and> (b_salary_min b = Val 0 \<longrightarrow> salary_min row = None)
             \<and> (b_salary_max b = Val 0 \<longrightarrow> salary_max row = None)
             \<and> (b_salary_currency b = Val [] \<longrightarrow> salary_currency row = Some ''VND'')
             \<and> (b_job_type b = Val [] \<longrightarrow> job_type row = Some ''Full-time'')
             \<and> (b_requirements b = Val [] \<longrightarrow> requirements row = None)
             \<and> (b_benefits b = Val [] \<longrightarrow> benefits row = None)
             \<and> (b_contact_phone b = Val [] \<longrightarrow> contact_phone row = None))"
    unfolding route_put_job_Next[OF assms(1)] by (rule put_job_outcome[OF assms(2,3)])
  have p4: "body_fits b \<and> k \<notin> set (map job_id (jobs d)) \<longrightarrow>
          status (fst (route_create_job verify secret authHeader now (Some k) b d)) = 201"
    unfolding route_create_job_Next[OF assms(1)]
    using create_job_fits[OF assms(2,3), of k d now] by blast
  have p5: "\<forall>j \<in> set (jobs d). body_fits b \<and> int4in i = Some (job_id j) \<longrightarrow>
          status (fst (route_put_job verify secret authHeader int4in now i b d)) = 200"
    unfolding route_put_job_Next[OF assms(1)]
    using put_job_fits[where int4in = int4in and i = i and d = d and now = now, OF assms(2,3)]
    by blast
  show ?thesis
    by (rule conjI[OF p1 conjI[OF p2 conjI[OF p3 conjI[OF p4 p5]]]])
qed

lemma falsy_body_valid:
  "\<not> required_missing falsy_body" "\<not> salary_range_invalid falsy_body" "body_fits falsy_body"
  by (simp_all add: required_missing_def salary_range_invalid_def truthy_str_def falsy_body_def
      Number_def body_fits_def sent_def fits_def pg_text_def utf8_length_def in_int4_def)

lemma falsy_body_fields:
  "b_salary_min falsy_body = Val 0" "b_salary_max falsy_body = Val 0"
  "b_salary_currency falsy_body = Val []" "b_job_type falsy_body = Val []"
  "b_requirements falsy_body = Val []" "b_benefits falsy_body = Val []"
  "b_contact_phone falsy_body = Val []"
  by (simp_all add: falsy_body_def)

text \<open>
  The theorem for the body whose optional fields are all falsy, created with the sequence
  at 4 and put on job 1 of the example datastore: both store a row with the coalesced
  values.
\<close>

theorem falsy_coalesced_witness:
  "authenticateToken (jwt_verify example_decode 2000) ''s3cret'' (Some ''Bearer tok.1'')
      = Next (claims example_token)
   \<and> \<not> required_missing falsy_body \<and> \<not> salary_range_invalid falsy_body
   \<and> body_fits falsy_body \<and> (4 :: int4) \<notin> set (map job_id (jobs example_db))
   \<and> job1 \<in> set (jobs example_db) \<and> int4in_ascii ''1'' = Some (job_id job1)
   \<and> b_salary_min falsy_body = Val 0 \<and> b_salary_max falsy_body = Val 0
   \<and> b_salary_currency falsy_body = Val [] \<and> b_job_type falsy_body = Val []
   \<and> b_requirements falsy_body = Val [] \<and> b_benefits falsy_body = Val []
   \<and> b_contact_phone falsy_body = Val []
   \<and> (\<exists>row. route_create_job (jwt_verify example_decode 2000) ''s3cret'' (Some ''Bearer tok.1'')
              500 (Some 4) falsy_body example_db
            = (json 201 (MessageJob msg_created row),
               example_db\<lparr>jobs := jobs example_db @ [row]\<rparr>)
        \<and> salary_min row = None \<and> salary_max row = None
        \<and> salary_currency row = Some ''VND'' \<and> job_type row = Some ''Full-time''
        \<and> requirements row = None \<and> benefits row = None \<and> contact_phone row = None)
   \<and> (\<exists>row d'. route_put_job (jwt_verify example_decode 2000) ''s3cret'' (Some ''Bearer tok.1'')
              int4in_ascii 500 ''1'' falsy_body example_db
            = (json 200 (MessageJob msg_updated row), d')
        \<and> row \<in> set (jobs d')
        \<and> salary_min row = None \<and> salary_max row = None
        \<and> salary_currency row = Some ''VND'' \<and> job_type row = Some ''Full-time''
        \<and> requirements row = None \<and> benefits row = None \<and> contact_phone row = None)"
proof -
  note t = falsy_coalesced[OF example_header_Next falsy_body_valid(1,2),
      where now = 500 and nextval = "Some 4" and k = 4 and d = example_db
        and int4in = int4in_ascii and i = "''1''"]
  have k: "(4 :: int4) \<notin> set (map job_id (jobs example_db))"
    by (simp add: example_db_def job1_def job2_def job3_def)
  have j1: "job1 \<in> set (jobs example_db)" "int4in_ascii ''1'' = Some (job_id job1)"
    by (simp_all add: example_db_def job1_def int4in_ascii_examples)
  have s1: "status (fst (route_create_job (jwt_verify example_decode 2000) ''s3cret''
              (Some ''Bearer tok.1'') 500 (Some 4) falsy_body example_db)) = 201"
    by (rule t[THEN conjunct2, THEN conjunct2, THEN conjunct2, THEN conjunct1, THEN mp,
          OF conjI[OF falsy_body_valid(3) k]])
  have s2: "status (fst (route_put_job (jwt_verify example_decode 2000) ''s3cret''
              (Some ''Bearer tok.1'') int4in_ascii 500 ''1'' falsy_body example_db)) = 200"
    by (rule bspec[OF t[THEN conjunct2, THEN conjunct2, THEN conjunct2, THEN conjunct2] j1(1),
          THEN mp, OF conjI[OF falsy_body_valid(3) j1(2)]])
  from t have "route_create_job (jwt_verify example_decode 2000) ''s3cret'' (Some ''Bearer tok.1'')
              500 (Some 4) falsy_body example_db
          = (json 500 (Message msg_server_error), example_db)
        \<or> (\<exists>row. route_create_job (jwt_verify example_decode 2000) ''s3cret''
                (Some ''Bearer tok.1'') 500 (Some 4) falsy_body example_db =
                (json 201 (MessageJob msg_created row),
                 example_db\<lparr>jobs := jobs example_db @ [row]\<rparr>)
             \<and> (b_salary_min falsy_body = Val 0 \<longrightarrow> salary_min row = None)
             \<and> (b_salary_max falsy_body = Val 0 \<longrightarrow> salary_max row = None)
             \<and> (b_salary_currency falsy_body = Val [] \<longrightarrow> salary_currency row = Some ''VND'')
             \<and> (b_job_type falsy_body = Val [] \<longrightarrow> job_type row = Some ''Full-time'')
             \<and> (b_requirements falsy_body = Val [] \<longrightarrow> requirements row = None)
             \<and> (b_benefits falsy_body = Val [] \<longrightarrow> benefits row = None)
             \<and> (b_contact_phone falsy_body = Val [] \<longrightarrow> contact_phone row = None))"
    by (rule conjunct1[OF conjunct2])
  then have c: "\<exists>row. route_create_job (jwt_verify example_decode 2000) ''s3cret''
                (Some ''Bearer tok.1'') 500 (Some 4) falsy_body example_db =
                (json 201 (MessageJob msg_created row),
                 example_db\<lparr>jobs := jobs example_db @ [row]\<rparr>)
        \<and> salary_min row = None \<and> salary_max row = None
        \<and> salary_currency row = Some ''VND'' \<and> job_type row = Some ''Full-time''
        \<and> requirements row = None \<and> benefits row = None \<and> contact_phone row = None"
  proof (elim disjE exE conjE)
    assume "route_create_job (jwt_verify example_decode 2000) ''s3cret'' (Some ''Bearer tok.1'')
              500 (Some 4) falsy_body example_db
          = (json 500 (Message msg_server_error), example_db)"
    with s1 show ?thesis by (simp add: json_def)
  next
    fix row
    assume "route_create_job (jwt_verify example_decode 2000) ''s3cret''
                (Some ''Bearer tok.1'') 500 (Some 4) falsy_body example_db =
                (json 201 (MessageJob msg_created row),
                 example_db\<lparr>jobs := jobs example_db @ [row]\<rparr>)"
      and "b_salary_min falsy_body = Val 0 \<longrightarrow> salary_min row = None"
      and "b_salary_max falsy_body = Val 0 \<longrightarrow> salary_max row = None"
      and "b_salary_currency falsy_body = Val [] \<longrightarrow> salary_currency row = Some ''VND''"
      and "b_job_type falsy_body = Val [] \<longrightarrow> job_type row = Some ''Full-time''"
      and "b_requirements falsy_body = Val [] \<longrightarrow> requirements row = None"
      and "b_benefits falsy_body = Val [] \<longrightarrow> benefits row = None"
      and "b_contact_phone falsy_body = Val [] \<longrightarrow> contact_phone row = None"
    then show ?thesis
      by (intro exI[of _ row]) (simp only: falsy_body_fields simp_thms)
  qed
  from t have "route_put_job (jwt_verify example_decode 2000) ''s3cret'' (Some ''Bearer tok.1'')
              int4in_ascii 500 ''1'' falsy_body example_db
          = (json 500 (Message msg_server_error), example_db)
        \<or> route_put_job (jwt_verify example_decode 2000) ''s3cret'' (Some ''Bearer tok.1'')
              int4in_ascii 500 ''1'' falsy_body example_db
          = (json 404 (Message msg_job_not_found), example_db)
        \<or> (\<exists>row d'. route_put_job (jwt_verify example_decode 2000) ''s3cret''
                (Some ''Bearer tok.1'') int4in_ascii 500 ''1'' falsy_body example_db =
                (json 200 (MessageJob msg_updated row), d')
             \<and> row \<in> set (jobs d')
             \<and> (b_salary_min falsy_body = Val 0 \<longrightarrow> salary_min row = None)
             \<and> (b_salary_max falsy_body = Val 0 \<longrightarrow> salary_max row = None)
             \<and> (b_salary_currency falsy_body = Val [] \<longrightarrow> salary_currency row = Some ''VND'')
             \<and> (b_job_type falsy_body = Val [] \<longrightarrow> job_type row = Some ''Full-time'')
             \<and> (b_requirements falsy_body = Val [] \<longrightarrow> requirements row = None)
             \<and> (b_benefits falsy_body = Val [] \<longrightarrow> benefits row = None)
             \<and> (b_contact_phone falsy_body = Val [] \<longrightarrow> contact_phone row = None))"
    by (rule conjunct1[OF conjunct2[OF conjunct2]])
  then have u: "\<exists>row d'. route_put_job (jwt_verify example_decode 2000) ''s3cret''
                (Some ''Bearer tok.1'') int4in_ascii 500 ''1'' falsy_body example_db =
                (json 200 (MessageJob msg_updated row), d')
        \<and> row \<in> set (jobs d')
        \<and> salary_min row = None \<and> salary_max row = None
        \<and> salary_currency row = Some ''VND'' \<and> job_type row = Some ''Full-time''
        \<and> requirements row = None \<and> benefits row = None \<and> contact_phone row = None"
  proof (elim disjE exE conjE)
    assume "route_put_job (jwt_verify example_decode 2000) ''s3cret'' (Some ''Bearer tok.1'')
              int4in_ascii 500 ''1'' falsy_body example_db
          = (json 500 (Message msg_server_error), example_db)"
    with s2 show ?thesis by (simp add: json_def)
  next
    assume "route_put_job (jwt_verify example_decode 2000) ''s3cret'' (Some ''Bearer tok.1'')
              int4in_ascii 500 ''1'' falsy_body example_db
          = (json 404 (Message msg_job_not_found), example_db)"
    with s2 show ?thesis by (simp add: json_def)
  next
    fix row d'
    assume "route_put_job (jwt_verify example_decode 2000) ''s3cret''
                (Some ''Bearer tok.1'') int4in_ascii 500 ''1'' falsy_body example_db =
                (json 200 (MessageJob msg_updated row), d')"
      and "row \<in> set (jobs d')"
      and "b_salary_min falsy_body = Val 0 \<longrightarrow> salary_min row = None"
      and "b_salary_max falsy_body = Val 0 \<longrightarrow> salary_max row = None"
      and "b_salary_currency falsy_body = Val [] \<longrightarrow> salary_currency row = Some ''VND''"
      and "b_job_type falsy_body = Val [] \<longrightarrow> job_type row = Some ''Full-time''"
      and "b_requirements falsy_body = Val [] \<longrightarrow> requirements row = None"
      and "b_benefits falsy_body = Val [] \<longrightarrow> benefits row = None"
      and "b_contact_phone falsy_body = Val [] \<longrightarrow> contact_phone row = None"
    then show ?thesis
      by (intro exI[of _ row] exI[of _ d']) (simp only: falsy_body_fields simp_thms)
  qed
  from c u example_header_Next falsy_body_valid k j1 falsy_body_fields
  show ?thesis by (intro conjI)
qed

subsection \<open>Toggle\<close>

lemma toggle_row_key: "job_id (toggle_row now j) = job_id j"
  by (simp add: toggle_row_def)

lemma toggle_row_twice:
  "toggle_row t2 (toggle_row t1 j) = j\<lparr>updated_at := t2\<rparr>"
  by (cases "is_active j") (simp_all add: toggle_row_def)

lemma toggle_job_failed:
  "int4in i = None \<Longrightarrow> toggle_job int4in now i d = (json 500 (Message msg_server_error), d)"
  by (simp add: toggle_job_def toggle_update_def)

lemma toggle_job_missing:
  assumes "int4in i = Some k" and "\<forall>j \<in> set (jobs d). job_id j \<noteq> k"
  shows "toggle_job int4in now i d = (json 404 (Message msg_job_not_found), d)"
proof -
  have "filter (\<lambda>j. job_id j = k) (jobs d) = []"
    using assms(2) by (simp add: filter_empty_conv)
  moreover have "map (\<lambda>j. if job_id j = k then toggle_row now j else j) (jobs d) = jobs d"
    using assms(2) by (intro map_idI) simp
  ultimately show ?thesis
    by (simp add: toggle_job_def toggle_update_def assms(1))
qed

lemma toggle_job_found:
  assumes "int4in i = Some (job_id j)"
    and "distinct (map job_id (jobs d))" and "j \<in> set (jobs d)"
  shows "toggle_job int4in now i d =
           (json 200 (MessageJob
              ((if is_active (toggle_row now j) = Some True then msg_activate else msg_deactivate)
                @ msg_toggle_suffix) (toggle_row now j)),
            d\<lparr>jobs := map (\<lambda>r. if job_id r = job_id j then toggle_row now j else r) (jobs d)\<rparr>)"
proof -
  have "map (\<lambda>r. if job_id r = job_id j then toggle_row now r else r) (jobs d)
        = map (\<lambda>r. if job_id r = job_id j then toggle_row now j else r) (jobs d)"
    using key_unique[OF assms(2,3)] by (intro map_cong refl) auto
  then show ?thesis
    by (simp add: toggle_job_def toggle_update_def assms(1) filter_by_key[OF assms(2,3)])
qed

lemma replace_keeps_keys:
  "job_id j' = i \<Longrightarrow>
   map job_id (map (\<lambda>r. if job_id r = i then j' else r) rows) = map job_id rows"
  by (induction rows) auto

lemma replace_member:
  "j \<in> set rows \<Longrightarrow> job_id j = i \<Longrightarrow> j' \<in> set (map (\<lambda>r. if job_id r = i then j' else r) rows)"
  by (induction rows) auto

lemma replace_twice:
  "job_id j1 = i \<Longrightarrow>
   map (\<lambda>r. if job_id r = i then j2 else r) (map (\<lambda>r. if job_id r = i then j1 else r) rows)
     = map (\<lambda>r. if job_id r = i then j2 else r) rows"
  by (induction rows) auto

text \<open>
  C5, as the code has it. For a request that passed the auth gate and a job \<open>j\<close> (\<open>id\<close> a
  key) whose id the datastore reads from the text \<open>i\<close>: toggling at clock reading \<open>t1\<close>
  and again at \<open>t2\<close> answers 200 both times with the updated row and a message that says
  "activated" exactly when the returned \<open>is_active\<close> is true and "deactivated" otherwise;
  after the second application \<open>is_active\<close> has its original value (the row is \<open>j\<close> with
  only \<open>updated_at\<close> changed). Each application sets \<open>updated_at\<close> to the reading of
  the datastore clock, so \<open>updated_at\<close> increases strictly at an application exactly when
  that reading is later than the value stored. Toggling an id that the datastore reads as an
  integer that no row has answers 404, toggling an id that it does not read as a 32-bit
  integer answers 500, and both change nothing.
\<close>

theorem toggle_twice:
  assumes "authenticateToken verify secret authHeader = Next user"
    and "distinct (map job_id (jobs d))" and "j \<in> set (jobs d)"
    and "int4in i = Some (job_id j)"
  shows "\<exists>j1 j2 d1 d2.
      route_toggle_job verify secret authHeader int4in t1 i d =
        (json 200 (MessageJob ((if is_active j1 = Some True then msg_activate else msg_deactivate)
                                 @ msg_toggle_suffix) j1), d1)
    \<and> route_toggle_job verify secret authHeader int4in t2 i d1 =
        (json 200 (MessageJob ((if is_active j2 = Some True then msg_activate else msg_deactivate)
                                 @ msg_toggle_suffix) j2), d2)
    \<and> j1 = j\<lparr>is_active := map_option Not (is_active j), updated_at := t1\<rparr>
    \<and> j2 = j\<lparr>updated_at := t2\<rparr>
    \<and> d1 = d\<lparr>jobs := map (\<lambda>r. if job_id r = job_id j then j1 else r) (jobs d)\<rparr>
    \<and> d2 = d\<lparr>jobs := map (\<lambda>r. if job_id r = job_id j then j2 else r) (jobs d)\<rparr>
    \<and> is_active j2 = is_active j
    \<and> updated_at j1 = t1 \<and> updated_at j2 = t2
    \<and> (updated_at j < updated_at j1) = (updated_at j < t1)
    \<and> (updated_at j1 < updated_at j2) = (t1 < t2)
    \<and> msg_activate \<noteq> msg_deactivate
    \<and> (int4in i' = Some k \<and> (\<forall>r \<in> set (jobs d). job_id r \<noteq> k) \<longrightarrow>
          route_toggle_job verify secret authHeader int4in t1 i' d
            = (json 404 (Message msg_job_not_found), d))
    \<and> (int4in i' = None \<longrightarrow>
          route_toggle_job verify secret authHeader int4in t1 i' d
            = (json 500 (Message msg_server_error), d))"
proof -
  define j1 where "j1 = toggle_row t1 j"
  define j2 where "j2 = toggle_row t2 j1"
  define d1 where "d1 = d\<lparr>jobs := map (\<lambda>r. if job_id r = job_id j then j1 else r) (jobs d)\<rparr>"
  define d2 where "d2 = d\<lparr>jobs := map (\<lambda>r. if job_id r = job_id j then j2 else r) (jobs d)\<rparr>"
  have k1: "job_id j1 = job_id j" by (simp add: j1_def toggle_row_key)
  have first: "toggle_job int4in t1 i d =
        (json 200 (MessageJob ((if is_active j1 = Some True then msg_activate else msg_deactivate)
                                 @ msg_toggle_suffix) j1), d1)"
    using toggle_job_found[where int4in = int4in and i = i, OF assms(4,2,3), of t1]
    by (simp add: j1_def d1_def)
  have keys1: "distinct (map job_id (jobs d1))"
    using assms(2) by (simp add: d1_def replace_keeps_keys[OF k1] del: map_map)
  have mem1: "j1 \<in> set (jobs d1)"
    using replace_member[OF assms(3) refl] by (simp add: d1_def)
  have i1: "int4in i = Some (job_id j1)" by (simp add: assms(4) k1)
  have "toggle_job int4in t2 i d1 =
        (json 200 (MessageJob ((if is_active j2 = Some True then msg_activate else msg_deactivate)
                                 @ msg_toggle_suffix) j2),
         d1\<lparr>jobs := map (\<lambda>r. if job_id r = job_id j1 then j2 else r) (jobs d1)\<rparr>)"
    using toggle_job_found[where int4in = int4in and i = i, OF i1 keys1 mem1, of t2]
    by (simp add: j2_def)
  then have second: "toggle_job int4in t2 i d1 =
        (json 200 (MessageJob ((if is_active j2 = Some True then msg_activate else msg_deactivate)
                                 @ msg_toggle_suffix) j2), d2)"
    by (simp add: k1 d1_def d2_def replace_twice[OF k1] del: map_map)
  have e1: "j1 = j\<lparr>is_active := map_option Not (is_active j), updated_at := t1\<rparr>"
    by (simp add: j1_def toggle_row_def)
  have e2: "j2 = j\<lparr>updated_at := t2\<rparr>"
    by (simp add: j2_def j1_def toggle_row_twice)
  have times: "updated_at j1 = t1" "updated_at j2 = t2"
    "(updated_at j < updated_at j1) = (updated_at j < t1)"
    "(updated_at j1 < updated_at j2) = (t1 < t2)"
    by (simp_all add: e1 e2)
  have msgs: "msg_activate \<noteq> msg_deactivate"
    by (simp add: msg_activate_def msg_deactivate_def)
  have missing: "int4in i' = Some k \<and> (\<forall>r \<in> set (jobs d). job_id r \<noteq> k) \<longrightarrow>
          route_toggle_job verify secret authHeader int4in t1 i' d
            = (json 404 (Message msg_job_not_found), d)"
    unfolding route_toggle_job_Next[OF assms(1)]
    using toggle_job_missing[where int4in = int4in and i = i' and k = k and d = d and now = t1]
    by blast
  have failed: "int4in i' = None \<longrightarrow>
          route_toggle_job verify secret authHeader int4in t1 i' d
            = (json 500 (Message msg_server_error), d)"
    unfolding route_toggle_job_Next[OF assms(1)]
    using toggle_job_failed[where int4in = int4in and i = i' and d = d and now = t1]
    by blast
  have act: "is_active j2 = is_active j" by (simp add: e2)
  show ?thesis
    unfolding route_toggle_job_Next[OF assms(1)]
    apply (rule exI[of _ j1], rule exI[of _ j2], rule exI[of _ d1], rule exI[of _ d2])
    apply (intro conjI)
    apply (rule first, rule second, rule e1, rule e2, rule d1_def, rule d2_def, rule act)
    apply (rule times(1), rule times(2), rule times(3), rule times(4), rule msgs)
    apply (rule missing[unfolded route_toggle_job_Next[OF assms(1)]])
    apply (rule failed[unfolded route_toggle_job_Next[OF assms(1)]])
    done
qed

text \<open>
  The theorem on the inactive job 2 of the example datastore, toggled at 300 and at 400;
  the id 9 is answered 404.
\<close>

theorem toggle_twice_witness:
  "authenticateToken (jwt_verify example_decode 2000) ''s3cret'' (Some ''Bearer tok.1'')
      = Next (claims example_token)
   \<and> distinct (map job_id (jobs example_db)) \<and> job2 \<in> set (jobs example_db)
   \<and> int4in_ascii ''2'' = Some (job_id job2)
   \<and> int4in_ascii ''9'' = Some 9 \<and> (9 :: int4) \<notin> set (map job_id (jobs example_db))
   \<and> route_toggle_job (jwt_verify example_decode 2000) ''s3cret'' (Some ''Bearer tok.1'')
        int4in_ascii 300 ''2'' example_db =
        (json 200 (MessageJob (msg_activate @ msg_toggle_suffix)
                     (job2\<lparr>is_active := Some True, updated_at := 300\<rparr>)),
         example_db\<lparr>jobs := [job1, job2\<lparr>is_active := Some True, updated_at := 300\<rparr>, job3]\<rparr>)
   \<and> route_toggle_job (jwt_verify example_decode 2000) ''s3cret'' (Some ''Bearer tok.1'')
        int4in_ascii 400 ''2''
        (example_db\<lparr>jobs := [job1, job2\<lparr>is_active := Some True, updated_at := 300\<rparr>, job3]\<rparr>) =
        (json 200 (MessageJob (msg_deactivate @ msg_toggle_suffix) (job2\<lparr>updated_at := 400\<rparr>)),
         example_db\<lparr>jobs := [job1, job2\<lparr>updated_at := 400\<rparr>, job3]\<rparr>)
   \<and> route_toggle_job (jwt_verify example_decode 2000) ''s3cret'' (Some ''Bearer tok.1'')
        int4in_ascii 300 ''9'' example_db = (json 404 (Message msg_job_not_found), example_db)"
proof -
  have j2: "job2 \<in> set (jobs example_db)" "int4in_ascii ''2'' = Some (job_id job2)"
    "is_active job2 = Some False" "job_id job2 = 2"
    by (simp_all add: example_db_def job2_def int4in_ascii_examples)
  have ids: "job_id job1 = 1" "job_id job3 = 3" "jobs example_db = [job1, job2, job3]"
    by (simp_all add: example_db_def job1_def job3_def)
  have m: "int4in_ascii ''9'' = Some 9" "\<forall>r \<in> set (jobs example_db). job_id r \<noteq> 9"
    by (simp_all add: int4in_ascii_examples example_db_def job1_def job2_def job3_def)
  from toggle_twice[where int4in = int4in_ascii and i = "''2''" and i' = "''9''" and k = 9
      and ?t1.0 = 300 and ?t2.0 = 400, OF example_header_Next example_db_keys j2(1,2)]
  show ?thesis
    using example_header_Next example_db_keys j2 m
    by (auto simp add: ids)
qed

text \<open>
  C5 as the spec states it fails in two ways. Toggling the id \<open>2147483648\<close>, which no
  job has, is answered 500, not 404, the datastore not reading it as an \<open>INTEGER\<close>. And
  \<open>updated_at\<close> need not increase strictly: it is set to the reading of the datastore
  clock, and toggling job 2 twice at the one reading 300 leaves \<open>updated_at\<close> at 300 the
  second time.
\<close>

theorem toggle_counterexample:
  "map job_id (jobs example_db) = [1, 2, 3]
   \<and> route_toggle_job (jwt_verify example_decode 2000) ''s3cret'' (Some ''Bearer tok.1'')
        int4in_ascii 300 ''2147483648'' example_db
       = (json 500 (Message msg_server_error), example_db)
   \<and> map_option updated_at (body_job (body (fst
        (route_toggle_job (jwt_verify example_decode 2000) ''s3cret'' (Some ''Bearer tok.1'')
           int4in_ascii 300 ''2'' example_db)))) = Some 300
   \<and> map_option updated_at (body_job (body (fst
        (route_toggle_job (jwt_verify example_decode 2000) ''s3cret'' (Some ''Bearer tok.1'')
           int4in_ascii 300 ''2''
           (snd (route_toggle_job (jwt_verify example_decode 2000) ''s3cret''
                   (Some ''Bearer tok.1'') int4in_ascii 300 ''2'' example_db)))))) = Some 300"
  by code_simp

subsection \<open>Login\<close>

lemma login_rejected_text:
  assumes "l_username b = Val u" "u \<noteq> []" "l_password b = Val pw" "pw \<noteq> []"
    and "\<not> pg_text u"
  shows "login sign compare secret b d = json 500 (Message msg_server_error)"
  by (simp add: login_def select_admins_def assms)

lemma login_unknown:
  assumes "l_username b = Val u" "u \<noteq> []" "l_password b = Val pw" "pw \<noteq> []"
    and "pg_text u" and "\<forall>a \<in> set (admins d). username a \<noteq> u"
  shows "login sign compare secret b d = json 401 (Message msg_account_not_found)"
proof -
  have "filter (\<lambda>a. username a = u) (admins d) = []"
    using assms(6) by (simp add: filter_empty_conv)
  then show ?thesis
    by (simp add: login_def select_admins_def assms(1-5))
qed

lemma first_match:
  "a \<in> set rows \<Longrightarrow> P a \<Longrightarrow> \<exists>r rest. filter P rows = r # rest \<and> r \<in> set rows \<and> P r"
proof -
  assume "a \<in> set rows" "P a"
  then have "a \<in> set (filter P rows)" by simp
  then obtain r rest where f: "filter P rows = r # rest"
    by (cases "filter P rows") auto
  then have "r \<in> set (filter P rows)" by simp
  then have "r \<in> set rows" "P r" by simp_all
  with f show ?thesis by blast
qed

lemma login_known:
  assumes "l_username b = Val u" "u \<noteq> []" "l_password b = Val pw" "pw \<noteq> []"
    and "pg_text u" and "filter (\<lambda>r. username r = u) (admins d) = a # rest"
  shows "login sign compare secret b d =
           (case compare pw (password a) of
              None \<Rightarrow> json 500 (Message msg_server_error)
            | Some False \<Rightarrow> json 401 (Message msg_wrong_password)
            | Some True \<Rightarrow>
                json 200 (LoginOk msg_login_ok
                   (sign \<lparr>ident_id = sint (admin_id a), ident_username = username a\<rparr>
                      secret expiresIn)
                   \<lparr>info_id = sint (admin_id a), info_username = username a,
                    info_email = email a\<rparr>))"
  by (simp add: login_def select_admins_def assms)

lemma login_messages_differ: "msg_account_not_found \<noteq> msg_wrong_password"
  by (simp add: msg_account_not_found_def msg_wrong_password_def)

text \<open>
  C8, as the code has it. For every login request that supplies a non-empty username
  without a NUL character and a non-empty password: if the username matches no admin row
  the answer is 401 with the "account does not exist" message; if it matches an admin row
  and the comparison of the password with the hash of the first such row fails, the answer
  is 401 with the "wrong password" message; the two messages differ. A username with a NUL
  character is answered 500, the datastore rejecting it, and so is a comparison that
  throws.
\<close>

theorem login_failures:
  assumes "l_username b = Val u" and "u \<noteq> []" and "l_password b = Val pw" and "pw \<noteq> []"
  shows "(pg_text u \<and> (\<forall>a \<in> set (admins d). username a \<noteq> u) \<longrightarrow>
            login sign compare secret b d = json 401 (Message msg_account_not_found))
    \<and> (pg_text u \<and> filter (\<lambda>r. username r = u) (admins d) = a # rest
        \<and> compare pw (password a) = Some False \<longrightarrow>
            login sign compare secret b d = json 401 (Message msg_wrong_password))
    \<and> (\<forall>r \<in> set (admins d). username r = u \<longrightarrow>
          (\<exists>a rest. filter (\<lambda>r. username r = u) (admins d) = a # rest
             \<and> a \<in> set (admins d) \<and> username a = u))
    \<and> msg_account_not_found \<noteq> msg_wrong_password
    \<and> (\<not> pg_text u \<longrightarrow> login sign compare secret b d = json 500 (Message msg_server_error))
    \<and> (pg_text u \<and> filter (\<lambda>r. username r = u) (admins d) = a # rest
        \<and> compare pw (password a) = None \<longrightarrow>
            login sign compare secret b d = json 500 (Message msg_server_error))"
proof (intro conjI ballI impI)
  assume "pg_text u \<and> (\<forall>a \<in> set (admins d). username a \<noteq> u)"
  then have "pg_text u" "\<forall>a \<in> set (admins d). username a \<noteq> u" by simp_all
  with assms show "login sign compare secret b d = json 401 (Message msg_account_not_found)"
    by (rule login_unknown)
next
  assume h: "pg_text u \<and> filter (\<lambda>r. username r = u) (admins d) = a # rest
        \<and> compare pw (password a) = Some False"
  then have "pg_text u" "filter (\<lambda>r. username r = u) (admins d) = a # rest" by simp_all
  from login_known[OF assms this, of sign compare secret] h
  show "login sign compare secret b d = json 401 (Message msg_wrong_password)" by simp
next
  fix r assume "r \<in> set (admins d)" "username r = u"
  from first_match[of r "admins d" "\<lambda>r. username r = u", OF this]
  show "\<exists>a rest. filter (\<lambda>r. username r = u) (admins d) = a # rest
             \<and> a \<in> set (admins d) \<and> username a = u"
    by blast
next
  show "msg_account_not_found \<noteq> msg_wrong_password" by (rule login_messages_differ)
next
  assume "\<not> pg_text u"
  with assms show "login sign compare secret b d = json 500 (Message msg_server_error)"
    by (rule login_rejected_text)
next
  assume h: "pg_text u \<and> filter (\<lambda>r. username r = u) (admins d) = a # rest
        \<and> compare pw (password a) = None"
  then have "pg_text u" "filter (\<lambda>r. username r = u) (admins d) = a # rest" by simp_all
  from login_known[OF assms this, of sign compare secret] h
  show "login sign compare secret b d = json 500 (Message msg_server_error)" by simp
qed

lemma example_admins:
  "admins example_db = [example_admin]" "username example_admin = ''admin''"
  "password example_admin = ''#letmein''" "admin_id example_admin = 1"
  by (simp_all add: example_db_def example_admin_def)

text \<open>
  The theorem on the example datastore: an unknown username, and the admin with a wrong
  password.
\<close>

theorem login_failures_witness:
  "l_username \<lparr>l_username = Val ''ghost'', l_password = Val ''guess''\<rparr> = Val ''ghost''
   \<and> ''ghost'' \<noteq> [] \<and> ''guess'' \<noteq> [] \<and> pg_text ''ghost'' \<and> pg_text ''admin''
   \<and> ''ghost'' \<notin> set (map username (admins example_db))
   \<and> filter (\<lambda>r. username r = ''admin'') (admins example_db) = example_admin # []
   \<and> example_compare ''guess'' (password example_admin) = Some False
   \<and> login (jwt_sign example_encode 1000) example_compare ''s3cret''
        \<lparr>l_username = Val ''ghost'', l_password = Val ''guess''\<rparr> example_db
      = json 401 (Message msg_account_not_found)
   \<and> login (jwt_sign example_encode 1000) example_compare ''s3cret''
        \<lparr>l_username = Val ''admin'', l_password = Val ''guess''\<rparr> example_db
      = json 401 (Message msg_wrong_password)"
proof -
  have p: "pg_text ''ghost''" "pg_text ''admin''"
    by (simp_all add: pg_text_def)
  have g: "\<forall>a \<in> set (admins example_db). username a \<noteq> ''ghost''"
    by (simp add: example_admins)
  have f: "filter (\<lambda>r. username r = ''admin'') (admins example_db) = example_admin # []"
    by (simp add: example_admins)
  have c: "example_compare ''guess'' (password example_admin) = Some False"
    by (simp add: example_compare_def example_admins)
  have a: "login (jwt_sign example_encode 1000) example_compare ''s3cret''
        \<lparr>l_username = Val ''ghost'', l_password = Val ''guess''\<rparr> example_db
      = json 401 (Message msg_account_not_found)"
    using login_failures[of "\<lparr>l_username = Val ''ghost'', l_password = Val ''guess''\<rparr>"
        "''ghost''" "''guess''" example_db "jwt_sign example_encode 1000" example_compare
        "''s3cret''" example_admin "[]"] p g
    by simp
  have b: "login (jwt_sign example_encode 1000) example_compare ''s3cret''
        \<lparr>l_username = Val ''admin'', l_password = Val ''guess''\<rparr> example_db
      = json 401 (Message msg_wrong_password)"
    using login_failures[of "\<lparr>l_username = Val ''admin'', l_password = Val ''guess''\<rparr>"
        "''admin''" "''guess''" example_db "jwt_sign example_encode 1000" example_compare
        "''s3cret''" example_admin "[]"] p f c
    by simp
  have n: "''ghost'' \<notin> set (map username (admins example_db))"
    by (simp add: example_admins)
  from a b p n f c show ?thesis by simp
qed

text \<open>
  C8 as the spec states it fails in two ways. A request whose username matches no admin
  row and which carries no password is answered 400 by the guard on missing fields, not
  401. And a request whose username matches no admin row because it contains a NUL
  character is answered 500, the datastore rejecting the parameter.
\<close>

theorem login_missing_password_counterexample:
  "''ghost'' \<notin> set (map username (admins example_db))
   \<and> login (jwt_sign example_encode 1000) example_compare ''s3cret''
        \<lparr>l_username = Val ''ghost'', l_password = Undefined\<rparr> example_db
      = json 400 (Message msg_login_required)
   \<and> [CHR ''g'', CHR 0x00] \<notin> set (map username (admins example_db))
   \<and> login (jwt_sign example_encode 1000) example_compare ''s3cret''
        \<lparr>l_username = Val [CHR ''g'', CHR 0x00], l_password = Val ''guess''\<rparr> example_db
      = json 500 (Message msg_server_error)"
  by (simp add: login_def select_admins_def pg_text_def example_admins)

subsection \<open>Token lifetime\<close>

lemma login_ok:
  assumes "login sign compare secret b d = json 200 (LoginOk m tok info)"
  shows "\<exists>u pw a rest.
           l_username b = Val u \<and> u \<noteq> [] \<and> l_password b = Val pw \<and> pw \<noteq> []
         \<and> filter (\<lambda>r. username r = u) (admins d) = a # rest
         \<and> compare pw (password a) = Some True
         \<and> m = msg_login_ok
         \<and> tok = sign \<lparr>ident_id = sint (admin_id a), ident_username = username a\<rparr>
                    secret expiresIn
         \<and> info = \<lparr>info_id = sint (admin_id a), info_username = username a,
                    info_email = email a\<rparr>"
proof -
  from assms obtain u pw where b: "l_username b = Val u" "l_password b = Val pw"
    by (cases "l_username b"; cases "l_password b") (simp_all add: login_def json_def)
  from assms have ne: "u \<noteq> []" "pw \<noteq> []"
    by (auto simp add: login_def json_def b split: if_splits)
  from assms have p: "pg_text u"
    by (auto simp add: login_def json_def b ne select_admins_def split: if_splits)
  from assms obtain a rest where f: "filter (\<lambda>r. username r = u) (admins d) = a # rest"
    by (cases "filter (\<lambda>r. username r = u) (admins d)")
       (simp_all add: login_def json_def b ne p select_admins_def)
  note k = login_known[OF b(1) ne(1) b(2) ne(2) p f, of sign compare secret]
  from assms k have c: "compare pw (password a) = Some True"
    by (cases "compare pw (password a)") (auto simp add: json_def split: bool.splits)
  from assms k have "m = msg_login_ok
         \<and> tok = sign \<lparr>ident_id = sint (admin_id a), ident_username = username a\<rparr>
                    secret expiresIn
         \<and> info = \<lparr>info_id = sint (admin_id a), info_username = username a,
                    info_email = email a\<rparr>"
    by (simp add: c json_def)
  with b ne f c show ?thesis by blast
qed

lemma jwt_verify_issued:
  assumes "decode tok = Some (Jwt secret c)"
  shows "jwt_verify decode now tok secret = (if c_exp c \<le> now then Inl InvalidToken else Inr c)"
  by (simp add: jwt_verify_def assms)

text \<open>
  C7, against the token model. A login at time \<open>T\<close> succeeds only for a request whose
  username selects an admin row and whose password passes the hash comparison with that
  row's hash; it then returns the string form of a token signed under the server's secret
  whose claims are the id and username of that row (the one in the response) with
  issued-at \<open>T\<close> and expiry \<open>T\<close> plus 24 hours. Presented as \<open>Bearer <token>\<close>, the
  token passes the auth gate at \<open>T + 23h\<close>, with those claims as the identity, and is
  answered 403 "Invalid token" at \<open>T + 25h\<close>; it passes exactly before \<open>T + 24h\<close>. The
  assumptions on the string form: the decoder reads back the token that was encoded, and
  the string is non-empty and has no space.
\<close>

theorem token_lifetime:
  assumes "login (jwt_sign encode T) compare secret b d = json 200 (LoginOk m tok info)"
    and "\<And>t. encode t = tok \<Longrightarrow> decode tok = Some t"
    and "tok \<noteq> []" and "CHR '' '' \<notin> set tok"
  shows "\<exists>u pw a rest c.
      l_username b = Val u \<and> l_password b = Val pw
    \<and> filter (\<lambda>r. username r = u) (admins d) = a # rest
    \<and> compare pw (password a) = Some True
    \<and> username a = u
    \<and> tok = encode (Jwt secret c)
    \<and> c = \<lparr>c_id = sint (admin_id a), c_username = username a, c_iat = T,
            c_exp = T + 24 * 60 * 60\<rparr>
    \<and> info = \<lparr>info_id = sint (admin_id a), info_username = username a, info_email = email a\<rparr>
    \<and> authenticateToken (jwt_verify decode (T + 23 * 60 * 60)) secret (Some (''Bearer '' @ tok))
         = Next c
    \<and> authenticateToken (jwt_verify decode (T + 25 * 60 * 60)) secret (Some (''Bearer '' @ tok))
         = Responded (json 403 (Message ''Invalid token''))
    \<and> (\<forall>now. authenticateToken (jwt_verify decode now) secret (Some (''Bearer '' @ tok))
           = (if now < T + 24 * 60 * 60 then Next c
              else Responded (json 403 (Message ''Invalid token''))))"
proof -
  from login_ok[OF assms(1)] obtain u pw a rest where
    b: "l_username b = Val u" "l_password b = Val pw"
    and f: "filter (\<lambda>r. username r = u) (admins d) = a # rest"
    and cmp: "compare pw (password a) = Some True"
    and tok: "tok = jwt_sign encode T \<lparr>ident_id = sint (admin_id a), ident_username = username a\<rparr>
                      secret expiresIn"
    and info: "info = \<lparr>info_id = sint (admin_id a), info_username = username a,
                       info_email = email a\<rparr>"
    by blast
  have "a \<in> set (filter (\<lambda>r. username r = u) (admins d))" by (simp add: f)
  then have ua: "username a = u" by simp
  define c where "c = \<lparr>c_id = sint (admin_id a), c_username = username a, c_iat = T,
                        c_exp = T + 24 * 60 * 60\<rparr>"
  have enc: "tok = encode (Jwt secret c)"
    by (simp add: tok jwt_sign_def c_def expiresIn_def)
  then have dec: "decode tok = Some (Jwt secret c)"
    using assms(2) by simp
  have hdr: "header_token (Some (''Bearer '' @ tok)) = Some tok"
    using assms(4) by (rule header_token_bearer)
  have gate: "authenticateToken (jwt_verify decode now) secret (Some (''Bearer '' @ tok))
           = (if now < T + 24 * 60 * 60 then Next c
              else Responded (json 403 (Message ''Invalid token'')))" for now
    unfolding authenticateToken_def hdr
    by (simp add: assms(3) jwt_verify_issued[of decode tok secret c, OF dec] c_def
        msg_invalid_token_def)
  have g23: "authenticateToken (jwt_verify decode (T + 23 * 60 * 60)) secret
               (Some (''Bearer '' @ tok)) = Next c"
    unfolding gate by simp
  have g25: "authenticateToken (jwt_verify decode (T + 25 * 60 * 60)) secret
               (Some (''Bearer '' @ tok)) = Responded (json 403 (Message ''Invalid token''))"
    unfolding gate by simp
  have all: "\<forall>now. authenticateToken (jwt_verify decode now) secret (Some (''Bearer '' @ tok))
           = (if now < T + 24 * 60 * 60 then Next c
              else Responded (json 403 (Message ''Invalid token'')))"
    using gate by (rule allI)
  show ?thesis
    apply (rule exI[of _ u], rule exI[of _ pw], rule exI[of _ a], rule exI[of _ rest],
        rule exI[of _ c])
    apply (intro conjI)
    apply (rule b(1), rule b(2), rule f, rule cmp, rule ua, rule enc, rule c_def, rule info)
    apply (rule g23, rule g25, rule all)
    done
qed

lemma example_login:
  "login (jwt_sign example_encode 1000) example_compare ''s3cret''
     \<lparr>l_username = Val ''admin'', l_password = Val ''letmein''\<rparr> example_db
   = json 200 (LoginOk msg_login_ok ''tok.1''
       \<lparr>info_id = 1, info_username = ''admin'', info_email = ''admin@jobportal.com''\<rparr>)"
  by (simp add: login_def select_admins_def pg_text_def example_db_def example_admin_def
      example_compare_def jwt_sign_def expiresIn_def example_encode_def example_token_def)

lemma example_codec: "example_encode t = ''tok.1'' \<Longrightarrow> example_decode ''tok.1'' = Some t"
  by (simp add: example_encode_def example_decode_def split: if_splits)

text \<open>
  The theorem for the example admin logging in at time 1000.
\<close>

theorem token_lifetime_witness:
  "login (jwt_sign example_encode 1000) example_compare ''s3cret''
     \<lparr>l_username = Val ''admin'', l_password = Val ''letmein''\<rparr> example_db
   = json 200 (LoginOk msg_login_ok ''tok.1''
       \<lparr>info_id = 1, info_username = ''admin'', info_email = ''admin@jobportal.com''\<rparr>)
   \<and> ''tok.1'' \<noteq> [] \<and> CHR '' '' \<notin> set ''tok.1''
   \<and> authenticateToken (jwt_verify example_decode (1000 + 23 * 60 * 60)) ''s3cret''
        (Some ''Bearer tok.1'') = Next (claims example_token)
   \<and> authenticateToken (jwt_verify example_decode (1000 + 25 * 60 * 60)) ''s3cret''
        (Some ''Bearer tok.1'') = Responded (json 403 (Message ''Invalid token''))
   \<and> c_id (claims example_token) = 1 \<and> c_username (claims example_token) = ''admin''
   \<and> c_exp (claims example_token) - c_iat (claims example_token) = 24 * 60 * 60"
proof -
  have ne: "''tok.1'' \<noteq> []" and sp: "CHR '' '' \<notin> set ''tok.1''" by simp_all
  from token_lifetime[where encode = example_encode and decode = example_decode and T = 1000
      and compare = example_compare and secret = "''s3cret''" and d = example_db
      and tok = "''tok.1''", OF example_login example_codec ne sp]
  obtain c where enc: "''tok.1'' = example_encode (Jwt ''s3cret'' c)"
    and g23: "authenticateToken (jwt_verify example_decode (1000 + 23 * 60 * 60)) ''s3cret''
        (Some (''Bearer '' @ ''tok.1'')) = Next c"
    and g25: "authenticateToken (jwt_verify example_decode (1000 + 25 * 60 * 60)) ''s3cret''
        (Some (''Bearer '' @ ''tok.1'')) = Responded (json 403 (Message ''Invalid token''))"
    by blast
  from enc have "Jwt ''s3cret'' c = example_token"
    by (simp add: example_encode_def split: if_splits)
  then have c: "c = claims example_token" by (metis jwt.sel(2))
  have f: "c_id (claims example_token) = 1" "c_username (claims example_token) = ''admin''"
    "c_exp (claims example_token) - c_iat (claims example_token) = 24 * 60 * 60"
    by (simp_all add: example_token_def)
  from g23 g25 c example_login ne sp f show ?thesis by simp
qed

end
